theory Spec2Isabelle
  imports Complex_Main
begin

section \<open>Exceptions as values\<close>

text \<open>
  The exception classes of \<^verbatim>\<open>domain/exceptions.py\<close>, the two built-in classes that
  \<^verbatim>\<open>_correct_skew\<close> catches by name, Python's \<^verbatim>\<open>ZeroDivisionError\<close>, and
  \<open>OtherException c\<close> for every other subclass of \<^verbatim>\<open>Exception\<close> (the class name is
  kept), such as the ones the PDF, imaging and recognition libraries raise. An
  exception value carries its class and the text that \<^verbatim>\<open>str(e)\<close> gives.
\<close>

datatype exc_class =
    DomainError
  | ConfigurationError
  | OCRError
  | DocumentError
  | ProcessingError
  | StorageError
  | ZeroDivisionError
  | IndexError
  | ValueError
  | OtherException string

datatype exn = Exn exc_class string

fun exn_class :: "exn \<Rightarrow> exc_class" where
  "exn_class (Exn c msg) = c"

fun str_exn :: "exn \<Rightarrow> string" where
  "str_exn (Exn c msg) = msg"

text \<open>Sequencing of two computations that may raise: the first exception wins.\<close>

fun and_then :: "exn + 'a \<Rightarrow> ('a \<Rightarrow> exn + 'b) \<Rightarrow> exn + 'b" where
  "and_then (Inl e) f = Inl e"
| "and_then (Inr x) f = f x"

section \<open>Paths\<close>

text \<open>
  A \<^verbatim>\<open>pathlib.Path\<close> is the list of its components; \<open>d @ [n]\<close> is \<^verbatim>\<open>d / n\<close>
  for a name \<open>n\<close> that is one relative component, as the stem of a file's path is.
  \<^verbatim>\<open>str(p)\<close> joins the components with a slash.
\<close>

type_synonym path = "string list"

fun join :: "'a list \<Rightarrow> 'a list list \<Rightarrow> 'a list" where
  "join sep [] = []"
| "join sep [x] = x"
| "join sep (x # y # ys) = x @ sep @ join sep (y # ys)"

definition str_path :: "path \<Rightarrow> string" where
  "str_path p = join ''/'' p"

definition path_name :: "path \<Rightarrow> string" where
  "path_name p = (if p = [] then [] else last p)"

definition path_parent :: "path \<Rightarrow> path" where
  "path_parent p = butlast p"

text \<open>\<^verbatim>\<open>str.rfind\<close> of one character: the last index where it stands.\<close>

definition rfind :: "string \<Rightarrow> char \<Rightarrow> nat option" where
  "rfind s c =
     (if c \<in> set s then Some (length s - 1 - length (takeWhile (\<lambda>x. x \<noteq> c) (rev s)))
      else None)"

text \<open>
  \<^verbatim>\<open>PurePath.stem\<close>: the name up to its last dot, unless that dot is the first or the
  last character of the name.
\<close>

definition path_stem :: "path \<Rightarrow> string" where
  "path_stem p =
     (let name = path_name p in
      case rfind name (CHR ''.'') of
        None \<Rightarrow> name
      | Some i \<Rightarrow> if 0 < i \<and> i < length name - 1 then take i name else name)"

section \<open>PDF metrics and classification (\<^verbatim>\<open>application/services/pdf_analyzer.py\<close>)\<close>

datatype PDFType = SCANNED | NATIVE_TEXT | MIXED | TABLE_HEAVY | IMAGE_HEAVY

text \<open>
  The metrics dictionary, one field per key. Counters are Python integers. The three
  ratios are the results of Python's true division, floating-point numbers in the
  source; they are idealised as real numbers here, as are the products
  \<^verbatim>\<open>total_pages * 0.3\<close> and \<^verbatim>\<open>total_pages * 0.8\<close>.
\<close>

record PDFMetrics =
  total_pages :: int
  text_extractable_pages :: int
  total_text_length :: int
  total_images :: int
  total_tables :: int
  avg_text_per_page :: real
  has_fonts :: bool
  image_to_page_ratio :: real
  table_to_page_ratio :: real

text \<open>
  What the two PDF readers give for one page. Each call may raise. \<^verbatim>\<open>extract_text\<close>
  returns a string or \<^verbatim>\<open>None\<close>, \<^verbatim>\<open>extract_tables\<close> a list of tables (rows of
  optional cells) or a falsy value.
\<close>

type_synonym table = "string option list list"

record plumber_page =
  page_extract_text :: "exn + string option"
  page_extract_tables :: "exn + table list option"

record fitz_page =
  page_get_images :: "exn + string list"
  page_get_fonts :: "exn + string list"

text \<open>
  The names \<^verbatim>\<open>pdfplumber\<close> and \<^verbatim>\<open>fitz\<close> are looked up in the module's globals
  when \<^verbatim>\<open>_extract_pdf_metrics\<close> runs; the module itself binds neither (it has no
  import of them), so they are parameters of the model. A lookup that fails
  (\<^verbatim>\<open>NameError\<close>), a missing file and a corrupt file are all the \<open>Inl\<close> branch of
  the opener.
\<close>

record pdf_libs =
  pdfplumber_open :: "path \<Rightarrow> exn + plumber_page list"
  fitz_open :: "path \<Rightarrow> exn + fitz_page list"

text \<open>
  \<^verbatim>\<open>str.strip()\<close> removes leading and trailing whitespace, so \<^verbatim>\<open>text.strip()\<close> is
  truthy exactly when some character is not whitespace. Characters are bytes here; the
  whitespace characters are the ASCII ones of \<^verbatim>\<open>str.isspace\<close>.
\<close>

definition is_space :: "char \<Rightarrow> bool" where
  "is_space c = (of_char c \<in> {9, 10, 11, 12, 13, 28, 29, 30, 31, 32 :: nat})"

definition strip_truthy :: "string \<Rightarrow> bool" where
  "strip_truthy text = (\<exists>c \<in> set text. \<not> is_space c)"

definition initial_metrics :: PDFMetrics where
  "initial_metrics =
     \<lparr> total_pages = 0, text_extractable_pages = 0, total_text_length = 0,
       total_images = 0, total_tables = 0, avg_text_per_page = 0, has_fonts = False,
       image_to_page_ratio = 0, table_to_page_ratio = 0 \<rparr>"

text \<open>The body of \<^verbatim>\<open>for page in pdf.pages\<close>, for one page.\<close>

definition plumber_step :: "PDFMetrics \<Rightarrow> plumber_page \<Rightarrow> exn + PDFMetrics" where
  "plumber_step metrics page =
     and_then (page_extract_text page) (\<lambda>text.
       let metrics1 =
             (case text of
                None \<Rightarrow> metrics
              | Some t \<Rightarrow>
                  if t \<noteq> [] \<and> strip_truthy t
                  then metrics\<lparr> text_extractable_pages := text_extractable_pages metrics + 1,
                                total_text_length := total_text_length metrics + int (length t) \<rparr>
                  else metrics)
       in and_then (page_extract_tables page) (\<lambda>tables.
            Inr (metrics1\<lparr> total_tables := total_tables metrics1 +
                   (case tables of
                      None \<Rightarrow> 0
                    | Some ts \<Rightarrow> if ts \<noteq> [] then int (length ts) else 0) \<rparr>)))"

fun plumber_loop :: "PDFMetrics \<Rightarrow> plumber_page list \<Rightarrow> exn + PDFMetrics" where
  "plumber_loop metrics [] = Inr metrics"
| "plumber_loop metrics (page # pages) =
     and_then (plumber_step metrics page) (\<lambda>metrics1. plumber_loop metrics1 pages)"

text \<open>The body of \<^verbatim>\<open>for page in doc\<close>, for one page.\<close>

definition fitz_step :: "PDFMetrics \<Rightarrow> fitz_page \<Rightarrow> exn + PDFMetrics" where
  "fitz_step metrics page =
     and_then (page_get_images page) (\<lambda>image_list.
       let metrics1 = metrics\<lparr> total_images := total_images metrics + int (length image_list) \<rparr>
       in and_then (page_get_fonts page) (\<lambda>fonts.
            Inr (if fonts \<noteq> [] then metrics1\<lparr> has_fonts := True \<rparr> else metrics1)))"

fun fitz_loop :: "PDFMetrics \<Rightarrow> fitz_page list \<Rightarrow> exn + PDFMetrics" where
  "fitz_loop metrics [] = Inr metrics"
| "fitz_loop metrics (page # pages) =
     and_then (fitz_step metrics page) (\<lambda>metrics1. fitz_loop metrics1 pages)"

text \<open>Python's \<^verbatim>\<open>a / b\<close> on integers: it raises when the divisor is zero.\<close>

definition truediv :: "int \<Rightarrow> int \<Rightarrow> exn + real" where
  "truediv a b =
     (if b = 0 then Inl (Exn ZeroDivisionError ''division by zero'')
      else Inr (real_of_int a / real_of_int b))"

text \<open>The block under \<^verbatim>\<open># Calculos derivados\<close>.\<close>

definition derived_ratios :: "PDFMetrics \<Rightarrow> exn + PDFMetrics" where
  "derived_ratios metrics =
     (if total_pages metrics > 0 then
        and_then (truediv (total_text_length metrics) (total_pages metrics)) (\<lambda>a.
        and_then (truediv (total_images metrics) (total_pages metrics)) (\<lambda>i.
        and_then (truediv (total_tables metrics) (total_pages metrics)) (\<lambda>t.
          Inr (metrics\<lparr> avg_text_per_page := a, image_to_page_ratio := i,
                         table_to_page_ratio := t \<rparr>))))
      else Inr metrics)"

definition extract_pdf_metrics :: "pdf_libs \<Rightarrow> path \<Rightarrow> exn + PDFMetrics" where
  "extract_pdf_metrics libs pdf_path =
     and_then (pdfplumber_open libs pdf_path) (\<lambda>pages.
     and_then (plumber_loop (initial_metrics\<lparr> total_pages := int (length pages) \<rparr>) pages) (\<lambda>metrics1.
     and_then (fitz_open libs pdf_path) (\<lambda>doc.
     and_then (fitz_loop metrics1 doc) (\<lambda>metrics2.
       derived_ratios metrics2))))"

text \<open>\<^verbatim>\<open>_classify_pdf_type\<close>: four guarded returns and the default, in source order.\<close>

definition classify_pdf_type :: "PDFMetrics \<Rightarrow> PDFType" where
  "classify_pdf_type metrics =
     (if \<not> has_fonts metrics \<and>
         real_of_int (text_extractable_pages metrics) < real_of_int (total_pages metrics) * 0.3 \<and>
         image_to_page_ratio metrics > 0.5
      then SCANNED
      else if table_to_page_ratio metrics > 0.8 then TABLE_HEAVY
      else if image_to_page_ratio metrics > 1.5 then IMAGE_HEAVY
      else if has_fonts metrics \<and>
         real_of_int (text_extractable_pages metrics) > real_of_int (total_pages metrics) * 0.8 \<and>
         avg_text_per_page metrics > 100
      then NATIVE_TEXT
      else MIXED)"




section \<open>Image preprocessing and recognition adapters\<close>

subsection \<open>The imaging library\<close>

text \<open>
  The OpenCV calls the adapters make, as parameters: each takes the image and the
  arguments the source passes, and may raise. The image type is a parameter as well.
  \<open>shape\<close> is \<^verbatim>\<open>image.shape\<close>. A line of \<^verbatim>\<open>cv2.HoughLines\<close> is a nested array,
  \<^verbatim>\<open>[[rho, theta]]\<close> when well formed. Angles are floating-point numbers in the
  source and real numbers here. \<open>RotationMatrix2D center angle scale\<close> stands for the
  matrix that \<^verbatim>\<open>cv2.getRotationMatrix2D\<close> computes from these arguments; an
  exception of that call is counted with those of \<^verbatim>\<open>cv2.warpAffine\<close>, which takes
  its result.
\<close>

datatype interpolation = INTER_NEAREST | INTER_LINEAR | INTER_CUBIC

datatype border_mode = BORDER_CONSTANT | BORDER_REPLICATE

datatype morph_op = MORPH_OPEN | MORPH_CLOSE

datatype adaptive_method = ADAPTIVE_THRESH_MEAN_C | ADAPTIVE_THRESH_GAUSSIAN_C

datatype threshold_type = THRESH_BINARY | THRESH_BINARY_INV

datatype rotation_matrix = RotationMatrix2D "int \<times> int" real real

type_synonym hough_line = "real list list"

record 'img cv2_lib =
  shape :: "'img \<Rightarrow> int list"
  cvtColor_RGB2GRAY :: "'img \<Rightarrow> exn + 'img"
  bilateralFilter :: "'img \<Rightarrow> int \<Rightarrow> real \<Rightarrow> real \<Rightarrow> exn + 'img"
  clahe_apply :: "real \<Rightarrow> int \<times> int \<Rightarrow> 'img \<Rightarrow> exn + 'img"
  Canny :: "'img \<Rightarrow> real \<Rightarrow> real \<Rightarrow> int \<Rightarrow> exn + 'img"
  HoughLines :: "'img \<Rightarrow> real \<Rightarrow> real \<Rightarrow> int \<Rightarrow> exn + hough_line list option"
  warpAffine :: "'img \<Rightarrow> rotation_matrix \<Rightarrow> int \<times> int \<Rightarrow> interpolation \<Rightarrow> border_mode \<Rightarrow> exn + 'img"
  adaptiveThreshold :: "'img \<Rightarrow> int \<Rightarrow> adaptive_method \<Rightarrow> threshold_type \<Rightarrow> int \<Rightarrow> real \<Rightarrow> exn + 'img"
  morphologyEx :: "'img \<Rightarrow> morph_op \<Rightarrow> int \<times> int \<Rightarrow> exn + 'img"
  medianBlur :: "'img \<Rightarrow> int \<Rightarrow> exn + 'img"

subsection \<open>Skew correction (\<^verbatim>\<open>ocr_adapters.py\<close>, \<^verbatim>\<open>_correct_skew\<close>)\<close>

text \<open>
  \<^verbatim>\<open>rho, theta = line[0]\<close> raises \<^verbatim>\<open>IndexError\<close> on an empty line and
  \<^verbatim>\<open>ValueError\<close> when \<^verbatim>\<open>line[0]\<close> does not hold two values; then the angle is
  \<^verbatim>\<open>theta * 180 / np.pi - 90\<close>.
\<close>

fun line_angle :: "hough_line \<Rightarrow> exn + real" where
  "line_angle [] = Inl (Exn IndexError ''index 0 is out of bounds'')"
| "line_angle ([rho, theta] # rest) = Inr (theta * 180 / pi - 90)"
| "line_angle (other # rest) = Inl (Exn ValueError ''cannot unpack'')"

text \<open>
  The loop over the sampled lines: an angle is appended when its magnitude is below 45;
  a malformed line is skipped by the inner handler, which catches \<^verbatim>\<open>IndexError\<close> and
  \<^verbatim>\<open>ValueError\<close>, the only classes \<open>line_angle\<close> raises.
\<close>

fun collect_angles :: "real list \<Rightarrow> hough_line list \<Rightarrow> real list" where
  "collect_angles angles [] = angles"
| "collect_angles angles (line # lines) =
     (case line_angle line of
        Inl e \<Rightarrow> collect_angles angles lines
      | Inr angle \<Rightarrow>
          if \<bar>angle\<bar> < 45 then collect_angles (angles @ [angle]) lines
          else collect_angles angles lines)"

text \<open>
  \<^verbatim>\<open>np.median\<close> of a non-empty list: the middle value of the sorted list, or the mean
  of the two middle values when the length is even.
\<close>

definition np_median :: "real list \<Rightarrow> real" where
  "np_median xs =
     (let s = sort xs; n = length s in
      if odd n then s ! (n div 2) else (s ! (n div 2 - 1) + s ! (n div 2)) / 2)"

text \<open>\<^verbatim>\<open>h, w = image.shape\<close> raises unless the shape has two entries.\<close>

fun unpack_shape :: "int list \<Rightarrow> exn + (int \<times> int)" where
  "unpack_shape [h, w] = Inr (h, w)"
| "unpack_shape other = Inl (Exn ValueError ''cannot unpack'')"

text \<open>The body of the outer \<^verbatim>\<open>try\<close>: the image to return, or the exception raised.\<close>

definition correct_skew_try :: "'img cv2_lib \<Rightarrow> 'img \<Rightarrow> exn + 'img" where
  "correct_skew_try cv img =
     and_then (Canny cv img 50 150 3) (\<lambda>edges.
     and_then (HoughLines cv edges 1 (pi / 180) 100) (\<lambda>lines.
       case lines of
         None \<Rightarrow> Inr img
       | Some ls \<Rightarrow>
           if length ls > 0 then
             (let angles = collect_angles [] (take (min 10 (length ls)) ls) in
              if angles \<noteq> [] then
                (let rotation_angle = np_median angles in
                 if \<bar>rotation_angle\<bar> > 0.5 then
                   and_then (unpack_shape (shape cv img)) (\<lambda>(h, w).
                     let center = (w div 2, h div 2);
                         matrix = RotationMatrix2D center rotation_angle 1.0
                     in warpAffine cv img matrix (w, h) INTER_CUBIC BORDER_REPLICATE)
                 else Inr img)
              else Inr img)
           else Inr img))"

text \<open>
  \<^verbatim>\<open>_correct_skew\<close>: the outer handler catches every \<^verbatim>\<open>Exception\<close>, logs it at debug
  level and falls through to \<^verbatim>\<open>return image\<close>, where \<^verbatim>\<open>image\<close> is still the argument.
\<close>

definition correct_skew :: "'img cv2_lib \<Rightarrow> 'img \<Rightarrow> 'img" where
  "correct_skew cv img =
     (case correct_skew_try cv img of Inl e \<Rightarrow> img | Inr rotated \<Rightarrow> rotated)"

subsection \<open>The adapters of \<^verbatim>\<open>ocr_adapters.py\<close>\<close>

record adapter_base =
  lang :: string
  dpi :: int

record ocr_adapters_OpenCV = adapter_base +
  enable_deskewing :: bool
  enable_denoising :: bool
  enable_contrast_enhancement :: bool

text \<open>\<^verbatim>\<open>TesseractOpenCVAdapter._preprocess_image\<close> of \<^verbatim>\<open>ocr_adapters.py\<close>.\<close>

definition ocr_adapters_OpenCV_preprocess_image ::
  "'img cv2_lib \<Rightarrow> ocr_adapters_OpenCV \<Rightarrow> 'img \<Rightarrow> exn + 'img" where
  "ocr_adapters_OpenCV_preprocess_image cv self img =
     and_then (if length (shape cv img) = 3 then cvtColor_RGB2GRAY cv img else Inr img) (\<lambda>gray.
     and_then (if enable_denoising self then bilateralFilter cv gray 9 75 75 else Inr gray) (\<lambda>gray1.
     and_then (if enable_contrast_enhancement self then clahe_apply cv 2.0 (8, 8) gray1 else Inr gray1) (\<lambda>gray2.
     and_then (if enable_deskewing self then Inr (correct_skew cv gray2) else Inr gray2) (\<lambda>gray3.
     and_then (adaptiveThreshold cv gray3 255 ADAPTIVE_THRESH_GAUSSIAN_C THRESH_BINARY 11 2) (\<lambda>binary.
     and_then (morphologyEx cv binary MORPH_CLOSE (1, 1)) (\<lambda>binary1.
       morphologyEx cv binary1 MORPH_OPEN (1, 1)))))))"

text \<open>
  The rasterizer and the recognition engine, and the two introspection calls of the
  engine, as parameters.
\<close>

record 'img ocr_libs =
  convert_from_path :: "path \<Rightarrow> int \<Rightarrow> exn + 'img list"
  image_to_string :: "'img \<Rightarrow> string \<Rightarrow> exn + string"
  get_languages :: "exn + string list"
  get_tesseract_version :: "exn + string"
  cv2_version :: "exn + string"
  cv2 :: "'img cv2_lib"

text \<open>
  The page loop of every \<^verbatim>\<open>extract_text\<close>: each page goes through \<open>prep\<close> and the
  engine, and its text is appended; the first exception ends the loop.
\<close>

fun page_loop ::
  "('img \<Rightarrow> exn + 'img) \<Rightarrow> ('img \<Rightarrow> exn + string) \<Rightarrow> string list \<Rightarrow> 'img list \<Rightarrow> exn + string list" where
  "page_loop prep engine extracted_text [] = Inr extracted_text"
| "page_loop prep engine extracted_text (img # imgs) =
     and_then (prep img) (\<lambda>processed_image.
     and_then (engine processed_image) (\<lambda>text.
       page_loop prep engine (extracted_text @ [text]) imgs))"

definition newline2 :: string where
  "newline2 = [CHR 0x0A, CHR 0x0A]"

text \<open>\<^verbatim>\<open>TesseractAdapter.extract_text\<close> of \<^verbatim>\<open>ocr_adapters.py\<close>: no handler.\<close>

definition ocr_adapters_Tesseract_extract_text ::
  "'img ocr_libs \<Rightarrow> adapter_base \<Rightarrow> path \<Rightarrow> exn + string" where
  "ocr_adapters_Tesseract_extract_text libs self pdf_path =
     and_then (convert_from_path libs pdf_path (dpi self)) (\<lambda>imgs.
     and_then (page_loop Inr (\<lambda>img. image_to_string libs img (lang self)) [] imgs) (\<lambda>extracted_text.
       Inr (join newline2 extracted_text)))"

text \<open>\<^verbatim>\<open>TesseractOpenCVAdapter.extract_text\<close> of \<^verbatim>\<open>ocr_adapters.py\<close>: no handler.\<close>

definition ocr_adapters_OpenCV_extract_text ::
  "'img ocr_libs \<Rightarrow> ocr_adapters_OpenCV \<Rightarrow> path \<Rightarrow> exn + string" where
  "ocr_adapters_OpenCV_extract_text libs self pdf_path =
     and_then (convert_from_path libs pdf_path (dpi self)) (\<lambda>imgs.
     and_then (page_loop (ocr_adapters_OpenCV_preprocess_image (cv2 libs) self)
                 (\<lambda>img. image_to_string libs img (lang self)) [] imgs) (\<lambda>extracted_text.
       Inr (join newline2 extracted_text)))"

subsection \<open>The adapters of \<^verbatim>\<open>adapters/ocr/\<close>, which the factory creates\<close>

record tesseract_adapter = adapter_base +
  last_confidence :: real

text \<open>\<^verbatim>\<open>__init__\<close> of both classes: the two arguments, and \<^verbatim>\<open>last_confidence = 0.0\<close>.\<close>

definition adapter_init :: "string \<Rightarrow> int \<Rightarrow> tesseract_adapter" where
  "adapter_init l d = \<lparr> lang = l, dpi = d, last_confidence = 0.0 \<rparr>"

text \<open>
  The handler of both \<^verbatim>\<open>extract_text\<close> methods: every \<^verbatim>\<open>Exception\<close> is replaced by
  a \<^verbatim>\<open>ProcessingError\<close> whose text is a fixed prefix and \<^verbatim>\<open>str(e)\<close>.
\<close>

definition reraise_ProcessingError :: "string \<Rightarrow> exn + 'a \<Rightarrow> exn + 'a" where
  "reraise_ProcessingError prefix r =
     (case r of Inl e \<Rightarrow> Inl (Exn ProcessingError (prefix @ str_exn e)) | Inr x \<Rightarrow> Inr x)"

text \<open>The prefixes, in UTF-8; the first has an accented letter.\<close>

definition basic_prefix :: string where
  "basic_prefix = ''Error en OCR b'' @ [CHR 0xC3, CHR 0xA1] @ ''sico: ''"

definition opencv_prefix :: string where
  "opencv_prefix = ''Error en OCR con OpenCV: ''"

text \<open>
  Methods take the object and return it with their result, so that a method which
  assigned to a field would show.
\<close>

definition TesseractAdapter_extract_text ::
  "'img ocr_libs \<Rightarrow> tesseract_adapter \<Rightarrow> path \<Rightarrow> (exn + string) \<times> tesseract_adapter" where
  "TesseractAdapter_extract_text libs self pdf_path =
     (reraise_ProcessingError basic_prefix
        (and_then (convert_from_path libs pdf_path (dpi self)) (\<lambda>imgs.
         and_then (page_loop Inr (\<lambda>img. image_to_string libs img (lang self)) [] imgs) (\<lambda>extracted_text.
           Inr (join newline2 extracted_text)))),
      self)"

text \<open>\<^verbatim>\<open>TesseractOpenCVAdapter._preprocess_image\<close> of \<^verbatim>\<open>adapters/ocr/\<close>.\<close>

definition TesseractOpenCVAdapter_preprocess_image :: "'img cv2_lib \<Rightarrow> 'img \<Rightarrow> exn + 'img" where
  "TesseractOpenCVAdapter_preprocess_image cv img =
     and_then (cvtColor_RGB2GRAY cv img) (\<lambda>gray.
     and_then (adaptiveThreshold cv gray 255 ADAPTIVE_THRESH_GAUSSIAN_C THRESH_BINARY 11 2) (\<lambda>binary.
       medianBlur cv binary 3))"

definition TesseractOpenCVAdapter_extract_text ::
  "'img ocr_libs \<Rightarrow> tesseract_adapter \<Rightarrow> path \<Rightarrow> (exn + string) \<times> tesseract_adapter" where
  "TesseractOpenCVAdapter_extract_text libs self pdf_path =
     (reraise_ProcessingError opencv_prefix
        (and_then (convert_from_path libs pdf_path (dpi self)) (\<lambda>imgs.
         and_then (page_loop (TesseractOpenCVAdapter_preprocess_image (cv2 libs))
                     (\<lambda>img. image_to_string libs img (lang self)) [] imgs) (\<lambda>extracted_text.
           Inr (join newline2 extracted_text)))),
      self)"

definition get_confidence :: "tesseract_adapter \<Rightarrow> real \<times> tesseract_adapter" where
  "get_confidence self = (last_confidence self, self)"

section \<open>Storage (\<^verbatim>\<open>infrastructure/adapters/storage/file_storage.py\<close>)\<close>

subsection \<open>The file system\<close>

text \<open>
  The file system is a finite association from paths to nodes; the first entry for a
  path is the current one. A path is looked up as it is written: one that the
  operating system resolves to another entry, as \<^verbatim>\<open>d/.\<close> and \<^verbatim>\<open>d/..\<close> are, exists
  when the association lists it. What a file holds is kept as the value written, not
  as its serialisation. \<open>io_error\<close> is the operating system's refusal: the exception that
  creating or writing a given path raises, if any.
\<close>

record metadata =
  md_id :: string
  md_name :: string
  md_text_length :: int
  md_tables_count :: int
  md_confidence :: "real option"
  md_processing_time :: "real option"

datatype content =
    TextFile string
  | TablesJson "table list"
  | MetadataJson metadata
  | Bytes string

datatype node = Dir | File content

type_synonym fs = "(path \<times> node) list"

record sys_env =
  uuid4 :: string
  io_error :: "path \<Rightarrow> exn option"
  elapsed :: real

definition path_exists :: "fs \<Rightarrow> path \<Rightarrow> bool" where
  "path_exists files p = (map_of files p \<noteq> None)"

text \<open>Operations on the file system return their result and the file system they leave.\<close>

definition io_return :: "'a \<Rightarrow> fs \<Rightarrow> (exn + 'a) \<times> fs" where
  "io_return x files = (Inr x, files)"

definition io_then ::
  "(fs \<Rightarrow> (exn + 'a) \<times> fs) \<Rightarrow> ('a \<Rightarrow> fs \<Rightarrow> (exn + 'b) \<times> fs) \<Rightarrow> fs \<Rightarrow> (exn + 'b) \<times> fs" where
  "io_then m f files =
     (case m files of
        (Inl e, files1) \<Rightarrow> (Inl e, files1)
      | (Inr x, files1) \<Rightarrow> f x files1)"

text \<open>
  \<^verbatim>\<open>Path.mkdir(parents=True, exist_ok=True)\<close>: the directory and its missing ancestors
  are created; a file of that name is an error.
\<close>

definition ancestors_and_self :: "path \<Rightarrow> path list" where
  "ancestors_and_self p = map (\<lambda>n. take n p) [1..<Suc (length p)]"

definition mkdir_parents :: "sys_env \<Rightarrow> path \<Rightarrow> fs \<Rightarrow> (exn + unit) \<times> fs" where
  "mkdir_parents env p files =
     (case io_error env p of
        Some e \<Rightarrow> (Inl e, files)
      | None \<Rightarrow>
          (case map_of files p of
             Some (File c) \<Rightarrow> (Inl (Exn (OtherException ''FileExistsError'') (str_path p)), files)
           | _ \<Rightarrow>
             (Inr (), fold (\<lambda>q f. if path_exists f q then f else (q, Dir) # f)
                        (ancestors_and_self p) files)))"

text \<open>\<^verbatim>\<open>open(p, "w")\<close> and the write into it.\<close>

definition write_file :: "sys_env \<Rightarrow> path \<Rightarrow> content \<Rightarrow> fs \<Rightarrow> (exn + unit) \<times> fs" where
  "write_file env p c files =
     (case io_error env p of
        Some e \<Rightarrow> (Inl e, files)
      | None \<Rightarrow> (Inr (), (p, File c) # files))"

text \<open>\<^verbatim>\<open>shutil.copy2\<close> of a path that exists.\<close>

definition copy2 :: "sys_env \<Rightarrow> path \<Rightarrow> path \<Rightarrow> fs \<Rightarrow> (exn + unit) \<times> fs" where
  "copy2 env src dst files =
     (case map_of files src of
        Some (File c) \<Rightarrow> write_file env dst c files
      | _ \<Rightarrow> (Inl (Exn (OtherException ''IsADirectoryError'') (str_path src)), files))"

subsection \<open>Decimal formatting\<close>

text \<open>
  \<^verbatim>\<open>f"{counter:02d}"\<close> for a counter that starts at 1: the decimal digits, with a
  leading zero when there is only one.
\<close>

definition digit_char :: "nat \<Rightarrow> char" where
  "digit_char d = char_of (48 + d)"

fun str_nat :: "nat \<Rightarrow> string" where
  "str_nat n = (if n < 10 then [digit_char n] else str_nat (n div 10) @ [digit_char (n mod 10)])"

definition format_02d :: "nat \<Rightarrow> string" where
  "format_02d n = (if n < 10 then CHR ''0'' # str_nat n else str_nat n)"

text \<open>Reading a decimal string back, used to tell formatted counters apart.\<close>

definition digit_val :: "char \<Rightarrow> nat" where
  "digit_val c = of_char c - 48"

definition nat_of_digits :: "string \<Rightarrow> nat" where
  "nat_of_digits s = foldl (\<lambda>a c. 10 * a + digit_val c) 0 s"

declare str_nat.simps [simp del]

lemma digit_val_digit_char: "d < 10 \<Longrightarrow> digit_val (digit_char d) = d"
  by (simp add: digit_val_def digit_char_def)

lemma nat_of_digits_snoc: "nat_of_digits (s @ [c]) = 10 * nat_of_digits s + digit_val c"
  by (simp add: nat_of_digits_def)

lemma nat_of_digits_str_nat: "nat_of_digits (str_nat n) = n"
proof (induction n rule: str_nat.induct)
  case (1 n)
  show ?case
  proof (cases "n < 10")
    case True
    then show ?thesis
      by (subst str_nat.simps) (simp add: nat_of_digits_def digit_val_digit_char)
  next
    case False
    with 1 have "nat_of_digits (str_nat (n div 10)) = n div 10" by simp
    with False show ?thesis
      by (subst str_nat.simps) (simp add: nat_of_digits_snoc digit_val_digit_char)
  qed
qed

lemma nat_of_digits_format_02d: "nat_of_digits (format_02d n) = n"
proof (cases "n < 10")
  case True
  have "nat_of_digits (CHR ''0'' # str_nat n) = nat_of_digits (str_nat n)"
    by (simp add: nat_of_digits_def digit_val_def)
  with True show ?thesis by (simp add: format_02d_def nat_of_digits_str_nat)
next
  case False
  then show ?thesis by (simp add: format_02d_def nat_of_digits_str_nat)
qed

lemma format_02d_eq_iff: "format_02d j = format_02d k \<longleftrightarrow> j = k"
  by (metis nat_of_digits_format_02d)

subsection \<open>\<^verbatim>\<open>_create_unique_dir\<close>\<close>

text \<open>The candidate \<^verbatim>\<open>f"{base_name}_{counter:02d}"\<close>.\<close>

definition unique_name :: "string \<Rightarrow> nat \<Rightarrow> string" where
  "unique_name base_name counter = base_name @ ''_'' @ format_02d counter"

lemma unique_name_eq_iff: "unique_name b j = unique_name b k \<longleftrightarrow> j = k"
  by (simp add: unique_name_def format_02d_eq_iff)

lemma finite_taken: "finite {k. path_exists files (d @ [unique_name b k])}"
proof -
  have "{k. path_exists files (d @ [unique_name b k])}
          = (\<lambda>k. d @ [unique_name b k]) -` (fst ` set files)"
    by (auto simp: path_exists_def map_of_eq_None_iff)
  moreover have "inj (\<lambda>k. d @ [unique_name b k])"
    by (rule injI) (simp add: unique_name_eq_iff)
  ultimately show ?thesis
    by (simp add: finite_vimageI)
qed

text \<open>
  The counters from \<open>c\<close> on whose candidate exists: a finite set, since candidates
  of different counters differ. It is the measure of the loop below.
\<close>

definition taken_from :: "fs \<Rightarrow> path \<Rightarrow> string \<Rightarrow> nat \<Rightarrow> nat set" where
  "taken_from files d b c = {k. c \<le> k \<and> path_exists files (d @ [unique_name b k])}"

lemma finite_taken_from: "finite (taken_from files d b c)"
  unfolding taken_from_def using finite_taken[of files d b] by simp

lemma taken_from_Suc:
  "taken_from files d b c =
     (if path_exists files (d @ [unique_name b c]) then insert c (taken_from files d b (Suc c))
      else taken_from files d b (Suc c))"
  unfolding taken_from_def by (auto simp: Suc_le_eq le_less)

text \<open>
  The \<^verbatim>\<open>while unique_dir.exists()\<close> loop, on its two variables. It ends because each
  round passes one existing candidate.
\<close>

function unique_dir_loop :: "fs \<Rightarrow> path \<Rightarrow> string \<Rightarrow> path \<Rightarrow> nat \<Rightarrow> path" where
  "unique_dir_loop files output_dir base_name unique_dir counter =
     (if path_exists files unique_dir
      then unique_dir_loop files output_dir base_name
             (output_dir @ [unique_name base_name counter]) (counter + 1)
      else unique_dir)"
  by pat_completeness auto
termination
proof (relation "measure (\<lambda>(files, d, b, u, c).
          card (taken_from files d b c) + (if path_exists files u then 1 else 0))")
  show "wf (measure (\<lambda>(files, d, b, u, c).
          card (taken_from files d b c) + (if path_exists files u then 1 else 0)))"
    by simp
next
  fix files :: fs and output_dir :: path and base_name :: string and unique_dir :: path and counter :: nat
  assume ex: "path_exists files unique_dir"
  have "card (taken_from files output_dir base_name (Suc counter)) +
          (if path_exists files (output_dir @ [unique_name base_name counter]) then 1 else 0)
        = card (taken_from files output_dir base_name counter)"
  proof (cases "path_exists files (output_dir @ [unique_name base_name counter])")
    case True
    have "counter \<notin> taken_from files output_dir base_name (Suc counter)"
      by (simp add: taken_from_def)
    then have "card (insert counter (taken_from files output_dir base_name (Suc counter)))
                 = Suc (card (taken_from files output_dir base_name (Suc counter)))"
      by (simp add: finite_taken_from)
    with True show ?thesis
      by (simp add: taken_from_Suc[of files output_dir base_name counter])
  next
    case False
    then show ?thesis
      by (simp add: taken_from_Suc[of files output_dir base_name counter])
  qed
  with ex show "((files, output_dir, base_name, output_dir @ [unique_name base_name counter], counter + 1),
          (files, output_dir, base_name, unique_dir, counter))
        \<in> measure (\<lambda>(files, d, b, u, c).
          card (taken_from files d b c) + (if path_exists files u then 1 else 0))"
    by simp
qed

record FileStorage =
  output_dir :: path

text \<open>\<^verbatim>\<open>FileStorage.__init__\<close> creates the output root.\<close>

definition FileStorage_init :: "sys_env \<Rightarrow> path \<Rightarrow> fs \<Rightarrow> (exn + FileStorage) \<times> fs" where
  "FileStorage_init env d =
     io_then (mkdir_parents env d) (\<lambda>u. io_return \<lparr> output_dir = d \<rparr>)"

definition create_unique_dir :: "sys_env \<Rightarrow> FileStorage \<Rightarrow> string \<Rightarrow> fs \<Rightarrow> (exn + path) \<times> fs" where
  "create_unique_dir env self base_name files =
     (let unique_dir =
            unique_dir_loop files (output_dir self) base_name (output_dir self @ [base_name]) 1
      in io_then (mkdir_parents env unique_dir) (\<lambda>u. io_return unique_dir) files)"

subsection \<open>\<^verbatim>\<open>save_document\<close>\<close>

text \<open>
  The entity of \<^verbatim>\<open>domain/entities/document.py\<close>, with the fields that storage reads
  and the four late-bound attributes, which \<^verbatim>\<open>__init__\<close> sets to \<^verbatim>\<open>None\<close>. The
  source path is kept as a path: the source stores \<^verbatim>\<open>str(pdf_path)\<close> and reads it
  back with \<^verbatim>\<open>Path(...)\<close>.
\<close>

record entity_Document =
  ent_id :: string
  ent_name :: string
  ent_text :: string
  ent_tables :: "table list"
  ent_source_path :: "path option"
  ent_confidence :: "real option"
  ent_output_directory :: "path option"
  ent_generated_files :: "path list option"
  ent_processing_time :: "real option"

definition entity_Document_init ::
  "sys_env \<Rightarrow> string \<Rightarrow> string \<Rightarrow> table list \<Rightarrow> path option \<Rightarrow> entity_Document" where
  "entity_Document_init env n t tbls src =
     \<lparr> ent_id = uuid4 env, ent_name = n, ent_text = t, ent_tables = tbls,
       ent_source_path = src, ent_confidence = None, ent_output_directory = None,
       ent_generated_files = None, ent_processing_time = None \<rparr>"

definition save_document ::
  "sys_env \<Rightarrow> FileStorage \<Rightarrow> entity_Document \<Rightarrow> fs \<Rightarrow> (exn + path list) \<times> fs" where
  "save_document env self document =
     io_then (create_unique_dir env self (ent_name document)) (\<lambda>doc_dir.
       let text_file = doc_dir @ [path_name doc_dir @ ''_texto.txt''] in
     io_then (write_file env text_file (TextFile (ent_text document))) (\<lambda>u.
       let generated_files = [text_file] in
     io_then
       (if ent_tables document \<noteq> [] then
          (let tables_file = doc_dir @ [path_name doc_dir @ ''_tablas.json''] in
           io_then (write_file env tables_file (TablesJson (ent_tables document))) (\<lambda>u.
             io_return (generated_files @ [tables_file])))
        else io_return generated_files) (\<lambda>generated_files1.
     io_then
       (\<lambda>files.
          case ent_source_path document of
            None \<Rightarrow> io_return generated_files1 files
          | Some pdf_path \<Rightarrow>
              if path_exists files pdf_path then
                (let pdf_copy = doc_dir @ [path_name doc_dir @ ''_original.pdf''] in
                 io_then (copy2 env pdf_path pdf_copy) (\<lambda>u.
                   io_return (generated_files1 @ [pdf_copy])) files)
              else io_return generated_files1 files) (\<lambda>generated_files2.
       let metadata =
             \<lparr> md_id = ent_id document, md_name = ent_name document,
               md_text_length = int (length (ent_text document)),
               md_tables_count = int (length (ent_tables document)),
               md_confidence = ent_confidence document,
               md_processing_time = ent_processing_time document \<rparr>;
           metadata_file = doc_dir @ [path_name doc_dir @ ''_metadata.json'']
       in
     io_then (write_file env metadata_file (MetadataJson metadata)) (\<lambda>u.
       io_return (generated_files2 @ [metadata_file]))))))"

text \<open>
  \<^verbatim>\<open>FileStorage.save\<close>, the compatibility method: it builds the entity, saves it and
  takes the parent of the first generated file as the output directory.
\<close>

definition FileStorage_save ::
  "sys_env \<Rightarrow> FileStorage \<Rightarrow> string \<Rightarrow> string \<Rightarrow> table list \<Rightarrow> path \<Rightarrow> fs
     \<Rightarrow> (exn + (path option \<times> path list)) \<times> fs" where
  "FileStorage_save env self doc_name extracted_text tables pdf_path =
     io_then (save_document env self
                (entity_Document_init env doc_name extracted_text tables (Some pdf_path)))
       (\<lambda>generated_files.
          io_return (if generated_files \<noteq> [] then Some (path_parent (hd generated_files)) else None,
                     generated_files))"

section \<open>Table extraction (\<^verbatim>\<open>infrastructure/adapters/table_simple.py\<close>)\<close>

definition SimpleTableAdapter_extract_tables :: "path \<Rightarrow> exn + table list" where
  "SimpleTableAdapter_extract_tables pdf_path = Inr []"

section \<open>The factory (\<^verbatim>\<open>infrastructure/factories/adapter_factory.py\<close>)\<close>

record SystemConfig =
  language :: string
  config_dpi :: int
  engine_type :: string

definition ENGINE_TYPE_BASIC :: string where
  "ENGINE_TYPE_BASIC = ''basic''"

definition ENGINE_TYPE_OPENCV :: string where
  "ENGINE_TYPE_OPENCV = ''opencv''"

text \<open>The two classes of \<^verbatim>\<open>adapters/ocr/\<close>, which have the same fields.\<close>

datatype ocr_adapter =
    TesseractAdapter tesseract_adapter
  | TesseractOpenCVAdapter tesseract_adapter

definition create_ocr_adapter :: "SystemConfig \<Rightarrow> exn + ocr_adapter" where
  "create_ocr_adapter config =
     (if engine_type config = ENGINE_TYPE_BASIC
      then Inr (TesseractAdapter (adapter_init (language config) (config_dpi config)))
      else if engine_type config = ENGINE_TYPE_OPENCV
      then Inr (TesseractOpenCVAdapter (adapter_init (language config) (config_dpi config)))
      else Inl (Exn ConfigurationError (''Motor OCR no soportado: '' @ engine_type config)))"

definition create_table_extractor :: "path \<Rightarrow> exn + table list" where
  "create_table_extractor = SimpleTableAdapter_extract_tables"

text \<open>Method dispatch on the adapter object.\<close>

fun adapter_extract_text ::
  "'img ocr_libs \<Rightarrow> ocr_adapter \<Rightarrow> path \<Rightarrow> (exn + string) \<times> ocr_adapter" where
  "adapter_extract_text libs (TesseractAdapter self) pdf_path =
     (case TesseractAdapter_extract_text libs self pdf_path of
        (r, self1) \<Rightarrow> (r, TesseractAdapter self1))"
| "adapter_extract_text libs (TesseractOpenCVAdapter self) pdf_path =
     (case TesseractOpenCVAdapter_extract_text libs self pdf_path of
        (r, self1) \<Rightarrow> (r, TesseractOpenCVAdapter self1))"

fun adapter_get_confidence :: "ocr_adapter \<Rightarrow> (exn + real) \<times> ocr_adapter" where
  "adapter_get_confidence (TesseractAdapter self) =
     (case get_confidence self of (c, self1) \<Rightarrow> (Inr c, TesseractAdapter self1))"
| "adapter_get_confidence (TesseractOpenCVAdapter self) =
     (case get_confidence self of (c, self1) \<Rightarrow> (Inr c, TesseractOpenCVAdapter self1))"

section \<open>The use cases (\<^verbatim>\<open>application/use_cases/\<close>)\<close>

text \<open>
  The ports, as the use cases see them: any object with these methods. An OCR port has
  a state of its own, which its methods may change; a storage port acts on the file
  system.
\<close>

record 's OCRPort =
  extract_text :: "'s \<Rightarrow> path \<Rightarrow> (exn + string) \<times> 's"
  port_get_confidence :: "'s \<Rightarrow> (exn + real) \<times> 's"

record StoragePort =
  port_save_document :: "entity_Document \<Rightarrow> fs \<Rightarrow> (exn + path list) \<times> fs"

text \<open>
  The model of \<^verbatim>\<open>domain/models/document.py\<close>, with the attributes that are
  assigned after construction; \<^verbatim>\<open>processing_time\<close> is assigned by
  \<^verbatim>\<open>ProcessDocument.execute\<close> only.
\<close>

record Document =
  name :: string
  source_path :: string
  extracted_text :: string
  tables :: "table list"
  confidence :: real
  output_directory :: path
  generated_files :: "path list"
  processing_time :: "real option"

text \<open>\<^verbatim>\<open>ExtractDocumentTextUseCase.execute\<close>.\<close>

definition ExtractDocumentText_execute ::
  "'s OCRPort \<Rightarrow> path \<Rightarrow> 's \<Rightarrow> (exn + (string \<times> real)) \<times> 's" where
  "ExtractDocumentText_execute ocr pdf_path s =
     (case extract_text ocr s pdf_path of
        (Inl e, s1) \<Rightarrow> (Inl e, s1)
      | (Inr text, s1) \<Rightarrow>
          (case port_get_confidence ocr s1 of
             (Inl e, s2) \<Rightarrow> (Inl e, s2)
           | (Inr c, s2) \<Rightarrow> (Inr (text, c), s2)))"

text \<open>\<^verbatim>\<open>SaveDocumentUseCase.execute\<close>.\<close>

definition SaveDocument_execute ::
  "sys_env \<Rightarrow> StoragePort \<Rightarrow> string \<Rightarrow> string \<Rightarrow> table list \<Rightarrow> path \<Rightarrow> fs
     \<Rightarrow> (exn + (path option \<times> path list)) \<times> fs" where
  "SaveDocument_execute env storage doc_name text tbls pdf_path =
     io_then (port_save_document storage
                (entity_Document_init env doc_name text tbls (Some pdf_path)))
       (\<lambda>files_out.
          io_return (if files_out \<noteq> [] then Some (path_parent (hd files_out)) else None,
                     files_out))"

text \<open>
  The body of the \<^verbatim>\<open>try\<close> of \<^verbatim>\<open>ProcessDocument.execute\<close>. \<^verbatim>\<open>output_dir.name\<close> raises
  \<^verbatim>\<open>AttributeError\<close> when the output directory is \<^verbatim>\<open>None\<close>.
\<close>

definition ProcessDocument_try ::
  "sys_env \<Rightarrow> 's OCRPort \<Rightarrow> (path \<Rightarrow> exn + table list) \<Rightarrow> StoragePort \<Rightarrow> path
     \<Rightarrow> 's \<times> fs \<Rightarrow> (exn + Document) \<times> 's \<times> fs" where
  "ProcessDocument_try env ocr table_extractor storage pdf_path st =
     (case ExtractDocumentText_execute ocr pdf_path (fst st) of
        (Inl e, s1) \<Rightarrow> (Inl e, s1, snd st)
      | (Inr (text, conf), s1) \<Rightarrow>
          (case table_extractor pdf_path of
             Inl e \<Rightarrow> (Inl e, s1, snd st)
           | Inr tbls \<Rightarrow>
               (let doc_name = path_stem pdf_path in
                case SaveDocument_execute env storage doc_name text tbls pdf_path (snd st) of
                  (Inl e, files1) \<Rightarrow> (Inl e, s1, files1)
                | (Inr (out_dir, files_out), files1) \<Rightarrow>
                    (case out_dir of
                       None \<Rightarrow>
                         (Inl (Exn (OtherException ''AttributeError'')
                                 ''NoneType object has no attribute name''), s1, files1)
                     | Some d \<Rightarrow>
                         (Inr \<lparr> name = path_name d, source_path = str_path pdf_path,
                                extracted_text = text, tables = tbls, confidence = conf,
                                output_directory = d, generated_files = files_out,
                                processing_time = Some (elapsed env) \<rparr>, s1, files1)))))"

text \<open>
  \<^verbatim>\<open>ProcessDocument.execute\<close>: the handler turns every exception of the body into a
  \<^verbatim>\<open>ProcessingError\<close> that quotes the path and the exception's text.
\<close>

definition ProcessDocument_execute ::
  "sys_env \<Rightarrow> 's OCRPort \<Rightarrow> (path \<Rightarrow> exn + table list) \<Rightarrow> StoragePort \<Rightarrow> path
     \<Rightarrow> 's \<times> fs \<Rightarrow> (exn + Document) \<times> 's \<times> fs" where
  "ProcessDocument_execute env ocr table_extractor storage pdf_path st =
     (case ProcessDocument_try env ocr table_extractor storage pdf_path st of
        (Inl e, st1) \<Rightarrow>
          (Inl (Exn ProcessingError
                  (''Error procesando '' @ str_path pdf_path @ '': '' @ str_exn e)), st1)
      | (Inr document, st1) \<Rightarrow> (Inr document, st1))"

text \<open>The pipeline as the factory wires it: one of its two adapters, the simple table
  extractor and file storage.\<close>

definition factory_ocr_port :: "'img ocr_libs \<Rightarrow> ocr_adapter OCRPort" where
  "factory_ocr_port libs =
     \<lparr> extract_text = adapter_extract_text libs, port_get_confidence = adapter_get_confidence \<rparr>"

definition FileStorage_port :: "sys_env \<Rightarrow> FileStorage \<Rightarrow> StoragePort" where
  "FileStorage_port env self = \<lparr> port_save_document = save_document env self \<rparr>"

definition factory_pipeline ::
  "sys_env \<Rightarrow> 'img ocr_libs \<Rightarrow> FileStorage \<Rightarrow> path \<Rightarrow> ocr_adapter \<times> fs
     \<Rightarrow> (exn + Document) \<times> ocr_adapter \<times> fs" where
  "factory_pipeline env libs storage pdf_path =
     ProcessDocument_execute env (factory_ocr_port libs) create_table_extractor
       (FileStorage_port env storage) pdf_path"

section \<open>The other public methods of the factory's adapters\<close>

text \<open>
  \<^verbatim>\<open>get_engine_info\<close> and \<^verbatim>\<open>get_supported_languages\<close> of both classes, with the two
  private version helpers; each swallows the exceptions of the library call it makes.
\<close>

datatype info_value = InfoStr string | InfoInt int | InfoBool bool

definition get_tesseract_version_or_unknown ::
  "'img ocr_libs \<Rightarrow> tesseract_adapter \<Rightarrow> string \<times> tesseract_adapter" where
  "get_tesseract_version_or_unknown libs self =
     (case get_tesseract_version libs of Inl e \<Rightarrow> ''Unknown'' | Inr v \<Rightarrow> v, self)"

definition get_opencv_version_or_unknown ::
  "'img ocr_libs \<Rightarrow> tesseract_adapter \<Rightarrow> string \<times> tesseract_adapter" where
  "get_opencv_version_or_unknown libs self =
     (case cv2_version libs of Inl e \<Rightarrow> ''Unknown'' | Inr v \<Rightarrow> v, self)"

definition TesseractAdapter_get_engine_info ::
  "'img ocr_libs \<Rightarrow> tesseract_adapter \<Rightarrow> (string \<times> info_value) list \<times> tesseract_adapter" where
  "TesseractAdapter_get_engine_info libs self =
     (case get_tesseract_version_or_unknown libs self of
        (v, self1) \<Rightarrow>
          ([(''name'', InfoStr ''Tesseract OCR''), (''version'', InfoStr v),
            (''type'', InfoStr ''basic''), (''language'', InfoStr (lang self1)),
            (''dpi'', InfoInt (dpi self1))], self1))"

definition TesseractOpenCVAdapter_get_engine_info ::
  "'img ocr_libs \<Rightarrow> tesseract_adapter \<Rightarrow> (string \<times> info_value) list \<times> tesseract_adapter" where
  "TesseractOpenCVAdapter_get_engine_info libs self =
     (case get_tesseract_version_or_unknown libs self of
        (v, self1) \<Rightarrow>
          (case get_opencv_version_or_unknown libs self1 of
             (cvv, self2) \<Rightarrow>
               ([(''name'', InfoStr ''Tesseract + OpenCV''), (''version'', InfoStr v),
                 (''type'', InfoStr ''opencv''), (''opencv_version'', InfoStr cvv),
                 (''language'', InfoStr (lang self2)), (''dpi'', InfoInt (dpi self2)),
                 (''preprocessing'', InfoBool True)], self2)))"

definition get_supported_languages ::
  "'img ocr_libs \<Rightarrow> tesseract_adapter \<Rightarrow> string list \<times> tesseract_adapter" where
  "get_supported_languages libs self =
     (case get_languages libs of
        Inl e \<Rightarrow> [''eng'']
      | Inr out \<Rightarrow> if out \<noteq> [] then out else [''eng''],
      self)"

text \<open>A call of a public method, and the adapter object it leaves behind.\<close>

datatype method_call =
    Call_extract_text path
  | Call_get_confidence
  | Call_get_engine_info
  | Call_get_supported_languages

fun adapter_after :: "'img ocr_libs \<Rightarrow> ocr_adapter \<Rightarrow> method_call \<Rightarrow> ocr_adapter" where
  "adapter_after libs a (Call_extract_text p) = snd (adapter_extract_text libs a p)"
| "adapter_after libs a Call_get_confidence = snd (adapter_get_confidence a)"
| "adapter_after libs (TesseractAdapter self) Call_get_engine_info =
     TesseractAdapter (snd (TesseractAdapter_get_engine_info libs self))"
| "adapter_after libs (TesseractOpenCVAdapter self) Call_get_engine_info =
     TesseractOpenCVAdapter (snd (TesseractOpenCVAdapter_get_engine_info libs self))"
| "adapter_after libs (TesseractAdapter self) Call_get_supported_languages =
     TesseractAdapter (snd (get_supported_languages libs self))"
| "adapter_after libs (TesseractOpenCVAdapter self) Call_get_supported_languages =
     TesseractOpenCVAdapter (snd (get_supported_languages libs self))"

section \<open>\<^verbatim>\<open>DocumentProcessor.process\<close> (\<^verbatim>\<open>application/services/document_processor.py\<close>)\<close>

text \<open>
  The service has the steps of \<^verbatim>\<open>ProcessDocument.execute\<close>, written out on the ports
  themselves; it stores through the storage object's \<^verbatim>\<open>save\<close> method and its handler
  does not quote the path.
\<close>

definition DocumentProcessor_try ::
  "'s OCRPort \<Rightarrow> (path \<Rightarrow> exn + table list)
     \<Rightarrow> (string \<Rightarrow> string \<Rightarrow> table list \<Rightarrow> path \<Rightarrow> fs \<Rightarrow> (exn + (path option \<times> path list)) \<times> fs)
     \<Rightarrow> path \<Rightarrow> 's \<times> fs \<Rightarrow> (exn + Document) \<times> 's \<times> fs" where
  "DocumentProcessor_try ocr table_extractor storage_save pdf_path st =
     (case extract_text ocr (fst st) pdf_path of
        (Inl e, s1) \<Rightarrow> (Inl e, s1, snd st)
      | (Inr text, s1) \<Rightarrow>
          (case port_get_confidence ocr s1 of
             (Inl e, s2) \<Rightarrow> (Inl e, s2, snd st)
           | (Inr conf, s2) \<Rightarrow>
               (case table_extractor pdf_path of
                  Inl e \<Rightarrow> (Inl e, s2, snd st)
                | Inr tbls \<Rightarrow>
                    (let doc_name = path_stem pdf_path in
                     case storage_save doc_name text tbls pdf_path (snd st) of
                       (Inl e, files1) \<Rightarrow> (Inl e, s2, files1)
                     | (Inr (out_dir, files_out), files1) \<Rightarrow>
                         (case out_dir of
                            None \<Rightarrow>
                              (Inl (Exn (OtherException ''AttributeError'')
                                      ''NoneType object has no attribute name''), s2, files1)
                          | Some d \<Rightarrow>
                              (Inr \<lparr> name = path_name d, source_path = str_path pdf_path,
                                     extracted_text = text, tables = tbls, confidence = conf,
                                     output_directory = d, generated_files = files_out,
                                     processing_time = None \<rparr>, s2, files1))))))"

definition DocumentProcessor_process ::
  "'s OCRPort \<Rightarrow> (path \<Rightarrow> exn + table list)
     \<Rightarrow> (string \<Rightarrow> string \<Rightarrow> table list \<Rightarrow> path \<Rightarrow> fs \<Rightarrow> (exn + (path option \<times> path list)) \<times> fs)
     \<Rightarrow> path \<Rightarrow> 's \<times> fs \<Rightarrow> (exn + Document) \<times> 's \<times> fs" where
  "DocumentProcessor_process ocr table_extractor storage_save pdf_path st =
     (case DocumentProcessor_try ocr table_extractor storage_save pdf_path st of
        (Inl e, st1) \<Rightarrow>
          (Inl (Exn ProcessingError (''Error procesando documento: '' @ str_exn e)), st1)
      | (Inr document, st1) \<Rightarrow> (Inr document, st1))"

section \<open>The specification's wording, and the inputs of the examples\<close>

subsection \<open>The ordered rules of classification\<close>

text \<open>
  The four rules as the specification words them, and the reading of a rule list in
  which the first rule that matches decides.
\<close>

definition spec_rule_scanned :: "PDFMetrics \<Rightarrow> bool" where
  "spec_rule_scanned m =
     (\<not> has_fonts m \<and>
      real_of_int (text_extractable_pages m) < 0.3 * real_of_int (total_pages m) \<and>
      image_to_page_ratio m > 0.5)"

definition spec_rule_table_heavy :: "PDFMetrics \<Rightarrow> bool" where
  "spec_rule_table_heavy m = (table_to_page_ratio m > 0.8)"

definition spec_rule_image_heavy :: "PDFMetrics \<Rightarrow> bool" where
  "spec_rule_image_heavy m = (image_to_page_ratio m > 1.5)"

definition spec_rule_native_text :: "PDFMetrics \<Rightarrow> bool" where
  "spec_rule_native_text m =
     (has_fonts m \<and>
      real_of_int (text_extractable_pages m) > 0.8 * real_of_int (total_pages m) \<and>
      avg_text_per_page m > 100)"

fun first_match :: "(('a \<Rightarrow> bool) \<times> 'b) list \<Rightarrow> 'b \<Rightarrow> 'a \<Rightarrow> 'b" where
  "first_match [] dflt x = dflt"
| "first_match ((r, label) # rules) dflt x =
     (if r x then label else first_match rules dflt x)"

definition spec_rules :: "((PDFMetrics \<Rightarrow> bool) \<times> PDFType) list" where
  "spec_rules =
     [(spec_rule_scanned, SCANNED), (spec_rule_table_heavy, TABLE_HEAVY),
      (spec_rule_image_heavy, IMAGE_HEAVY), (spec_rule_native_text, NATIVE_TEXT)]"

definition spec_example_scanned :: PDFMetrics where
  "spec_example_scanned =
     \<lparr> total_pages = 10, text_extractable_pages = 1, total_text_length = 0,
       total_images = 8, total_tables = 0, avg_text_per_page = 0, has_fonts = False,
       image_to_page_ratio = 0.8, table_to_page_ratio = 0 \<rparr>"

definition empty_pdf_libs :: pdf_libs where
  "empty_pdf_libs = \<lparr> pdfplumber_open = (\<lambda>p. Inr []), fitz_open = (\<lambda>p. Inr []) \<rparr>"

subsection \<open>A file system without errors, and a storage rooted at \<^verbatim>\<open>resultado\<close>\<close>

definition no_io_errors :: sys_env where
  "no_io_errors = \<lparr> uuid4 = ''0f8fad5b-d9cb-469f-a165-70867728950e'', io_error = (\<lambda>p. None), elapsed = 1.5 \<rparr>"

definition resultado :: FileStorage where
  "resultado = \<lparr> output_dir = [''resultado''] \<rparr>"

text \<open>An output root that holds a regular file named like the stem, and no directory.\<close>

definition stem_is_file :: fs where
  "stem_is_file =
     [([''resultado'', ''informe''], File (Bytes ''notas'')), ([''resultado''], Dir)]"

subsection \<open>Skew estimation\<close>

text \<open>
  The estimate as the specification words it: of the first ten lines, those of the
  form \<^verbatim>\<open>[[rho, theta]]\<close> give the deviation of \<open>theta\<close> from the horizontal, in
  degrees; the deviations of magnitude below 45 are kept.
\<close>

definition spec_deviation :: "real \<Rightarrow> real" where
  "spec_deviation theta = theta * 180 / pi - 90"

fun spec_theta :: "hough_line \<Rightarrow> real option" where
  "spec_theta ([rho, theta] # rest) = Some theta"
| "spec_theta other = None"

definition spec_kept_angles :: "hough_line list \<Rightarrow> real list" where
  "spec_kept_angles lines =
     filter (\<lambda>a. \<bar>a\<bar> < 45) (map spec_deviation (List.map_filter spec_theta (take 10 lines)))"

text \<open>
  What the specification means by the median, as opposed to the mean: a value \<open>m\<close> is
  a median of a list when at least half of the entries are at most \<open>m\<close> and at least
  half of them are at least \<open>m\<close>. The mean is written out for the comparison.
\<close>

definition spec_is_median :: "real \<Rightarrow> real list \<Rightarrow> bool" where
  "spec_is_median m xs \<longleftrightarrow>
     length xs \<le> 2 * length (filter (\<lambda>x. x \<le> m) xs) \<and>
     length xs \<le> 2 * length (filter (\<lambda>x. m \<le> x) xs)"

definition spec_mean :: "real list \<Rightarrow> real" where
  "spec_mean xs = sum_list xs / real (length xs)"

text \<open>
  An imaging library for the examples. Images are names. The edge detector and the
  line detector find four lines in the page named \<open>''tilted''\<close>, at 30, 2 and 1 degrees
  off the horizontal and one vertical, and one vertical line in any other page; a
  rotation is answered only for the centre, angle, size, interpolation and border mode
  given here.
\<close>

definition tilted_lines :: "hough_line list" where
  "tilted_lines =
     [[[30, pi * (120 / 180)]], [[40, pi * (92 / 180)]], [[50, pi * (91 / 180)]], [[60, 0]]]"

definition vertical_lines :: "hough_line list" where
  "vertical_lines = [[[30, 0]]]"

definition example_cv :: "string cv2_lib" where
  "example_cv =
     \<lparr> shape = (\<lambda>i. [100, 200]),
       cvtColor_RGB2GRAY = (\<lambda>i. Inr (i @ ''-gray'')),
       bilateralFilter = (\<lambda>i d sc ss. Inr (i @ ''-bilateral'')),
       clahe_apply = (\<lambda>clip grid i. Inr (i @ ''-clahe'')),
       Canny = (\<lambda>i lo hi ap. Inr (i @ ''-edges'')),
       HoughLines = (\<lambda>i rho theta thr.
          if i = ''tilted-edges'' then Inr (Some tilted_lines)
          else Inr (Some vertical_lines)),
       warpAffine = (\<lambda>i m size interp border.
          if m = RotationMatrix2D (100, 50) 2 1 \<and> size = (200, 100) \<and>
             interp = INTER_CUBIC \<and> border = BORDER_REPLICATE
          then Inr (i @ ''-rotated'')
          else Inl (Exn (OtherException ''cv2.error'') ''unexpected arguments'')),
       adaptiveThreshold = (\<lambda>i mx meth ty bs c. Inr (i @ ''-binary'')),
       morphologyEx = (\<lambda>i op k. Inr (i @ (if op = MORPH_CLOSE then ''-close'' else ''-open''))),
       medianBlur = (\<lambda>i k. Inr (i @ ''-median'')) \<rparr>"

text \<open>
  A ruled page: twelve lines are detected, at 4, 4, 0, 0, 0, 1, 1, 3, 3 and 3 degrees
  off the horizontal and then two at minus 10 degrees, which lie beyond the sample of
  ten.
\<close>

definition ruled_lines :: "hough_line list" where
  "ruled_lines =
     [[[10, pi * (94 / 180)]], [[11, pi * (94 / 180)]],
      [[12, pi * (90 / 180)]], [[13, pi * (90 / 180)]], [[14, pi * (90 / 180)]],
      [[15, pi * (91 / 180)]], [[16, pi * (91 / 180)]],
      [[17, pi * (93 / 180)]], [[18, pi * (93 / 180)]], [[19, pi * (93 / 180)]],
      [[20, pi * (80 / 180)]], [[21, pi * (80 / 180)]]]"

definition ruled_cv :: "string cv2_lib" where
  "ruled_cv = example_cv\<lparr> HoughLines := (\<lambda>i rho theta thr. Inr (Some ruled_lines)) \<rparr>"

subsection \<open>Preprocessing stages\<close>

text \<open>
  The stages the specification lists, with the calls that realise them in
  \<^verbatim>\<open>ocr_adapters.py\<close>, and the two other stages of the adapter that the factory
  creates: an unconditional colour conversion and a median blur.
\<close>

datatype stage =
    Grayscale
  | Denoise
  | ContrastEnhance
  | Deskew
  | Binarize
  | Closing
  | Opening
  | ConvertRGB
  | MedianBlur

definition spec_stage_order :: "stage list" where
  "spec_stage_order = [Grayscale, Denoise, ContrastEnhance, Deskew, Binarize, Closing, Opening]"

fun stage_enabled :: "ocr_adapters_OpenCV \<Rightarrow> stage \<Rightarrow> bool" where
  "stage_enabled self Denoise = enable_denoising self"
| "stage_enabled self ContrastEnhance = enable_contrast_enhancement self"
| "stage_enabled self Deskew = enable_deskewing self"
| "stage_enabled self other = True"

fun apply_stage :: "'img cv2_lib \<Rightarrow> stage \<Rightarrow> 'img \<Rightarrow> exn + 'img" where
  "apply_stage cv Grayscale img =
     (if length (shape cv img) = 3 then cvtColor_RGB2GRAY cv img else Inr img)"
| "apply_stage cv Denoise img = bilateralFilter cv img 9 75 75"
| "apply_stage cv ContrastEnhance img = clahe_apply cv 2.0 (8, 8) img"
| "apply_stage cv Deskew img = Inr (correct_skew cv img)"
| "apply_stage cv Binarize img =
     adaptiveThreshold cv img 255 ADAPTIVE_THRESH_GAUSSIAN_C THRESH_BINARY 11 2"
| "apply_stage cv Closing img = morphologyEx cv img MORPH_CLOSE (1, 1)"
| "apply_stage cv Opening img = morphologyEx cv img MORPH_OPEN (1, 1)"
| "apply_stage cv ConvertRGB img = cvtColor_RGB2GRAY cv img"
| "apply_stage cv MedianBlur img = medianBlur cv img 3"

fun run_stages :: "'img cv2_lib \<Rightarrow> stage list \<Rightarrow> 'img \<Rightarrow> exn + 'img" where
  "run_stages cv [] img = Inr img"
| "run_stages cv (s # ss) img = and_then (apply_stage cv s img) (run_stages cv ss)"

text \<open>The example library on a colour page, and the two extreme flag settings.\<close>

definition colour_cv :: "string cv2_lib" where
  "colour_cv = example_cv\<lparr> shape := (\<lambda>i. if i = ''page'' then [100, 200, 3] else [100, 200]) \<rparr>"

definition all_flags_on :: ocr_adapters_OpenCV where
  "all_flags_on = \<lparr> lang = ''spa'', dpi = 300, enable_deskewing = True,
                    enable_denoising = True, enable_contrast_enhancement = True \<rparr>"

definition all_flags_off :: ocr_adapters_OpenCV where
  "all_flags_off = \<lparr> lang = ''spa'', dpi = 300, enable_deskewing = False,
                     enable_denoising = False, enable_contrast_enhancement = False \<rparr>"

subsection \<open>Recognition failures\<close>

text \<open>
  \<open>raised_in raster step e\<close>: the exception \<open>e\<close> is raised by rasterization, or by the
  step of some page of a document that was rasterized. \<open>contains s t\<close>: the text \<open>t\<close>
  stands somewhere in \<open>s\<close>, which is what naming a path in a message means.
\<close>

definition raised_in :: "exn + 'img list \<Rightarrow> ('img \<Rightarrow> exn + string) \<Rightarrow> exn \<Rightarrow> bool" where
  "raised_in raster step e =
     (raster = Inl e \<or> (\<exists>imgs. raster = Inr imgs \<and> (\<exists>i \<in> set imgs. step i = Inl e)))"

definition every_page_read :: "exn + 'img list \<Rightarrow> ('img \<Rightarrow> exn + string) \<Rightarrow> string list \<Rightarrow> bool" where
  "every_page_read raster step texts =
     (\<exists>imgs. raster = Inr imgs \<and> list_all2 (\<lambda>i t. step i = Inr t) imgs texts)"

fun starts_with :: "'a list \<Rightarrow> 'a list \<Rightarrow> bool" where
  "starts_with s [] = True"
| "starts_with [] (c # cs) = False"
| "starts_with (x # xs) (c # cs) = (x = c \<and> starts_with xs cs)"

fun contains :: "'a list \<Rightarrow> 'a list \<Rightarrow> bool" where
  "contains [] t = (t = [])"
| "contains (x # xs) t = (starts_with (x # xs) t \<or> contains xs t)"

text \<open>The page steps of the four adapters.\<close>

definition direct_step :: "'img ocr_libs \<Rightarrow> string \<Rightarrow> 'img \<Rightarrow> exn + string" where
  "direct_step libs l i = image_to_string libs i l"

definition factory_opencv_step :: "'img ocr_libs \<Rightarrow> string \<Rightarrow> 'img \<Rightarrow> exn + string" where
  "factory_opencv_step libs l i =
     and_then (TesseractOpenCVAdapter_preprocess_image (cv2 libs) i) (\<lambda>p. image_to_string libs p l)"

definition ocr_adapters_opencv_step ::
  "'img ocr_libs \<Rightarrow> ocr_adapters_OpenCV \<Rightarrow> 'img \<Rightarrow> exn + string" where
  "ocr_adapters_opencv_step libs self i =
     and_then (ocr_adapters_OpenCV_preprocess_image (cv2 libs) self i)
       (\<lambda>p. image_to_string libs p (lang self))"

text \<open>
  A rasterizer that gives two pages and an engine that reads the first and fails on
  the second, with a message that does not mention the document.
\<close>

definition second_page_fails :: "string ocr_libs" where
  "second_page_fails =
     \<lparr> convert_from_path = (\<lambda>p d. Inr [''page1'', ''page2'']),
       image_to_string = (\<lambda>i l.
          if i = ''page1'' then Inr ''first page''
          else Inl (Exn (OtherException ''TesseractError'') ''Failed loading language spa'')),
       get_languages = Inr [''spa'', ''eng''],
       get_tesseract_version = Inr ''5.3.0'',
       cv2_version = Inr ''4.8.0'',
       cv2 = example_cv \<rparr>"

definition x17_pdf :: path where
  "x17_pdf = [''docs'', ''x17.pdf'']"

subsection \<open>The files of a document\<close>

definition tables_file :: "path \<Rightarrow> path" where
  "tables_file d = d @ [path_name d @ ''_tablas.json'']"

text \<open>The files that \<^verbatim>\<open>save_document\<close> lists for a document saved in \<open>d\<close>.\<close>

definition files_of :: "entity_Document \<Rightarrow> path \<Rightarrow> bool \<Rightarrow> path list" where
  "files_of document d copied =
     [d @ [path_name d @ ''_texto.txt'']] @
     (if ent_tables document \<noteq> [] then [d @ [path_name d @ ''_tablas.json'']] else []) @
     (if copied then [d @ [path_name d @ ''_original.pdf'']] else []) @
     [d @ [path_name d @ ''_metadata.json'']]"

subsection \<open>Inputs of the processing examples\<close>

text \<open>
  A rasterizer that gives one page and an engine that reads it; a file system that
  holds the output root, an earlier output directory of the same stem, and the PDF.
\<close>

definition one_page_libs :: "string ocr_libs" where
  "one_page_libs =
     \<lparr> convert_from_path = (\<lambda>p d. Inr [''page1'']),
       image_to_string = (\<lambda>i l. Inr ''Hola''),
       get_languages = Inr [''spa'', ''eng''],
       get_tesseract_version = Inr ''5.3.0'',
       cv2_version = Inr ''4.8.0'',
       cv2 = example_cv \<rparr>"

definition informe_pdf :: path where
  "informe_pdf = [''pdfs'', ''informe.pdf'']"

definition taken_files :: fs where
  "taken_files =
     [([''resultado'', ''informe''], Dir), ([''resultado''], Dir),
      ([''pdfs'', ''informe.pdf''], File (Bytes ''%PDF-1.7'')), ([''pdfs''], Dir)]"

definition basic_config :: SystemConfig where
  "basic_config = \<lparr> language = ''spa'', config_dpi = 300, engine_type = ''basic'' \<rparr>"

text \<open>The confidence an adapter object holds.\<close>

fun adapter_confidence :: "ocr_adapter \<Rightarrow> real" where
  "adapter_confidence (TesseractAdapter self) = last_confidence self"
| "adapter_confidence (TesseractOpenCVAdapter self) = last_confidence self"

text \<open>The document and the file system that the example run gives.\<close>

definition example_document :: Document where
  "example_document =
     \<lparr> name = ''informe_01'', source_path = ''pdfs/informe.pdf'', extracted_text = ''Hola'',
       tables = [], confidence = 0,
       output_directory = [''resultado'', ''informe_01''],
       generated_files =
         [[''resultado'', ''informe_01'', ''informe_01_texto.txt''],
          [''resultado'', ''informe_01'', ''informe_01_original.pdf''],
          [''resultado'', ''informe_01'', ''informe_01_metadata.json'']],
       processing_time = Some 1.5 \<rparr>"

definition example_files :: fs where
  "example_files =
     [([''resultado'', ''informe_01'', ''informe_01_metadata.json''],
        File (MetadataJson \<lparr> md_id = ''0f8fad5b-d9cb-469f-a165-70867728950e'',
           md_name = ''informe'', md_text_length = 4, md_tables_count = 0,
           md_confidence = None, md_processing_time = None \<rparr>)),
      ([''resultado'', ''informe_01'', ''informe_01_original.pdf''], File (Bytes ''%PDF-1.7'')),
      ([''resultado'', ''informe_01'', ''informe_01_texto.txt''], File (TextFile ''Hola'')),
      ([''resultado'', ''informe_01''], Dir)] @ taken_files"






text \<open>
  A file system that holds the output root and the PDF and nothing else, and what a
  run of the pipeline on \<^verbatim>\<open>pdfs/informe.pdf\<close> gives when the directory it is given is
  named \<open>n\<close>: the document, and the entries added to the file system.
\<close>

definition fresh_files :: fs where
  "fresh_files =
     [([''resultado''], Dir), ([''pdfs'', ''informe.pdf''], File (Bytes ''%PDF-1.7'')),
      ([''pdfs''], Dir)]"

definition run_document :: "string \<Rightarrow> Document" where
  "run_document n =
     \<lparr> name = n, source_path = ''pdfs/informe.pdf'', extracted_text = ''Hola'',
       tables = [], confidence = 0,
       output_directory = [''resultado'', n],
       generated_files =
         [[''resultado'', n, n @ ''_texto.txt''],
          [''resultado'', n, n @ ''_original.pdf''],
          [''resultado'', n, n @ ''_metadata.json'']],
       processing_time = Some 1.5 \<rparr>"

definition run_files :: "string \<Rightarrow> fs \<Rightarrow> fs" where
  "run_files n files =
     [([''resultado'', n, n @ ''_metadata.json''],
        File (MetadataJson \<lparr> md_id = ''0f8fad5b-d9cb-469f-a165-70867728950e'',
           md_name = ''informe'', md_text_length = 4, md_tables_count = 0,
           md_confidence = None, md_processing_time = None \<rparr>)),
      ([''resultado'', n, n @ ''_original.pdf''], File (Bytes ''%PDF-1.7'')),
      ([''resultado'', n, n @ ''_texto.txt''], File (TextFile ''Hola'')),
      ([''resultado'', n], Dir)] @ files"

section \<open>Lemmas\<close>

subsection \<open>Sequencing\<close>

lemma and_then_Inr_iff: "and_then x f = Inr y \<longleftrightarrow> (\<exists>a. x = Inr a \<and> f a = Inr y)"
  by (cases x) auto


lemma plumber_step_keeps:
  "plumber_step m p = Inr m' \<Longrightarrow>
     total_pages m' = total_pages m \<and> avg_text_per_page m' = avg_text_per_page m \<and>
     image_to_page_ratio m' = image_to_page_ratio m \<and> table_to_page_ratio m' = table_to_page_ratio m"
  unfolding plumber_step_def
  by (cases "page_extract_text p"; cases "page_extract_tables p")
     (auto simp: Let_def split: option.splits if_splits)

lemma plumber_loop_keeps:
  "plumber_loop m ps = Inr m' \<Longrightarrow>
     total_pages m' = total_pages m \<and> avg_text_per_page m' = avg_text_per_page m \<and>
     image_to_page_ratio m' = image_to_page_ratio m \<and> table_to_page_ratio m' = table_to_page_ratio m"
proof (induction ps arbitrary: m)
  case Nil
  then show ?case by simp
next
  case (Cons p ps)
  then obtain m1 where s: "plumber_step m p = Inr m1" and l: "plumber_loop m1 ps = Inr m'"
    by (cases "plumber_step m p") auto
  from plumber_step_keeps[OF s] Cons.IH[OF l] show ?case by simp
qed

lemma fitz_step_keeps:
  "fitz_step m p = Inr m' \<Longrightarrow>
     total_pages m' = total_pages m \<and> avg_text_per_page m' = avg_text_per_page m \<and>
     image_to_page_ratio m' = image_to_page_ratio m \<and> table_to_page_ratio m' = table_to_page_ratio m"
  unfolding fitz_step_def
  by (cases "page_get_images p"; cases "page_get_fonts p")
     (auto simp: Let_def split: if_splits)

lemma fitz_loop_keeps:
  "fitz_loop m ps = Inr m' \<Longrightarrow>
     total_pages m' = total_pages m \<and> avg_text_per_page m' = avg_text_per_page m \<and>
     image_to_page_ratio m' = image_to_page_ratio m \<and> table_to_page_ratio m' = table_to_page_ratio m"
proof (induction ps arbitrary: m)
  case Nil
  then show ?case by simp
next
  case (Cons p ps)
  then obtain m1 where s: "fitz_step m p = Inr m1" and l: "fitz_loop m1 ps = Inr m'"
    by (cases "fitz_step m p") auto
  from fitz_step_keeps[OF s] Cons.IH[OF l] show ?case by simp
qed

lemma derived_ratios_total: "\<exists>m'. derived_ratios m = Inr m'"
  by (simp add: derived_ratios_def truediv_def)

lemma derived_ratios_zero_pages: "total_pages m = 0 \<Longrightarrow> derived_ratios m = Inr m"
  by (simp add: derived_ratios_def)

subsection \<open>Directory allocation\<close>

declare unique_dir_loop.simps [simp del]

lemma path_exists_Cons: "path_exists ((q, n) # files) p \<longleftrightarrow> p = q \<or> path_exists files p"
  by (auto simp: path_exists_def)

lemma path_exists_mkdir_fold:
  "path_exists (fold (\<lambda>q f. if path_exists f q then f else (q, Dir) # f) qs files) p
     \<longleftrightarrow> path_exists files p \<or> p \<in> set qs"
  by (induction qs arbitrary: files) (auto simp: path_exists_Cons)

lemma self_in_ancestors: "p \<noteq> [] \<Longrightarrow> p \<in> set (ancestors_and_self p)"
proof -
  assume "p \<noteq> []"
  then have "length p \<in> set [1..<Suc (length p)]" by (cases p) auto
  then have "take (length p) p \<in> set (ancestors_and_self p)"
    unfolding ancestors_and_self_def set_map by (rule imageI)
  then show ?thesis by simp
qed

lemma mkdir_parents_Inr:
  assumes "mkdir_parents env p files = (Inr u, files1)"
  shows "path_exists files1 q \<longleftrightarrow> path_exists files q \<or> q \<in> set (ancestors_and_self p)"
  using assms
  by (auto simp: mkdir_parents_def path_exists_mkdir_fold split: option.splits node.splits)

lemma unique_dir_loop_result:
  "\<not> path_exists files (unique_dir_loop files d b u c) \<and>
   (if path_exists files u
    then \<exists>k\<ge>c. unique_dir_loop files d b u c = d @ [unique_name b k] \<and>
           (\<forall>j. c \<le> j \<and> j < k \<longrightarrow> path_exists files (d @ [unique_name b j]))
    else unique_dir_loop files d b u c = u)"
proof (induction files d b u c rule: unique_dir_loop.induct)
  case (1 files d b u c)
  show ?case
  proof (cases "path_exists files u")
    case False
    then show ?thesis by (simp add: unique_dir_loop.simps[of files d b u c])
  next
    case True
    let ?r = "unique_dir_loop files d b (d @ [unique_name b c]) (c + 1)"
    have eq: "unique_dir_loop files d b u c = ?r"
      using True by (simp add: unique_dir_loop.simps[of files d b u c])
    note IH = "1.IH"[OF True]
    show ?thesis
    proof (cases "path_exists files (d @ [unique_name b c])")
      case False
      with IH have "?r = d @ [unique_name b c]" by simp
      with IH True eq show ?thesis by auto
    next
      case c_taken: True
      with IH obtain k where k: "c + 1 \<le> k" "?r = d @ [unique_name b k]"
        "\<forall>j. c + 1 \<le> j \<and> j < k \<longrightarrow> path_exists files (d @ [unique_name b j])"
        by auto
      have "\<forall>j. c \<le> j \<and> j < k \<longrightarrow> path_exists files (d @ [unique_name b j])"
      proof (intro allI impI)
        fix j assume j: "c \<le> j \<and> j < k"
        show "path_exists files (d @ [unique_name b j])"
        proof (cases "j = c")
          case True
          with c_taken show ?thesis by simp
        next
          case False
          with j k(3) show ?thesis by simp
        qed
      qed
      with k IH True eq show ?thesis
        by (intro conjI) (simp, simp, intro exI[of _ k], simp)
    qed
  qed
qed

lemma create_unique_dir_Inr:
  assumes "create_unique_dir env self b files = (Inr d, files1)"
  shows "d = unique_dir_loop files (output_dir self) b (output_dir self @ [b]) 1"
    and "mkdir_parents env d files = (Inr (), files1)"
  using assms
  by (auto simp: create_unique_dir_def Let_def io_then_def io_return_def
           split: prod.splits sum.splits)

lemma create_unique_dir_shape:
  assumes "create_unique_dir env self b files = (Inr d, files1)"
  shows "if path_exists files (output_dir self @ [b])
         then \<exists>k\<ge>1. d = output_dir self @ [unique_name b k] \<and>
                (\<forall>j. 1 \<le> j \<and> j < k \<longrightarrow> path_exists files (output_dir self @ [unique_name b j]))
         else d = output_dir self @ [b]"
  unfolding create_unique_dir_Inr(1)[OF assms]
  by (rule conjunct2[OF unique_dir_loop_result])

lemma create_unique_dir_fresh:
  assumes "create_unique_dir env self b files = (Inr d, files1)"
  shows "\<not> path_exists files d" and "d \<noteq> []"
proof -
  show "\<not> path_exists files d"
    unfolding create_unique_dir_Inr(1)[OF assms]
    by (rule conjunct1[OF unique_dir_loop_result])
  show "d \<noteq> []"
  proof (cases "path_exists files (output_dir self @ [b])")
    case True
    with create_unique_dir_shape[OF assms] obtain k where "d = output_dir self @ [unique_name b k]"
      by auto
    then show ?thesis by simp
  next
    case False
    with create_unique_dir_shape[OF assms] show ?thesis by simp
  qed
qed

lemma format_02d_small: "k < 10 \<Longrightarrow> format_02d k = [CHR ''0'', digit_char k]"
  by (simp add: format_02d_def str_nat.simps[of k])

lemma format_02d_1: "format_02d 1 = ''01''"
  by code_simp

lemma format_02d_2: "format_02d 2 = ''02''"
  by code_simp

lemma format_02d_Suc_0: "format_02d (Suc 0) = ''01''"
  using format_02d_1 by simp

lemma format_02d_Suc_Suc_0: "format_02d (Suc (Suc 0)) = ''02''"
  using format_02d_2 by (simp add: numeral_2_eq_2)

lemma length_str_nat: "length (str_nat n) \<ge> 1"
  by (subst str_nat.simps) simp

lemma length_format_02d: "length (format_02d n) \<ge> 2"
proof (cases "n < 10")
  case True
  then show ?thesis by (simp add: format_02d_small)
next
  case False
  then have "str_nat n = str_nat (n div 10) @ [digit_char (n mod 10)]"
    by (subst str_nat.simps) simp
  with length_str_nat[of "n div 10"] False show ?thesis
    by (simp add: format_02d_def)
qed

lemma anc2: "ancestors_and_self [a, b] = [[a], [a, b]]"
  by (simp add: ancestors_and_self_def upt_rec)

subsection \<open>Skew estimation\<close>

lemma line_angle_spec_theta:
  "line_angle l = (case l of [] \<Rightarrow> Inl (Exn IndexError ''index 0 is out of bounds'')
                   | _ \<Rightarrow> (case spec_theta l of
                             None \<Rightarrow> Inl (Exn ValueError ''cannot unpack'')
                           | Some theta \<Rightarrow> Inr (spec_deviation theta)))"
  by (induction l rule: line_angle.induct) (simp_all add: spec_deviation_def)

lemma spec_theta_Nil: "spec_theta [] = None"
  by simp

lemma collect_angles_filter:
  "collect_angles acc ls =
     acc @ filter (\<lambda>a. \<bar>a\<bar> < 45) (map spec_deviation (List.map_filter spec_theta ls))"
proof (induction ls arbitrary: acc)
  case Nil
  then show ?case by (simp add: List.map_filter_simps)
next
  case (Cons l ls)
  show ?case
  proof (cases "spec_theta l")
    case None
    then have "\<exists>e. line_angle l = Inl e"
      by (cases l) (simp_all add: line_angle_spec_theta)
    with None Cons show ?thesis
      by (auto simp: List.map_filter_simps)
  next
    case (Some theta)
    then have "line_angle l = Inr (spec_deviation theta)"
      by (cases l) (simp_all add: line_angle_spec_theta)
    with Some Cons show ?thesis
      by (simp add: List.map_filter_simps)
  qed
qed

lemma collect_angles_sample: "collect_angles [] (take (min 10 (length ls)) ls) = spec_kept_angles ls"
  by (simp add: collect_angles_filter spec_kept_angles_def min_def)

lemma length_spec_kept_angles: "length (spec_kept_angles ls) \<le> 10"
proof -
  have "length (spec_kept_angles ls) \<le> length (List.map_filter spec_theta (take 10 ls))"
    unfolding spec_kept_angles_def
    by (rule order_trans[OF length_filter_le]) simp
  also have "\<dots> \<le> length (take 10 ls)"
    unfolding List.map_filter_def length_map
    by (rule length_filter_le)
  also have "\<dots> \<le> 10"
    by simp
  finally show ?thesis .
qed

lemma correct_skew_Canny_fails: "Canny cv img 50 150 3 = Inl e \<Longrightarrow> correct_skew cv img = img"
  by (simp add: correct_skew_def correct_skew_try_def)

lemma correct_skew_Hough_fails:
  "Canny cv img 50 150 3 = Inr edges \<Longrightarrow> HoughLines cv edges 1 (pi / 180) 100 = Inl e
     \<Longrightarrow> correct_skew cv img = img"
  by (simp add: correct_skew_def correct_skew_try_def)

lemma correct_skew_no_lines:
  "Canny cv img 50 150 3 = Inr edges \<Longrightarrow> HoughLines cv edges 1 (pi / 180) 100 = Inr None
     \<Longrightarrow> correct_skew cv img = img"
  by (simp add: correct_skew_def correct_skew_try_def)

lemma spec_kept_angles_Nil: "spec_kept_angles [] = []"
  by (simp add: spec_kept_angles_def List.map_filter_simps)

lemma correct_skew_try_lines:
  assumes "Canny cv img 50 150 3 = Inr edges"
    and "HoughLines cv edges 1 (pi / 180) 100 = Inr (Some ls)"
  shows "correct_skew_try cv img =
     (if spec_kept_angles ls = [] then Inr img
      else if \<bar>np_median (spec_kept_angles ls)\<bar> > 0.5 then
        and_then (unpack_shape (shape cv img)) (\<lambda>(h, w).
          warpAffine cv img (RotationMatrix2D (w div 2, h div 2) (np_median (spec_kept_angles ls)) 1)
            (w, h) INTER_CUBIC BORDER_REPLICATE)
      else Inr img)"
proof (cases "ls = []")
  case True
  with assms show ?thesis
    by (simp add: correct_skew_try_def spec_kept_angles_Nil)
next
  case False
  with assms show ?thesis
    by (simp add: correct_skew_try_def collect_angles_sample Let_def)
qed

subsection \<open>Preprocessing stages\<close>

lemma and_then_cases: "and_then x f = (case x of Inl e \<Rightarrow> Inl e | Inr a \<Rightarrow> f a)"
  by (cases x) simp_all

lemma run_stages_flags:
  "ocr_adapters_OpenCV_preprocess_image cv self img =
     run_stages cv (filter (stage_enabled self) spec_stage_order) img"
  unfolding ocr_adapters_OpenCV_preprocess_image_def spec_stage_order_def
  by (cases "enable_denoising self"; cases "enable_contrast_enhancement self";
      cases "enable_deskewing self")
     (simp_all add: and_then_cases split: sum.splits)

lemma run_stages_factory_adapter:
  "TesseractOpenCVAdapter_preprocess_image cv img = run_stages cv [ConvertRGB, Binarize, MedianBlur] img"
  by (simp add: TesseractOpenCVAdapter_preprocess_image_def and_then_cases split: sum.splits)

lemma colour_cv_calls:
  "shape colour_cv i = (if i = ''page'' then [100, 200, 3] else [100, 200])"
  "cvtColor_RGB2GRAY colour_cv i = Inr (i @ ''-gray'')"
  "bilateralFilter colour_cv i d sc ss = Inr (i @ ''-bilateral'')"
  "clahe_apply colour_cv clip grid i = Inr (i @ ''-clahe'')"
  "Canny colour_cv i lo hi ap = Inr (i @ ''-edges'')"
  "adaptiveThreshold colour_cv i mx meth ty bs c = Inr (i @ ''-binary'')"
  "morphologyEx colour_cv i MORPH_CLOSE k = Inr (i @ ''-close'')"
  "morphologyEx colour_cv i MORPH_OPEN k = Inr (i @ ''-open'')"
  "medianBlur colour_cv i n = Inr (i @ ''-median'')"
  by (simp_all add: colour_cv_def example_cv_def)

lemma correct_skew_colour_cv:
  "correct_skew colour_cv ''page-gray-bilateral-clahe'' = ''page-gray-bilateral-clahe''"
proof -
  have k: "spec_kept_angles vertical_lines = []"
    by (simp add: spec_kept_angles_def List.map_filter_simps spec_deviation_def vertical_lines_def)
  have c: "Canny colour_cv ''page-gray-bilateral-clahe'' 50 150 3 = Inr ''page-gray-bilateral-clahe-edges''"
    by (simp add: colour_cv_calls)
  have h: "HoughLines colour_cv ''page-gray-bilateral-clahe-edges'' 1 (pi / 180) 100 = Inr (Some vertical_lines)"
    by (simp add: colour_cv_def example_cv_def)
  show ?thesis
    by (simp add: correct_skew_def correct_skew_try_lines[OF c h] k)
qed

lemma colour_cv_all_on:
  "run_stages colour_cv (filter (stage_enabled all_flags_on) spec_stage_order) ''page''
     = Inr ''page-gray-bilateral-clahe-binary-close-open''"
  by (simp add: spec_stage_order_def all_flags_on_def colour_cv_calls correct_skew_colour_cv)

lemma colour_cv_all_off:
  "run_stages colour_cv (filter (stage_enabled all_flags_off) spec_stage_order) ''page''
     = Inr ''page-gray-binary-close-open''"
  by (simp add: spec_stage_order_def all_flags_off_def colour_cv_calls)

lemma colour_cv_factory_adapter:
  "TesseractOpenCVAdapter_preprocess_image colour_cv ''page'' = Inr ''page-gray-binary-median''"
  by (simp add: TesseractOpenCVAdapter_preprocess_image_def colour_cv_calls)

subsection \<open>Recognition failures\<close>

lemma page_loop_Inr:
  "page_loop prep engine acc imgs = Inr texts \<longleftrightarrow>
     (\<exists>ts. texts = acc @ ts \<and> list_all2 (\<lambda>i t. and_then (prep i) engine = Inr t) imgs ts)"
proof (induction imgs arbitrary: acc texts)
  case Nil
  then show ?case by auto
next
  case (Cons i imgs)
  show ?case
  proof (cases "and_then (prep i) engine")
    case (Inl e)
    then show ?thesis
      by (auto simp: and_then_cases list_all2_Cons1 split: sum.splits)
  next
    case (Inr t)
    then have "page_loop prep engine acc (i # imgs) = page_loop prep engine (acc @ [t]) imgs"
      by (auto simp: and_then_cases split: sum.splits)
    with Inr Cons.IH[of "acc @ [t]" texts] show ?thesis
      by (auto simp: list_all2_Cons1)
  qed
qed

lemma page_loop_Inl:
  "page_loop prep engine acc imgs = Inl e \<Longrightarrow> \<exists>i \<in> set imgs. and_then (prep i) engine = Inl e"
proof (induction imgs arbitrary: acc)
  case Nil
  then show ?case by simp
next
  case (Cons i imgs)
  show ?case
  proof (cases "and_then (prep i) engine")
    case (Inl e')
    with Cons.prems have "e' = e"
      by (auto simp: and_then_cases split: sum.splits)
    with Inl show ?thesis by simp
  next
    case (Inr t)
    then have "page_loop prep engine acc (i # imgs) = page_loop prep engine (acc @ [t]) imgs"
      by (auto simp: and_then_cases split: sum.splits)
    with Cons show ?thesis by auto
  qed
qed

lemma page_loop_some_page_fails:
  assumes "\<exists>i \<in> set imgs. \<exists>e. and_then (prep i) engine = Inl e"
  shows "\<exists>e. page_loop prep engine acc imgs = Inl e"
proof (cases "page_loop prep engine acc imgs")
  case (Inl e)
  then show ?thesis by blast
next
  case (Inr texts)
  then obtain ts where "list_all2 (\<lambda>i t. and_then (prep i) engine = Inr t) imgs ts"
    unfolding page_loop_Inr by blast
  then have "\<forall>i \<in> set imgs. \<exists>t. and_then (prep i) engine = Inr t"
    by (auto simp: list_all2_conv_all_nth in_set_conv_nth)
  with assms show ?thesis by force
qed

text \<open>The common body of the four \<^verbatim>\<open>extract_text\<close> methods.\<close>

lemma extract_body_outcome:
  fixes raster :: "exn + 'img list"
  defines "body \<equiv> \<lambda>prep engine.
     and_then raster (\<lambda>imgs.
     and_then (page_loop prep engine [] imgs) (\<lambda>extracted_text.
       Inr (join newline2 extracted_text)))"
  shows "(\<forall>e. body prep engine = Inl e \<longrightarrow> raised_in raster (\<lambda>i. and_then (prep i) engine) e)"
    and "(\<exists>e. raised_in raster (\<lambda>i. and_then (prep i) engine) e) \<longrightarrow> (\<exists>e. body prep engine = Inl e)"
    and "(\<forall>text. body prep engine = Inr text \<longleftrightarrow>
           (\<exists>texts. every_page_read raster (\<lambda>i. and_then (prep i) engine) texts \<and>
                     text = join newline2 texts))"
proof -
  show "\<forall>e. body prep engine = Inl e \<longrightarrow> raised_in raster (\<lambda>i. and_then (prep i) engine) e"
  proof (intro allI impI)
    fix e assume b: "body prep engine = Inl e"
    show "raised_in raster (\<lambda>i. and_then (prep i) engine) e"
    proof (cases raster)
      case (Inl e')
      with b show ?thesis by (simp add: body_def raised_in_def)
    next
      case (Inr imgs)
      with b have "page_loop prep engine [] imgs = Inl e"
        by (auto simp: body_def and_then_cases split: sum.splits)
      from page_loop_Inl[OF this] Inr show ?thesis
        by (auto simp: raised_in_def)
    qed
  qed
  show "(\<exists>e. raised_in raster (\<lambda>i. and_then (prep i) engine) e) \<longrightarrow> (\<exists>e. body prep engine = Inl e)"
  proof
    assume "\<exists>e. raised_in raster (\<lambda>i. and_then (prep i) engine) e"
    then obtain e where r: "raised_in raster (\<lambda>i. and_then (prep i) engine) e" ..
    show "\<exists>e. body prep engine = Inl e"
    proof (cases raster)
      case (Inl e')
      then show ?thesis by (simp add: body_def)
    next
      case (Inr imgs)
      with r have "\<exists>i \<in> set imgs. \<exists>e. and_then (prep i) engine = Inl e"
        by (auto simp: raised_in_def)
      from page_loop_some_page_fails[OF this, of "[]"] Inr show ?thesis
        by (auto simp: body_def)
    qed
  qed
  show "\<forall>text. body prep engine = Inr text \<longleftrightarrow>
           (\<exists>texts. every_page_read raster (\<lambda>i. and_then (prep i) engine) texts \<and>
                     text = join newline2 texts)"
  proof (cases raster)
    case (Inl e)
    then show ?thesis by (simp add: body_def every_page_read_def)
  next
    case (Inr imgs)
    have "\<And>text. body prep engine = Inr text \<longleftrightarrow>
            (\<exists>texts. page_loop prep engine [] imgs = Inr texts \<and> text = join newline2 texts)"
      by (cases "page_loop prep engine [] imgs") (auto simp: body_def Inr)
    then show ?thesis
      by (simp add: every_page_read_def Inr page_loop_Inr)
  qed
qed

lemma starts_with_append: "starts_with (t @ b) t"
  by (induction t) simp_all

lemma contains_append: "contains (a @ t @ b) t"
proof (induction a)
  case Nil
  show ?case
    by (cases "t @ b") (use starts_with_append[of t b] in auto)
next
  case (Cons x a)
  then show ?case by simp
qed

lemma reraise_Inr_iff: "reraise_ProcessingError p r = Inr x \<longleftrightarrow> r = Inr x"
  by (cases r) (simp_all add: reraise_ProcessingError_def)

lemma ProcessDocument_execute_Inl:
  assumes "fst (ProcessDocument_execute env ocr table_extractor storage pdf_path st) = Inl e"
  shows "\<exists>cause. e = Exn ProcessingError
           (''Error procesando '' @ str_path pdf_path @ '': '' @ str_exn cause)"
  using assms
  by (auto simp: ProcessDocument_execute_def split: prod.splits sum.splits)

lemma second_page_fails_calls:
  "convert_from_path second_page_fails p d = Inr [''page1'', ''page2'']"
  "image_to_string second_page_fails ''page1'' l = Inr ''first page''"
  "image_to_string second_page_fails ''page2'' l =
     Inl (Exn (OtherException ''TesseractError'') ''Failed loading language spa'')"
  by (simp_all add: second_page_fails_def)

lemma second_page_fails_raised:
  "raised_in (convert_from_path second_page_fails p d) (direct_step second_page_fails l) e
     \<longleftrightarrow> e = Exn (OtherException ''TesseractError'') ''Failed loading language spa''"
  by (auto simp: raised_in_def direct_step_def second_page_fails_calls)

subsection \<open>Saving a document\<close>

lemma io_then_Inr:
  "io_then m f s = (Inr y, s2) \<longleftrightarrow> (\<exists>x s1. m s = (Inr x, s1) \<and> f x s1 = (Inr y, s2))"
  by (auto simp: io_then_def split: prod.splits sum.splits)

lemma io_return_eq: "io_return x s = (r, s1) \<longleftrightarrow> r = Inr x \<and> s1 = s"
  by (auto simp: io_return_def)

lemma write_file_Inr:
  "write_file env p c f = (Inr u, f1) \<longleftrightarrow> io_error env p = None \<and> f1 = (p, File c) # f"
  by (auto simp: write_file_def split: option.splits)

lemma copy2_Inr:
  "copy2 env src dst f = (Inr u, f1) \<Longrightarrow> \<exists>c. f1 = (dst, File c) # f"
  by (auto simp: copy2_def write_file_Inr split: option.splits node.splits)

lemma map_of_mkdir_fold:
  "p \<notin> set qs \<Longrightarrow>
     map_of (fold (\<lambda>q f. if path_exists f q then f else (q, Dir) # f) qs files) p = map_of files p"
  by (induction qs arbitrary: files) auto

lemma mkdir_parents_map_of:
  "mkdir_parents env d f = (Inr u, f1) \<Longrightarrow> p \<notin> set (ancestors_and_self d) \<Longrightarrow>
     map_of f1 p = map_of f p"
  by (auto simp: mkdir_parents_def map_of_mkdir_fold split: option.splits node.splits)

lemma length_ancestors: "p \<in> set (ancestors_and_self d) \<Longrightarrow> length p \<le> length d"
  by (auto simp: ancestors_and_self_def)

lemma child_not_ancestor: "d @ [n] \<notin> set (ancestors_and_self d)"
  using length_ancestors[of "d @ [n]" d] by auto

lemma create_unique_dir_map_of:
  assumes "create_unique_dir env self b files = (Inr d, f0)"
  shows "map_of f0 (d @ [n]) = map_of files (d @ [n])"
  using mkdir_parents_map_of[OF create_unique_dir_Inr(2)[OF assms] child_not_ancestor] .

lemma save_document_Inr:
  assumes "save_document env self document files = (Inr gen, files1)"
  shows "\<exists>d f0 copied.
           create_unique_dir env self (ent_name document) files = (Inr d, f0) \<and>
           gen = files_of document d copied \<and>
           (\<forall>p. p \<notin> set gen \<longrightarrow> map_of files1 p = map_of f0 p)"
proof -
  from assms obtain d f0 where
    c: "create_unique_dir env self (ent_name document) files = (Inr d, f0)"
    unfolding save_document_def io_then_Inr by blast
  let ?text = "d @ [path_name d @ ''_texto.txt'']"
  let ?tab = "d @ [path_name d @ ''_tablas.json'']"
  let ?pdf = "d @ [path_name d @ ''_original.pdf'']"
  let ?meta = "d @ [path_name d @ ''_metadata.json'']"
  from assms c obtain u1 f1 g1 f2 g2 f3 u4 where
    w1: "write_file env ?text (TextFile (ent_text document)) f0 = (Inr u1, f1)" and
    w2: "(if ent_tables document \<noteq> [] then
            io_then (write_file env ?tab (TablesJson (ent_tables document)))
              (\<lambda>u. io_return ([?text] @ [?tab]))
          else io_return [?text]) f1 = (Inr g1, f2)" and
    w3: "(case ent_source_path document of
            None \<Rightarrow> io_return g1 f2
          | Some pdf_path \<Rightarrow>
              if path_exists f2 pdf_path then
                io_then (copy2 env pdf_path ?pdf) (\<lambda>u. io_return (g1 @ [?pdf])) f2
              else io_return g1 f2) = (Inr g2, f3)" and
    w4: "write_file env ?meta
           (MetadataJson \<lparr> md_id = ent_id document, md_name = ent_name document,
               md_text_length = int (length (ent_text document)),
               md_tables_count = int (length (ent_tables document)),
               md_confidence = ent_confidence document,
               md_processing_time = ent_processing_time document \<rparr>) f3 = (Inr u4, files1)" and
    g: "gen = g2 @ [?meta]"
    unfolding save_document_def io_then_Inr Let_def
    by (auto simp: io_return_eq)
  from w1 have f1: "f1 = (?text, File (TextFile (ent_text document))) # f0"
    by (simp add: write_file_Inr)
  from w2 have s2: "g1 = [?text] @ (if ent_tables document \<noteq> [] then [?tab] else []) \<and>
      (\<forall>p. p \<notin> set g1 \<longrightarrow> map_of f2 p = map_of f1 p)"
    by (auto simp: io_then_Inr io_return_eq write_file_Inr split: if_splits)
  from w3 have s3: "\<exists>copied. g2 = g1 @ (if copied then [?pdf] else []) \<and>
      (\<forall>p. p \<notin> set g2 \<longrightarrow> map_of f3 p = map_of f2 p)"
  proof (cases "ent_source_path document")
    case None
    with w3 have "g2 = g1 @ (if False then [?pdf] else []) \<and>
      (\<forall>p. p \<notin> set g2 \<longrightarrow> map_of f3 p = map_of f2 p)"
      by (simp add: io_return_eq)
    then show ?thesis by blast
  next
    case (Some pdf_path)
    show ?thesis
    proof (cases "path_exists f2 pdf_path")
      case True
      with w3 Some obtain u where cp: "copy2 env pdf_path ?pdf f2 = (Inr u, f3)" and "g2 = g1 @ [?pdf]"
        by (auto simp: io_then_Inr io_return_eq)
      with copy2_Inr[OF cp] have "g2 = g1 @ (if True then [?pdf] else []) \<and>
        (\<forall>p. p \<notin> set g2 \<longrightarrow> map_of f3 p = map_of f2 p)"
        by auto
      then show ?thesis by blast
    next
      case False
      with w3 Some have "g2 = g1 @ (if False then [?pdf] else []) \<and>
        (\<forall>p. p \<notin> set g2 \<longrightarrow> map_of f3 p = map_of f2 p)"
        by (simp add: io_return_eq)
      then show ?thesis by blast
    qed
  qed
  then obtain copied where g2: "g2 = g1 @ (if copied then [?pdf] else [])"
    and m3: "\<forall>p. p \<notin> set g2 \<longrightarrow> map_of f3 p = map_of f2 p" by blast
  from w4 have f4: "files1 = (?meta, File (MetadataJson \<lparr> md_id = ent_id document, md_name = ent_name document,
               md_text_length = int (length (ent_text document)),
               md_tables_count = int (length (ent_tables document)),
               md_confidence = ent_confidence document,
               md_processing_time = ent_processing_time document \<rparr>)) # f3"
    by (simp add: write_file_Inr)
  have gen: "gen = files_of document d copied"
    using g g2 s2 by (simp add: files_of_def)
  have "\<forall>p. p \<notin> set gen \<longrightarrow> map_of files1 p = map_of f0 p"
  proof (intro allI impI)
    fix p assume "p \<notin> set gen"
    with g g2 s2 have n: "p \<noteq> ?meta" "p \<notin> set g2" "p \<notin> set g1" "p \<noteq> ?text"
      by auto
    then show "map_of files1 p = map_of f0 p"
      using f4 m3 s2 f1 by simp
  qed
  with c gen show ?thesis by blast
qed

lemma files_of_hd: "hd (files_of document d copied) = d @ [path_name d @ ''_texto.txt'']"
  and files_of_nonempty: "files_of document d copied \<noteq> []"
  and files_of_parent: "path_parent (hd (files_of document d copied)) = d"
  by (simp_all add: files_of_def path_parent_def)

lemma tables_file_in_files_of:
  "tables_file d \<in> set (files_of document d copied) \<longleftrightarrow> ent_tables document \<noteq> []"
  by (auto simp: files_of_def tables_file_def)

subsection \<open>A processing run\<close>

lemma ent_init_fields:
  "ent_name (entity_Document_init env n t tbls src) = n"
  "ent_tables (entity_Document_init env n t tbls src) = tbls"
  by (simp_all add: entity_Document_init_def)

lemma SaveDocument_execute_Inr:
  assumes "SaveDocument_execute env (FileStorage_port env self) n t tbls p files
             = (Inr (out_dir, gen), files1)"
  shows "\<exists>d f0 copied.
           create_unique_dir env self n files = (Inr d, f0) \<and>
           out_dir = Some d \<and>
           gen = files_of (entity_Document_init env n t tbls (Some p)) d copied \<and>
           (\<forall>q. q \<notin> set gen \<longrightarrow> map_of files1 q = map_of f0 q)"
proof -
  from assms obtain g where
    s: "save_document env self (entity_Document_init env n t tbls (Some p)) files = (Inr g, files1)"
    and o: "out_dir = (if g \<noteq> [] then Some (path_parent (hd g)) else None)" and g: "gen = g"
    unfolding SaveDocument_execute_def FileStorage_port_def io_then_Inr
    by (auto simp: io_return_eq)
  from save_document_Inr[OF s] obtain d f0 copied where
    c: "create_unique_dir env self n files = (Inr d, f0)"
    and f: "g = files_of (entity_Document_init env n t tbls (Some p)) d copied"
    and m: "\<forall>q. q \<notin> set g \<longrightarrow> map_of files1 q = map_of f0 q"
    by (auto simp: ent_init_fields)
  from o f have "out_dir = Some d"
    by (simp add: files_of_nonempty files_of_parent)
  with c f m g show ?thesis by blast
qed

lemma FileStorage_save_Inr:
  assumes "FileStorage_save env self n t tbls p files = (Inr (out_dir, gen), files1)"
  shows "\<exists>d f0 copied.
           create_unique_dir env self n files = (Inr d, f0) \<and>
           out_dir = Some d \<and>
           gen = files_of (entity_Document_init env n t tbls (Some p)) d copied \<and>
           (\<forall>q. q \<notin> set gen \<longrightarrow> map_of files1 q = map_of f0 q)"
proof -
  from assms obtain g where
    s: "save_document env self (entity_Document_init env n t tbls (Some p)) files = (Inr g, files1)"
    and o: "out_dir = (if g \<noteq> [] then Some (path_parent (hd g)) else None)" and g: "gen = g"
    unfolding FileStorage_save_def io_then_Inr
    by (auto simp: io_return_eq)
  from save_document_Inr[OF s] obtain d f0 copied where
    c: "create_unique_dir env self n files = (Inr d, f0)"
    and f: "g = files_of (entity_Document_init env n t tbls (Some p)) d copied"
    and m: "\<forall>q. q \<notin> set g \<longrightarrow> map_of files1 q = map_of f0 q"
    by (auto simp: ent_init_fields)
  from o f have "out_dir = Some d"
    by (simp add: files_of_nonempty files_of_parent)
  with c f m g show ?thesis by blast
qed

lemma ProcessDocument_execute_Inr:
  assumes "ProcessDocument_execute env ocr table_extractor (FileStorage_port env self) pdf_path
             (s, files) = (Inr document, s1, files1)"
  shows "\<exists>etext conf tbls d f0 copied.
           ExtractDocumentText_execute ocr pdf_path s = (Inr (etext, conf), s1) \<and>
           table_extractor pdf_path = Inr tbls \<and>
           create_unique_dir env self (path_stem pdf_path) files = (Inr d, f0) \<and>
           (\<forall>q. q \<notin> set (generated_files document) \<longrightarrow> map_of files1 q = map_of f0 q) \<and>
           document = \<lparr> name = path_name d, source_path = str_path pdf_path,
                        extracted_text = etext, tables = tbls, confidence = conf,
                        output_directory = d,
                        generated_files =
                          files_of (entity_Document_init env (path_stem pdf_path) etext tbls
                                      (Some pdf_path)) d copied,
                        processing_time = Some (elapsed env) \<rparr>"
proof -
  from assms have t: "ProcessDocument_try env ocr table_extractor (FileStorage_port env self)
      pdf_path (s, files) = (Inr document, s1, files1)"
    by (auto simp: ProcessDocument_execute_def split: prod.splits sum.splits)
  then obtain etext conf tbls out_dir gen where
    x: "ExtractDocumentText_execute ocr pdf_path s = (Inr (etext, conf), s1)"
    and tb: "table_extractor pdf_path = Inr tbls"
    and sv: "SaveDocument_execute env (FileStorage_port env self) (path_stem pdf_path) etext tbls
               pdf_path files = (Inr (out_dir, gen), files1)"
    and od: "out_dir \<noteq> None"
    and doc: "document = \<lparr> name = path_name (the out_dir), source_path = str_path pdf_path,
                        extracted_text = etext, tables = tbls, confidence = conf,
                        output_directory = the out_dir, generated_files = gen,
                        processing_time = Some (elapsed env) \<rparr>"
    unfolding ProcessDocument_try_def
    by (auto simp: Let_def split: prod.splits sum.splits option.splits)
  from SaveDocument_execute_Inr[OF sv] obtain d f0 copied where
    "create_unique_dir env self (path_stem pdf_path) files = (Inr d, f0)"
    "out_dir = Some d"
    "gen = files_of (entity_Document_init env (path_stem pdf_path) etext tbls (Some pdf_path)) d copied"
    "\<forall>q. q \<notin> set gen \<longrightarrow> map_of files1 q = map_of f0 q"
    by blast
  with x tb doc show ?thesis by auto
qed

lemma DocumentProcessor_process_Inr:
  assumes "DocumentProcessor_process ocr table_extractor (FileStorage_save env self) pdf_path
             (s, files) = (Inr document, s1, files1)"
  shows "\<exists>etext conf tbls d f0 copied.
           table_extractor pdf_path = Inr tbls \<and>
           create_unique_dir env self (path_stem pdf_path) files = (Inr d, f0) \<and>
           (\<forall>q. q \<notin> set (generated_files document) \<longrightarrow> map_of files1 q = map_of f0 q) \<and>
           document = \<lparr> name = path_name d, source_path = str_path pdf_path,
                        extracted_text = etext, tables = tbls, confidence = conf,
                        output_directory = d,
                        generated_files =
                          files_of (entity_Document_init env (path_stem pdf_path) etext tbls
                                      (Some pdf_path)) d copied,
                        processing_time = None \<rparr>"
proof -
  from assms have t: "DocumentProcessor_try ocr table_extractor (FileStorage_save env self)
      pdf_path (s, files) = (Inr document, s1, files1)"
    by (auto simp: DocumentProcessor_process_def split: prod.splits sum.splits)
  then obtain etext conf tbls out_dir gen where
    tb: "table_extractor pdf_path = Inr tbls"
    and sv: "FileStorage_save env self (path_stem pdf_path) etext tbls
               pdf_path files = (Inr (out_dir, gen), files1)"
    and doc: "document = \<lparr> name = path_name (the out_dir), source_path = str_path pdf_path,
                        extracted_text = etext, tables = tbls, confidence = conf,
                        output_directory = the out_dir, generated_files = gen,
                        processing_time = None \<rparr>"
    unfolding DocumentProcessor_try_def
    by (auto simp: Let_def split: prod.splits sum.splits option.splits)
  from FileStorage_save_Inr[OF sv] obtain d f0 copied where
    "create_unique_dir env self (path_stem pdf_path) files = (Inr d, f0)"
    "out_dir = Some d"
    "gen = files_of (entity_Document_init env (path_stem pdf_path) etext tbls (Some pdf_path)) d copied"
    "\<forall>q. q \<notin> set gen \<longrightarrow> map_of files1 q = map_of f0 q"
    by blast
  with tb doc show ?thesis by auto
qed

lemma unique_name_neq: "unique_name b k \<noteq> b"
  by (simp add: unique_name_def)

lemma path_name_snoc: "path_name (d @ [n]) = n"
  by (simp add: path_name_def)

lemma allocated_name:
  assumes "create_unique_dir env self b files = (Inr d, f0)"
  shows "path_name d = b \<longleftrightarrow> \<not> path_exists files (output_dir self @ [b])"
proof (cases "path_exists files (output_dir self @ [b])")
  case True
  with create_unique_dir_shape[OF assms] obtain k where "d = output_dir self @ [unique_name b k]"
    by auto
  with True show ?thesis by (simp add: path_name_snoc unique_name_neq)
next
  case False
  with create_unique_dir_shape[OF assms] show ?thesis by (simp add: path_name_snoc)
qed

subsection \<open>The example run\<close>

lemma path_stem_informe: "path_stem informe_pdf = ''informe''"
  by (simp add: path_stem_def informe_pdf_def path_name_def rfind_def Let_def)

lemma taken_loop:
  "unique_dir_loop taken_files [''resultado''] ''informe'' [''resultado'', ''informe''] (Suc 0)
     = [''resultado'', ''informe_01'']"
  apply (subst unique_dir_loop.simps)
  apply (simp add: path_exists_def taken_files_def)
  apply (subst unique_dir_loop.simps)
  apply (simp add: path_exists_def unique_name_def format_02d_Suc_0)
  done

lemma taken_create:
  "create_unique_dir no_io_errors resultado ''informe'' taken_files
     = (Inr [''resultado'', ''informe_01''], ([''resultado'', ''informe_01''], Dir) # taken_files)"
  unfolding create_unique_dir_def resultado_def taken_files_def
  by (simp add: taken_loop[unfolded taken_files_def] Let_def no_io_errors_def path_exists_def
        mkdir_parents_def io_then_def io_return_def anc2)

lemma no_io_errors_fields:
  "io_error no_io_errors p = None"
  "uuid4 no_io_errors = ''0f8fad5b-d9cb-469f-a165-70867728950e''"
  "elapsed no_io_errors = 1.5"
  by (simp_all add: no_io_errors_def)

lemma informe_pdf_in_taken_files:
  "map_of (([''resultado'', ''informe_01'', n], x) # ([''resultado'', ''informe_01''], y) # taken_files)
     informe_pdf = Some (File (Bytes ''%PDF-1.7''))"
  by (simp add: taken_files_def informe_pdf_def)

lemma example_save:
  "save_document no_io_errors resultado
      (entity_Document_init no_io_errors ''informe'' ''Hola'' [] (Some informe_pdf)) taken_files
     = (Inr (generated_files example_document), example_files)"
  unfolding save_document_def
  by (simp add: io_then_def taken_create entity_Document_init_def io_return_def write_file_def
        no_io_errors_fields Let_def path_name_def copy2_def path_exists_def
        informe_pdf_in_taken_files example_document_def example_files_def)
     (simp add: informe_pdf_def taken_files_def io_then_def io_return_def write_file_def
        no_io_errors_fields)

lemma example_run:
  "factory_pipeline no_io_errors one_page_libs resultado informe_pdf
      (TesseractAdapter (adapter_init ''spa'' 300), taken_files)
     = (Inr example_document, TesseractAdapter (adapter_init ''spa'' 300), example_files)"
proof -
  have x: "ExtractDocumentText_execute (factory_ocr_port one_page_libs) informe_pdf
             (TesseractAdapter (adapter_init ''spa'' 300))
           = (Inr (''Hola'', 0), TesseractAdapter (adapter_init ''spa'' 300))"
    by (simp add: ExtractDocumentText_execute_def factory_ocr_port_def
        TesseractAdapter_extract_text_def get_confidence_def reraise_ProcessingError_def
        one_page_libs_def adapter_init_def)
  have s: "SaveDocument_execute no_io_errors (FileStorage_port no_io_errors resultado)
             ''informe'' ''Hola'' [] informe_pdf taken_files
           = (Inr (Some [''resultado'', ''informe_01''], generated_files example_document),
              example_files)"
    unfolding SaveDocument_execute_def FileStorage_port_def
    by (simp add: io_then_def example_save io_return_def)
       (simp add: example_document_def path_parent_def)
  show ?thesis
    unfolding factory_pipeline_def ProcessDocument_execute_def ProcessDocument_try_def
    by (simp add: x create_table_extractor_def SimpleTableAdapter_extract_tables_def
        path_stem_informe s Let_def)
       (simp add: example_document_def path_name_def str_path_def informe_pdf_def
        no_io_errors_fields)
qed


subsection \<open>Confidence\<close>

lemma adapter_confidence_after:
  "adapter_confidence (adapter_after libs a c) = adapter_confidence a"
  by (cases a; cases c)
     (simp_all add: TesseractAdapter_extract_text_def TesseractOpenCVAdapter_extract_text_def
        get_confidence_def TesseractAdapter_get_engine_info_def
        TesseractOpenCVAdapter_get_engine_info_def get_tesseract_version_or_unknown_def
        get_opencv_version_or_unknown_def get_supported_languages_def)

lemma adapter_confidence_calls:
  "adapter_confidence (foldl (adapter_after libs) a calls) = adapter_confidence a"
  by (induction calls arbitrary: a) (simp_all add: adapter_confidence_after)

lemma adapter_confidence_created:
  "create_ocr_adapter config = Inr a \<Longrightarrow> adapter_confidence a = 0"
  by (auto simp: create_ocr_adapter_def adapter_init_def split: if_splits)

lemma adapter_get_confidence_eq:
  "adapter_get_confidence a = (Inr (adapter_confidence a), a)"
  by (cases a) (simp_all add: get_confidence_def)

lemma factory_port_confidence:
  assumes "ExtractDocumentText_execute (factory_ocr_port libs) p a = (Inr (t, conf), a1)"
  shows "conf = adapter_confidence a"
proof -
  have "snd (adapter_extract_text libs a p) = a"
    by (cases a)
       (simp_all add: TesseractAdapter_extract_text_def TesseractOpenCVAdapter_extract_text_def)
  with assms show ?thesis
    by (auto simp: ExtractDocumentText_execute_def factory_ocr_port_def adapter_get_confidence_eq
             split: prod.splits sum.splits)
qed

subsection \<open>Unreadable documents\<close>







subsection \<open>Failures of the PDF readers\<close>






subsection \<open>The median\<close>

lemma length_filter_prefix:
  assumes "k \<le> length s" and "\<forall>i<k. P (s ! i)"
  shows "k \<le> length (filter P s)"
proof -
  have "filter P (take k s) = take k s"
    using assms by (auto simp: filter_id_conv in_set_conv_nth)
  then have "length (filter P (take k s)) = k"
    using assms(1) by simp
  moreover have "filter P s = filter P (take k s) @ filter P (drop k s)"
    by (metis append_take_drop_id filter_append)
  ultimately show ?thesis by simp
qed

lemma length_filter_suffix:
  assumes "k \<le> length s" and "\<forall>i. k \<le> i \<and> i < length s \<longrightarrow> P (s ! i)"
  shows "length s - k \<le> length (filter P s)"
proof -
  have "filter P (drop k s) = drop k s"
    using assms by (auto simp: filter_id_conv in_set_conv_nth)
  then have "length (filter P (drop k s)) = length s - k"
    by simp
  moreover have "filter P s = filter P (take k s) @ filter P (drop k s)"
    by (metis append_take_drop_id filter_append)
  ultimately show ?thesis by simp
qed

lemma length_filter_sort: "length (filter P (sort xs)) = length (filter P (xs :: real list))"
  by (simp add: filter_sort)

lemma np_median_bounds:
  assumes "xs \<noteq> []"
  shows "sort xs ! ((length xs - 1) div 2) \<le> np_median xs"
    and "np_median xs \<le> sort xs ! (length xs div 2)"
proof -
  let ?s = "sort xs" and ?n = "length xs"
  have n: "0 < ?n" using assms by simp
  have le: "?s ! (?n div 2 - 1) \<le> ?s ! (?n div 2)"
    using n by (intro sorted_nth_mono) auto
  show "?s ! ((?n - 1) div 2) \<le> np_median xs"
  proof (cases "odd ?n")
    case True
    then have "(?n - 1) div 2 = ?n div 2" by presburger
    with True show ?thesis by (simp add: np_median_def Let_def)
  next
    case False
    then have "(?n - 1) div 2 = ?n div 2 - 1" using n by presburger
    with False le show ?thesis by (simp add: np_median_def Let_def)
  qed
  show "np_median xs \<le> ?s ! (?n div 2)"
  proof (cases "odd ?n")
    case True
    then show ?thesis by (simp add: np_median_def Let_def)
  next
    case False
    with le show ?thesis by (simp add: np_median_def Let_def)
  qed
qed

lemma np_median_half_below:
  assumes "xs \<noteq> []"
  shows "length xs \<le> 2 * length (filter (\<lambda>x. x \<le> np_median xs) xs)"
proof -
  let ?s = "sort xs" and ?n = "length xs" and ?k = "Suc ((length xs - 1) div 2)"
  have n: "0 < ?n" using assms by simp
  have "\<forall>i < ?k. ?s ! i \<le> np_median xs"
  proof (intro allI impI)
    fix i assume "i < ?k"
    moreover have "(?n - 1) div 2 < ?n" using n by presburger
    ultimately have "?s ! i \<le> ?s ! ((?n - 1) div 2)"
      by (intro sorted_nth_mono) auto
    with np_median_bounds(1)[OF assms] show "?s ! i \<le> np_median xs" by simp
  qed
  moreover have "?k \<le> ?n" using n by presburger
  then have "?k \<le> length ?s" by simp
  ultimately have "?k \<le> length (filter (\<lambda>x. x \<le> np_median xs) ?s)"
    by (intro length_filter_prefix)
  then have "?k \<le> length (filter (\<lambda>x. x \<le> np_median xs) xs)"
    by (simp only: length_filter_sort)
  moreover have "?n \<le> 2 * ?k" by presburger
  ultimately show ?thesis by linarith
qed

lemma np_median_half_above:
  assumes "xs \<noteq> []"
  shows "length xs \<le> 2 * length (filter (\<lambda>x. np_median xs \<le> x) xs)"
proof -
  let ?s = "sort xs" and ?n = "length xs" and ?k = "length xs div 2"
  have n: "0 < ?n" using assms by simp
  have "\<forall>i. ?k \<le> i \<and> i < length ?s \<longrightarrow> np_median xs \<le> ?s ! i"
  proof (intro allI impI)
    fix i assume i: "?k \<le> i \<and> i < length ?s"
    then have "?s ! ?k \<le> ?s ! i"
      by (intro sorted_nth_mono) auto
    with np_median_bounds(2)[OF assms] show "np_median xs \<le> ?s ! i" by simp
  qed
  moreover have "?k \<le> length ?s" by simp
  ultimately have "length ?s - ?k \<le> length (filter (\<lambda>x. np_median xs \<le> x) ?s)"
    by (intro length_filter_suffix)
  then have "?n - ?k \<le> length (filter (\<lambda>x. np_median xs \<le> x) xs)"
    by (simp only: length_filter_sort length_sort)
  moreover have "?n \<le> 2 * (?n - ?k)" by presburger
  ultimately show ?thesis by linarith
qed

lemma np_median_odd_middle:
  "odd (length xs) \<Longrightarrow> np_median xs = sort xs ! (length xs div 2)"
  by (simp add: np_median_def Let_def)

lemma np_median_even_mean:
  "even (length xs) \<Longrightarrow>
     np_median xs = (sort xs ! (length xs div 2 - 1) + sort xs ! (length xs div 2)) / 2"
  by (simp add: np_median_def Let_def)

lemma np_median_midpoint:
  assumes "xs \<noteq> []"
  shows "2 * np_median xs = sort xs ! ((length xs - 1) div 2) + sort xs ! (length xs div 2)"
proof (cases "odd (length xs)")
  case True
  then have "(length xs - 1) div 2 = length xs div 2" by presburger
  with True show ?thesis by (simp add: np_median_def Let_def)
next
  case False
  have "0 < length xs" using assms by simp
  with False have "(length xs - 1) div 2 = length xs div 2 - 1" by presburger
  with False show ?thesis by (simp add: np_median_def Let_def)
qed

subsection \<open>Successive allocations\<close>

lemma sibling_in_ancestors: "d @ [n] \<in> set (ancestors_and_self (d @ [m])) \<longleftrightarrow> n = m"
proof
  assume "d @ [n] \<in> set (ancestors_and_self (d @ [m]))"
  then obtain k where k: "take k (d @ [m]) = d @ [n]"
    unfolding ancestors_and_self_def set_map image_iff by metis
  have "length (take k (d @ [m])) = Suc (length d)"
    unfolding k by simp
  then have "Suc (length d) \<le> k" by simp
  then have "take k (d @ [m]) = d @ [m]" by simp
  with k show "n = m" by simp
next
  assume "n = m"
  then show "d @ [n] \<in> set (ancestors_and_self (d @ [m]))"
    using self_in_ancestors[of "d @ [m]"] by simp
qed

lemma create_unique_dir_root:
  assumes "create_unique_dir env self b files = (Inr d, files1)"
  shows "\<exists>m. d = output_dir self @ [m]"
  using create_unique_dir_shape[OF assms] by (auto split: if_splits)

lemma create_unique_dir_siblings:
  assumes "create_unique_dir env self b files = (Inr (output_dir self @ [m]), files1)"
  shows "path_exists files1 (output_dir self @ [n]) \<longleftrightarrow>
           path_exists files (output_dir self @ [n]) \<or> n = m"
  using mkdir_parents_Inr[OF create_unique_dir_Inr(2)[OF assms], of "output_dir self @ [n]"]
  by (simp add: sibling_in_ancestors)

lemma unique_name_1: "unique_name b 1 = b @ ''_01''" "unique_name b (Suc 0) = b @ ''_01''"
  by (simp_all add: unique_name_def format_02d_Suc_0)

lemma unique_name_2: "unique_name b 2 = b @ ''_02''"
  by (simp add: unique_name_def format_02d_2)

text \<open>
  Allocation on a file system whose entries in the output root are known: the stem
  itself when it is free; the first candidate when only the stem is taken; the second
  when the stem and the first candidate are taken.
\<close>

lemma allocation_free:
  assumes "create_unique_dir env self b files = (Inr d, files1)"
    and "\<not> path_exists files (output_dir self @ [b])"
  shows "d = output_dir self @ [b]"
  using create_unique_dir_shape[OF assms(1)] assms(2) by simp

lemma allocation_first:
  assumes a: "create_unique_dir env self b files = (Inr d, files1)"
    and t: "path_exists files (output_dir self @ [b])"
    and f: "\<not> path_exists files (output_dir self @ [b @ ''_01''])"
  shows "d = output_dir self @ [b @ ''_01'']"
proof -
  from create_unique_dir_shape[OF a] t obtain k where
    k: "1 \<le> k" "d = output_dir self @ [unique_name b k]"
      "\<forall>j. 1 \<le> j \<and> j < k \<longrightarrow> path_exists files (output_dir self @ [unique_name b j])"
    by auto
  have "k = 1"
  proof (rule ccontr)
    assume "k \<noteq> 1"
    with k(1) have "1 \<le> (1::nat) \<and> 1 < k" by simp
    with k(3) have "path_exists files (output_dir self @ [unique_name b 1])" by blast
    with f show False by (simp add: unique_name_1)
  qed
  with k(2) show ?thesis by (simp add: unique_name_1)
qed

lemma allocation_second:
  assumes a: "create_unique_dir env self b files = (Inr d, files1)"
    and t: "path_exists files (output_dir self @ [b])"
    and t1: "path_exists files (output_dir self @ [b @ ''_01''])"
    and f: "\<not> path_exists files (output_dir self @ [b @ ''_02''])"
  shows "d = output_dir self @ [b @ ''_02'']"
proof -
  from create_unique_dir_shape[OF a] t obtain k where
    k: "1 \<le> k" "d = output_dir self @ [unique_name b k]"
      "\<forall>j. 1 \<le> j \<and> j < k \<longrightarrow> path_exists files (output_dir self @ [unique_name b j])"
    by auto
  have "k \<noteq> 1"
    using create_unique_dir_fresh(1)[OF a] k(2) t1 by (auto simp: unique_name_1)
  have "k = 2"
  proof (rule ccontr)
    assume "k \<noteq> 2"
    with k(1) \<open>k \<noteq> 1\<close> have "1 \<le> (2::nat) \<and> 2 < k" by simp
    with k(3) have "path_exists files (output_dir self @ [unique_name b 2])" by blast
    with f show False by (simp add: unique_name_2)
  qed
  with k(2) show ?thesis by (simp add: unique_name_2)
qed

lemma three_allocations:
  assumes a1: "create_unique_dir env self b files = (Inr d, files1)"
    and a2: "create_unique_dir env2 self b files1 = (Inr d2, files2)"
    and f0: "\<not> path_exists files (output_dir self @ [b])"
    and f1: "\<not> path_exists files (output_dir self @ [b @ ''_01''])"
  shows "d = output_dir self @ [b]" and "d2 = output_dir self @ [b @ ''_01'']"
    and "\<forall>env3 d3 files3.
           \<not> path_exists files (output_dir self @ [b @ ''_02'']) \<and>
           create_unique_dir env3 self b files2 = (Inr d3, files3) \<longrightarrow>
           d3 = output_dir self @ [b @ ''_02'']"
proof -
  show d: "d = output_dir self @ [b]"
    by (rule allocation_free[OF a1 f0])
  note s1 = create_unique_dir_siblings[OF a1[unfolded d]]
  have "path_exists files1 (output_dir self @ [b])" by (simp add: s1)
  moreover have "\<not> path_exists files1 (output_dir self @ [b @ ''_01''])"
    using f1 by (simp add: s1)
  ultimately show d2: "d2 = output_dir self @ [b @ ''_01'']"
    by (rule allocation_first[OF a2])
  note s2 = create_unique_dir_siblings[OF a2[unfolded d2]]
  show "\<forall>env3 d3 files3.
           \<not> path_exists files (output_dir self @ [b @ ''_02'']) \<and>
           create_unique_dir env3 self b files2 = (Inr d3, files3) \<longrightarrow>
           d3 = output_dir self @ [b @ ''_02'']"
  proof (intro allI impI)
    fix env3 d3 files3
    assume h: "\<not> path_exists files (output_dir self @ [b @ ''_02'']) \<and>
           create_unique_dir env3 self b files2 = (Inr d3, files3)"
    have "path_exists files2 (output_dir self @ [b])" by (simp add: s1 s2)
    moreover have "path_exists files2 (output_dir self @ [b @ ''_01''])" by (simp add: s2)
    moreover have "\<not> path_exists files2 (output_dir self @ [b @ ''_02''])"
      using h by (simp add: s1 s2)
    moreover from h have "create_unique_dir env3 self b files2 = (Inr d3, files3)" by simp
    ultimately show "d3 = output_dir self @ [b @ ''_02'']"
      by (intro allocation_second)
  qed
qed

lemma run_directory_exists:
  assumes "ProcessDocument_execute env ocr table_extractor (FileStorage_port env self) pdf_path
             (s, files) = (Inr document, s1, files1)"
  shows "path_exists files1 (output_directory document)"
    and "\<not> path_exists files (output_directory document)"
proof -
  from ProcessDocument_execute_Inr[OF assms] obtain etext tbls d f0 copied where
    c: "create_unique_dir env self (path_stem pdf_path) files = (Inr d, f0)"
    and m: "\<forall>q. q \<notin> set (generated_files document) \<longrightarrow> map_of files1 q = map_of f0 q"
    and o: "output_directory document = d"
    and g: "generated_files document =
              files_of (entity_Document_init env (path_stem pdf_path) etext tbls (Some pdf_path)) d copied"
    by auto
  have "d \<notin> set (generated_files document)"
    unfolding g files_of_def by simp
  with m have "map_of files1 d = map_of f0 d" by simp
  moreover have "path_exists f0 d"
    using mkdir_parents_Inr[OF create_unique_dir_Inr(2)[OF c], of d]
      self_in_ancestors[OF create_unique_dir_fresh(2)[OF c]] by simp
  ultimately show "path_exists files1 (output_directory document)"
    by (simp add: path_exists_def o)
  from create_unique_dir_fresh(1)[OF c] o
  show "\<not> path_exists files (output_directory document)" by simp
qed

lemma successive_runs_differ:
  assumes r1: "ProcessDocument_execute env1 ocr1 tex1 (FileStorage_port env1 self1) pdf1
             (s1, fs1) = (Inr doc1, sa, fa)"
    and r2: "ProcessDocument_execute env2 ocr2 tex2 (FileStorage_port env2 self2) pdf2
             (s2, fa) = (Inr doc2, sb, fb)"
  shows "output_directory doc2 \<noteq> output_directory doc1"
  using run_directory_exists(1)[OF r1] run_directory_exists(2)[OF r2] by auto

lemma run_siblings:
  assumes "ProcessDocument_execute env ocr table_extractor (FileStorage_port env self) pdf_path
             (s, files) = (Inr document, s1, files1)"
  shows "\<exists>m. output_directory document = output_dir self @ [m] \<and>
           create_unique_dir env self (path_stem pdf_path) files
             = (Inr (output_dir self @ [m]), snd (create_unique_dir env self (path_stem pdf_path) files)) \<and>
           name document = m \<and>
           (\<forall>n. path_exists files1 (output_dir self @ [n]) \<longleftrightarrow>
                  path_exists files (output_dir self @ [n]) \<or> n = m)"
proof -
  from ProcessDocument_execute_Inr[OF assms] obtain etext tbls d f0 copied where
    c: "create_unique_dir env self (path_stem pdf_path) files = (Inr d, f0)"
    and m: "\<forall>q. q \<notin> set (generated_files document) \<longrightarrow> map_of files1 q = map_of f0 q"
    and o: "output_directory document = d"
    and nm: "name document = path_name d"
    and g: "generated_files document =
              files_of (entity_Document_init env (path_stem pdf_path) etext tbls (Some pdf_path)) d copied"
    by auto
  from create_unique_dir_root[OF c] obtain k where d: "d = output_dir self @ [k]" by blast
  have "\<forall>n. path_exists files1 (output_dir self @ [n]) \<longleftrightarrow>
                  path_exists files (output_dir self @ [n]) \<or> n = k"
  proof
    fix n
    have "output_dir self @ [n] \<notin> set (generated_files document)"
      unfolding g files_of_def d by simp
    with m have "map_of files1 (output_dir self @ [n]) = map_of f0 (output_dir self @ [n])"
      by simp
    then have "path_exists files1 (output_dir self @ [n]) \<longleftrightarrow> path_exists f0 (output_dir self @ [n])"
      by (simp add: path_exists_def)
    with create_unique_dir_siblings[OF c[unfolded d], of n]
    show "path_exists files1 (output_dir self @ [n]) \<longleftrightarrow>
                  path_exists files (output_dir self @ [n]) \<or> n = k" by simp
  qed
  with c o nm d show ?thesis by (simp add: path_name_snoc)
qed

lemma successive_runs_names:
  assumes r1: "ProcessDocument_execute env1 ocr1 tex1 (FileStorage_port env1 self) pdf1
             (s1, fs1) = (Inr doc1, sa, fa)"
    and r2: "ProcessDocument_execute env2 ocr2 tex2 (FileStorage_port env2 self) pdf2
             (s2, fa) = (Inr doc2, sb, fb)"
    and same: "path_stem pdf2 = path_stem pdf1"
    and f0: "\<not> path_exists fs1 (output_dir self @ [path_stem pdf1])"
    and f1: "\<not> path_exists fs1 (output_dir self @ [path_stem pdf1 @ ''_01''])"
  shows "name doc1 = path_stem pdf1" and "name doc2 = path_stem pdf1 @ ''_01''"
proof -
  from run_siblings[OF r1] obtain m1 f0a where
    c1: "create_unique_dir env1 self (path_stem pdf1) fs1 = (Inr (output_dir self @ [m1]), f0a)"
    and n1: "name doc1 = m1"
    and e1: "\<forall>n. path_exists fa (output_dir self @ [n]) \<longleftrightarrow>
                  path_exists fs1 (output_dir self @ [n]) \<or> n = m1"
    by blast
  from allocation_free[OF c1 f0] have m1: "m1 = path_stem pdf1" by simp
  with n1 show "name doc1 = path_stem pdf1" by simp
  from run_siblings[OF r2] obtain m2 f0b where
    c2: "create_unique_dir env2 self (path_stem pdf2) fa = (Inr (output_dir self @ [m2]), f0b)"
    and n2: "name doc2 = m2"
    by blast
  have "path_exists fa (output_dir self @ [path_stem pdf1])"
    using e1 m1 by simp
  moreover have "\<not> path_exists fa (output_dir self @ [path_stem pdf1 @ ''_01''])"
    using e1 m1 f1 by simp
  ultimately have "output_dir self @ [m2] = output_dir self @ [path_stem pdf1 @ ''_01'']"
    using c2[unfolded same] by (intro allocation_first)
  with n2 show "name doc2 = path_stem pdf1 @ ''_01''" by simp
qed

subsection \<open>Two runs, one after the other\<close>

lemma run_files_lookup:
  "map_of (run_files n files) [''pdfs'', ''informe.pdf''] = map_of files [''pdfs'', ''informe.pdf'']"
  "map_of (run_files n files) [''resultado'', m] = (if m = n then Some Dir else map_of files [''resultado'', m])"
  by (simp_all add: run_files_def)

lemma save_on:
  assumes c: "create_unique_dir no_io_errors resultado ''informe'' files
                = (Inr [''resultado'', n], ([''resultado'', n], Dir) # files)"
    and p: "map_of files informe_pdf = Some (File (Bytes ''%PDF-1.7''))"
  shows "save_document no_io_errors resultado
           (entity_Document_init no_io_errors ''informe'' ''Hola'' [] (Some informe_pdf)) files
         = (Inr (generated_files (run_document n)), run_files n files)"
proof -
  have q: "map_of (([''resultado'', n, x], y) # ([''resultado'', n], Dir) # files) informe_pdf
             = Some (File (Bytes ''%PDF-1.7''))" for x y
    using p by (simp add: informe_pdf_def)
  show ?thesis
    unfolding save_document_def
    by (simp add: io_then_def c entity_Document_init_def io_return_def write_file_def
          no_io_errors_fields Let_def path_name_def copy2_def path_exists_def q
          run_document_def run_files_def)
       (simp add: informe_pdf_def p[unfolded informe_pdf_def] io_then_def io_return_def
          write_file_def no_io_errors_fields)
qed

lemma run_on:
  assumes c: "create_unique_dir no_io_errors resultado ''informe'' files
                = (Inr [''resultado'', n], ([''resultado'', n], Dir) # files)"
    and p: "map_of files informe_pdf = Some (File (Bytes ''%PDF-1.7''))"
  shows "factory_pipeline no_io_errors one_page_libs resultado informe_pdf
           (TesseractAdapter (adapter_init ''spa'' 300), files)
         = (Inr (run_document n), TesseractAdapter (adapter_init ''spa'' 300), run_files n files)"
proof -
  have x: "ExtractDocumentText_execute (factory_ocr_port one_page_libs) informe_pdf
             (TesseractAdapter (adapter_init ''spa'' 300))
           = (Inr (''Hola'', 0), TesseractAdapter (adapter_init ''spa'' 300))"
    by (simp add: ExtractDocumentText_execute_def factory_ocr_port_def
        TesseractAdapter_extract_text_def get_confidence_def reraise_ProcessingError_def
        one_page_libs_def adapter_init_def)
  have s: "SaveDocument_execute no_io_errors (FileStorage_port no_io_errors resultado)
             ''informe'' ''Hola'' [] informe_pdf files
           = (Inr (Some [''resultado'', n], generated_files (run_document n)), run_files n files)"
    unfolding SaveDocument_execute_def FileStorage_port_def
    by (simp add: io_then_def save_on[OF c p] io_return_def)
       (simp add: run_document_def path_parent_def)
  show ?thesis
    unfolding factory_pipeline_def ProcessDocument_execute_def ProcessDocument_try_def
    by (simp add: x create_table_extractor_def SimpleTableAdapter_extract_tables_def
        path_stem_informe s Let_def)
       (simp add: run_document_def path_name_def str_path_def informe_pdf_def
        no_io_errors_fields)
qed

lemma fresh_create:
  "create_unique_dir no_io_errors resultado ''informe'' fresh_files
     = (Inr [''resultado'', ''informe''], ([''resultado'', ''informe''], Dir) # fresh_files)"
proof -
  have l: "unique_dir_loop fresh_files [''resultado''] ''informe'' [''resultado'', ''informe''] (Suc 0)
             = [''resultado'', ''informe'']"
    by (subst unique_dir_loop.simps) (simp add: path_exists_def fresh_files_def)
  show ?thesis
    unfolding create_unique_dir_def resultado_def fresh_files_def
    by (simp add: l[unfolded fresh_files_def] Let_def no_io_errors_def path_exists_def
          mkdir_parents_def io_then_def io_return_def anc2)
qed

lemma second_create:
  "create_unique_dir no_io_errors resultado ''informe'' (run_files ''informe'' fresh_files)
     = (Inr [''resultado'', ''informe_01''],
        ([''resultado'', ''informe_01''], Dir) # run_files ''informe'' fresh_files)"
proof -
  have e: "path_exists (run_files ''informe'' fresh_files) [''resultado'', ''informe'']"
    "\<not> path_exists (run_files ''informe'' fresh_files) [''resultado'', ''informe_01'']"
    "path_exists (run_files ''informe'' fresh_files) [''resultado'']"
    by (simp_all add: path_exists_def run_files_def fresh_files_def)
  have l: "unique_dir_loop (run_files ''informe'' fresh_files) [''resultado''] ''informe''
             [''resultado'', ''informe''] (Suc 0) = [''resultado'', ''informe_01'']"
    apply (subst unique_dir_loop.simps)
    apply (simp add: e)
    apply (subst unique_dir_loop.simps)
    apply (simp add: e unique_name_def format_02d_Suc_0)
    done
  have m: "map_of (run_files ''informe'' fresh_files) [''resultado'', ''informe_01''] = None"
    using e(2) by (simp add: path_exists_def)
  show ?thesis
    unfolding create_unique_dir_def resultado_def
    by (simp add: l Let_def no_io_errors_fields mkdir_parents_def io_then_def io_return_def
          anc2 e m)
qed

lemma two_runs:
  "factory_pipeline no_io_errors one_page_libs resultado informe_pdf
      (TesseractAdapter (adapter_init ''spa'' 300), fresh_files)
     = (Inr (run_document ''informe''), TesseractAdapter (adapter_init ''spa'' 300),
        run_files ''informe'' fresh_files)"
  "factory_pipeline no_io_errors one_page_libs resultado informe_pdf
      (TesseractAdapter (adapter_init ''spa'' 300), run_files ''informe'' fresh_files)
     = (Inr (run_document ''informe_01''), TesseractAdapter (adapter_init ''spa'' 300),
        run_files ''informe_01'' (run_files ''informe'' fresh_files))"
proof -
  have p: "map_of fresh_files informe_pdf = Some (File (Bytes ''%PDF-1.7''))"
    by (simp add: fresh_files_def informe_pdf_def)
  then have q: "map_of (run_files ''informe'' fresh_files) informe_pdf = Some (File (Bytes ''%PDF-1.7''))"
    by (simp add: run_files_lookup informe_pdf_def)
  show "factory_pipeline no_io_errors one_page_libs resultado informe_pdf
      (TesseractAdapter (adapter_init ''spa'' 300), fresh_files)
     = (Inr (run_document ''informe''), TesseractAdapter (adapter_init ''spa'' 300),
        run_files ''informe'' fresh_files)"
    by (rule run_on[OF fresh_create p])
  show "factory_pipeline no_io_errors one_page_libs resultado informe_pdf
      (TesseractAdapter (adapter_init ''spa'' 300), run_files ''informe'' fresh_files)
     = (Inr (run_document ''informe_01''), TesseractAdapter (adapter_init ''spa'' 300),
        run_files ''informe_01'' (run_files ''informe'' fresh_files))"
    by (rule run_on[OF second_create q])
qed

lemma third_run_name:
  assumes r1: "ProcessDocument_execute env1 ocr1 tex1 (FileStorage_port env1 self) pdf1
             (s1, fs1) = (Inr doc1, sa, fa)"
    and r2: "ProcessDocument_execute env2 ocr2 tex2 (FileStorage_port env2 self) pdf2
             (s2, fa) = (Inr doc2, sb, fb)"
    and r3: "ProcessDocument_execute env3 ocr3 tex3 (FileStorage_port env3 self) pdf3
             (s3, fb) = (Inr doc3, sc, fc)"
    and same2: "path_stem pdf2 = path_stem pdf1"
    and same3: "path_stem pdf3 = path_stem pdf1"
    and f0: "\<not> path_exists fs1 (output_dir self @ [path_stem pdf1])"
    and f1: "\<not> path_exists fs1 (output_dir self @ [path_stem pdf1 @ ''_01''])"
    and f2: "\<not> path_exists fs1 (output_dir self @ [path_stem pdf1 @ ''_02''])"
  shows "name doc3 = path_stem pdf1 @ ''_02''"
proof -
  from run_siblings[OF r1] obtain m1 where
    n1: "name doc1 = m1"
    and e1: "\<forall>n. path_exists fa (output_dir self @ [n]) \<longleftrightarrow>
                  path_exists fs1 (output_dir self @ [n]) \<or> n = m1"
    by blast
  from run_siblings[OF r2] obtain m2 where
    n2: "name doc2 = m2"
    and e2: "\<forall>n. path_exists fb (output_dir self @ [n]) \<longleftrightarrow>
                  path_exists fa (output_dir self @ [n]) \<or> n = m2"
    by blast
  from run_siblings[OF r3] obtain m3 f0c where
    c3: "create_unique_dir env3 self (path_stem pdf3) fb = (Inr (output_dir self @ [m3]), f0c)"
    and n3: "name doc3 = m3"
    by blast
  from successive_runs_names[OF r1 r2 same2 f0 f1] n1 n2
  have m: "m1 = path_stem pdf1" "m2 = path_stem pdf1 @ ''_01''" by simp_all
  have "path_exists fb (output_dir self @ [path_stem pdf1])"
    using e1 e2 m by simp
  moreover have "path_exists fb (output_dir self @ [path_stem pdf1 @ ''_01''])"
    using e2 m by simp
  moreover have "\<not> path_exists fb (output_dir self @ [path_stem pdf1 @ ''_02''])"
    using e1 e2 m f2 by simp
  ultimately have "output_dir self @ [m3] = output_dir self @ [path_stem pdf1 @ ''_02'']"
    using c3[unfolded same3] by (intro allocation_second)
  with n3 show ?thesis by simp
qed

lemma third_create:
  "create_unique_dir no_io_errors resultado ''informe''
       (run_files ''informe_01'' (run_files ''informe'' fresh_files))
     = (Inr [''resultado'', ''informe_02''],
        ([''resultado'', ''informe_02''], Dir) #
          run_files ''informe_01'' (run_files ''informe'' fresh_files))"
proof -
  let ?F = "run_files ''informe_01'' (run_files ''informe'' fresh_files)"
  have e: "path_exists ?F [''resultado'', ''informe'']"
    "path_exists ?F [''resultado'', ''informe_01'']"
    "\<not> path_exists ?F [''resultado'', ''informe_02'']"
    "path_exists ?F [''resultado'']"
    by (simp_all add: path_exists_def run_files_def fresh_files_def)
  have l: "unique_dir_loop ?F [''resultado''] ''informe''
             [''resultado'', ''informe''] (Suc 0) = [''resultado'', ''informe_02'']"
    apply (subst unique_dir_loop.simps)
    apply (simp add: e)
    apply (subst unique_dir_loop.simps)
    apply (simp add: e unique_name_def format_02d_Suc_0)
    apply (subst unique_dir_loop.simps)
    apply (simp add: e unique_name_def format_02d_Suc_Suc_0)
    done
  have m: "map_of ?F [''resultado'', ''informe_02''] = None"
    using e(3) by (simp add: path_exists_def)
  show ?thesis
    unfolding create_unique_dir_def resultado_def
    by (simp add: l Let_def no_io_errors_fields mkdir_parents_def io_then_def io_return_def
          anc2 e m)
qed

lemma third_run:
  "factory_pipeline no_io_errors one_page_libs resultado informe_pdf
      (TesseractAdapter (adapter_init ''spa'' 300),
       run_files ''informe_01'' (run_files ''informe'' fresh_files))
     = (Inr (run_document ''informe_02''), TesseractAdapter (adapter_init ''spa'' 300),
        run_files ''informe_02'' (run_files ''informe_01'' (run_files ''informe'' fresh_files)))"
proof -
  have "map_of fresh_files informe_pdf = Some (File (Bytes ''%PDF-1.7''))"
    by (simp add: fresh_files_def informe_pdf_def)
  then have "map_of (run_files ''informe_01'' (run_files ''informe'' fresh_files)) informe_pdf
               = Some (File (Bytes ''%PDF-1.7''))"
    by (simp add: run_files_lookup informe_pdf_def)
  then show ?thesis
    by (rule run_on[OF third_create])
qed

section \<open>The claims\<close>

subsection \<open>C1: classification is an ordered decision tree\<close>

text \<open>
  Claim C1. For every metrics value, \<^verbatim>\<open>_classify_pdf_type\<close> is a total function that
  evaluates five rules in the order SCANNED, TABLE_HEAVY, IMAGE_HEAVY, NATIVE_TEXT,
  MIXED, and the first rule that matches decides: the result is SCANNED exactly when
  there are no fonts, fewer text pages than 0.3 times the pages and an image ratio
  above 0.5; otherwise TABLE_HEAVY exactly when the table ratio is above 0.8; otherwise
  IMAGE_HEAVY exactly when the image ratio is above 1.5; otherwise NATIVE_TEXT exactly
  when there are fonts, more text pages than 0.8 times the pages and more than 100
  characters per page; otherwise MIXED. Being a function of the metrics alone, it gives
  equal results on equal metrics.
\<close>

theorem classify_pdf_type_ordered_rules:
  "classify_pdf_type m = first_match spec_rules MIXED m \<and>
   (classify_pdf_type m = SCANNED \<longleftrightarrow> spec_rule_scanned m) \<and>
   (classify_pdf_type m = TABLE_HEAVY \<longleftrightarrow>
      \<not> spec_rule_scanned m \<and> spec_rule_table_heavy m) \<and>
   (classify_pdf_type m = IMAGE_HEAVY \<longleftrightarrow>
      \<not> spec_rule_scanned m \<and> \<not> spec_rule_table_heavy m \<and> spec_rule_image_heavy m) \<and>
   (classify_pdf_type m = NATIVE_TEXT \<longleftrightarrow>
      \<not> spec_rule_scanned m \<and> \<not> spec_rule_table_heavy m \<and> \<not> spec_rule_image_heavy m \<and>
      spec_rule_native_text m) \<and>
   (classify_pdf_type m = MIXED \<longleftrightarrow>
      \<not> spec_rule_scanned m \<and> \<not> spec_rule_table_heavy m \<and> \<not> spec_rule_image_heavy m \<and>
      \<not> spec_rule_native_text m)"
proof -
  have tree: "classify_pdf_type m =
      (if spec_rule_scanned m then SCANNED
       else if spec_rule_table_heavy m then TABLE_HEAVY
       else if spec_rule_image_heavy m then IMAGE_HEAVY
       else if spec_rule_native_text m then NATIVE_TEXT
       else MIXED)"
    by (simp add: classify_pdf_type_def spec_rule_scanned_def spec_rule_table_heavy_def
        spec_rule_image_heavy_def spec_rule_native_text_def mult.commute)
  have fm: "classify_pdf_type m = first_match spec_rules MIXED m"
    by (simp add: tree spec_rules_def)
  show ?thesis
    by (intro conjI, rule fm) (simp_all add: tree)
qed

text \<open>
  The specification's first example: ten pages, no fonts, one text page, eight images.
\<close>

theorem classify_pdf_type_ordered_rules_witness:
  "classify_pdf_type spec_example_scanned = SCANNED \<and>
   classify_pdf_type spec_example_scanned = first_match spec_rules MIXED spec_example_scanned"
proof -
  have "spec_rule_scanned spec_example_scanned"
    by (simp add: spec_rule_scanned_def spec_example_scanned_def)
  with classify_pdf_type_ordered_rules[of spec_example_scanned] show ?thesis
    by blast
qed

subsection \<open>C7: a document without pages has zero ratios\<close>

text \<open>
  Claim C7. Whenever metrics extraction returns metrics whose \<^verbatim>\<open>total_pages\<close> is 0,
  the three derived ratios are 0; and the block that computes them never raises,
  whatever the counters are, because it divides only under the guard
  \<^verbatim>\<open>total_pages > 0\<close> (division is modelled as raising on a zero divisor).
\<close>

theorem extract_pdf_metrics_zero_pages:
  assumes "extract_pdf_metrics libs pdf_path = Inr m" and "total_pages m = 0"
  shows "avg_text_per_page m = 0 \<and> image_to_page_ratio m = 0 \<and> table_to_page_ratio m = 0 \<and>
         (\<forall>m0. \<exists>m1. derived_ratios m0 = Inr m1)"
proof -
  from assms(1) obtain pages m1 doc m2 where
    l1: "plumber_loop (initial_metrics\<lparr> total_pages := int (length pages) \<rparr>) pages = Inr m1" and
    l2: "fitz_loop m1 doc = Inr m2" and
    d: "derived_ratios m2 = Inr m"
    unfolding extract_pdf_metrics_def and_then_Inr_iff by blast
  have k2: "total_pages m2 = int (length pages) \<and> avg_text_per_page m2 = 0 \<and>
            image_to_page_ratio m2 = 0 \<and> table_to_page_ratio m2 = 0"
    using plumber_loop_keeps[OF l1] fitz_loop_keeps[OF l2]
    by (simp add: initial_metrics_def)
  have "total_pages m = total_pages m2"
    using d by (auto simp: derived_ratios_def and_then_Inr_iff split: if_splits)
  with assms(2) have "total_pages m2 = 0" by simp
  with d have "m = m2" by (simp add: derived_ratios_zero_pages)
  with k2 derived_ratios_total show ?thesis by simp
qed

text \<open>A document in which both readers find no page.\<close>

theorem extract_pdf_metrics_zero_pages_witness:
  "extract_pdf_metrics empty_pdf_libs [''empty.pdf''] = Inr initial_metrics \<and>
   total_pages initial_metrics = 0 \<and>
   avg_text_per_page initial_metrics = 0 \<and> image_to_page_ratio initial_metrics = 0 \<and>
   table_to_page_ratio initial_metrics = 0"
proof -
  have run: "extract_pdf_metrics empty_pdf_libs [''empty.pdf''] = Inr initial_metrics"
    by (simp add: extract_pdf_metrics_def empty_pdf_libs_def derived_ratios_def initial_metrics_def)
  have z: "total_pages initial_metrics = 0"
    by (simp add: initial_metrics_def)
  from extract_pdf_metrics_zero_pages[OF run z] run z show ?thesis by simp
qed

subsection \<open>C2: the first unused directory name\<close>

text \<open>
  Claim C2, as the code has it. Whenever \<^verbatim>\<open>_create_unique_dir\<close> returns a directory
  for a base name: it is the base name itself when nothing of that name exists in the
  output root, be it a directory or a file (the loop tests \<^verbatim>\<open>Path.exists\<close>), and
  otherwise the candidate of the first counter, counting from 1, whose candidate does not
  exist, every earlier candidate being taken; the counter is written with at least two
  digits, a single digit after a zero, so the candidates start with \<^verbatim>\<open>_01\<close> and
  \<^verbatim>\<open>_02\<close>. The directory did not exist before the call and exists after it, and
  nothing that existed is lost. Hence, for allocations that follow one another in the
  same output root, each on the file system the one before it left: when neither the
  base name nor its first candidate existed, the first allocation gives the base name
  and the second the suffix \<^verbatim>\<open>_01\<close>, and when the second candidate did not exist
  either the third gives \<^verbatim>\<open>_02\<close>; and the same holds of the names of the documents
  of three runs of \<^verbatim>\<open>ProcessDocument.execute\<close> on paths of one stem. No allocation
  on a file system where the directory of an earlier one still exists returns that
  directory: the output directory of a run does not exist when the run starts and
  exists when it ends, so two runs of which the second starts on the file system the
  first left have different output directories. Nothing is said of allocations that do not see
  the earlier directory: the test for existence and the creation are two steps.
\<close>

theorem create_unique_dir_first_unused:
  assumes "create_unique_dir env self base_name files = (Inr d, files1)"
  shows "(if path_exists files (output_dir self @ [base_name])
          then \<exists>k\<ge>1. d = output_dir self @ [unique_name base_name k] \<and>
                 (\<forall>j. 1 \<le> j \<and> j < k \<longrightarrow>
                    path_exists files (output_dir self @ [unique_name base_name j]))
          else d = output_dir self @ [base_name]) \<and>
         \<not> path_exists files d \<and> path_exists files1 d \<and>
         (\<forall>p. path_exists files p \<longrightarrow> path_exists files1 p) \<and>
         (\<forall>env' self' base' files' d' files''.
            path_exists files' d \<and>
            create_unique_dir env' self' base' files' = (Inr d', files'') \<longrightarrow> d' \<noteq> d) \<and>
         (\<forall>envb db filesb.
            \<not> path_exists files (output_dir self @ [base_name]) \<and>
            \<not> path_exists files (output_dir self @ [base_name @ ''_01'']) \<and>
            create_unique_dir envb self base_name files1 = (Inr db, filesb) \<longrightarrow>
            d = output_dir self @ [base_name] \<and>
            db = output_dir self @ [base_name @ ''_01''] \<and>
            (\<forall>envc dc filesc.
               \<not> path_exists files (output_dir self @ [base_name @ ''_02'']) \<and>
               create_unique_dir envc self base_name filesb = (Inr dc, filesc) \<longrightarrow>
               dc = output_dir self @ [base_name @ ''_02''])) \<and>
         (\<forall>doc1 sa fa.
            ProcessDocument_execute env1 ocr1 tex1 (FileStorage_port env1 self1) pdf1 (s1, fs1)
              = (Inr doc1, sa, fa) \<longrightarrow>
            \<not> path_exists fs1 (output_directory doc1) \<and>
            path_exists fa (output_directory doc1) \<and>
            (\<forall>doc2 sb fb.
               ProcessDocument_execute env2 ocr2 tex2 (FileStorage_port env2 self2) pdf2 (s2, fa)
                 = (Inr doc2, sb, fb) \<longrightarrow>
               output_directory doc2 \<noteq> output_directory doc1 \<and>
               (self2 = self1 \<and> path_stem pdf2 = path_stem pdf1 \<and>
                \<not> path_exists fs1 (output_dir self1 @ [path_stem pdf1]) \<and>
                \<not> path_exists fs1 (output_dir self1 @ [path_stem pdf1 @ ''_01'']) \<longrightarrow>
                name doc1 = path_stem pdf1 \<and> name doc2 = path_stem pdf1 @ ''_01'' \<and>
                (\<forall>doc3 sc fc.
                   path_stem pdf3 = path_stem pdf1 \<and>
                   \<not> path_exists fs1 (output_dir self1 @ [path_stem pdf1 @ ''_02'']) \<and>
                   ProcessDocument_execute env3 ocr3 tex3 (FileStorage_port env3 self1) pdf3
                     (s3, fb) = (Inr doc3, sc, fc) \<longrightarrow>
                   name doc3 = path_stem pdf1 @ ''_02'')))) \<and>
         unique_name base_name 1 = base_name @ ''_01'' \<and>
         unique_name base_name 2 = base_name @ ''_02'' \<and>
         (\<forall>k<10. unique_name base_name k = base_name @ [CHR ''_'', CHR ''0'', digit_char k]) \<and>
         (\<forall>k. length (format_02d k) \<ge> 2)"
proof -
  note d = create_unique_dir_Inr[OF assms]
  note fresh = create_unique_dir_fresh[OF assms]
  note shape = create_unique_dir_shape[OF assms]
  have after: "path_exists files1 d"
    using mkdir_parents_Inr[OF d(2), of d] self_in_ancestors[OF fresh(2)] by simp
  have mono: "\<forall>p. path_exists files p \<longrightarrow> path_exists files1 p"
    using mkdir_parents_Inr[OF d(2)] by simp
  have later: "\<forall>env' self' base' files' d' files''.
            path_exists files' d \<and>
            create_unique_dir env' self' base' files' = (Inr d', files'') \<longrightarrow> d' \<noteq> d"
    using create_unique_dir_fresh(1) by blast
  have seq: "\<forall>envb db filesb.
            \<not> path_exists files (output_dir self @ [base_name]) \<and>
            \<not> path_exists files (output_dir self @ [base_name @ ''_01'']) \<and>
            create_unique_dir envb self base_name files1 = (Inr db, filesb) \<longrightarrow>
            d = output_dir self @ [base_name] \<and>
            db = output_dir self @ [base_name @ ''_01''] \<and>
            (\<forall>envc dc filesc.
               \<not> path_exists files (output_dir self @ [base_name @ ''_02'']) \<and>
               create_unique_dir envc self base_name filesb = (Inr dc, filesc) \<longrightarrow>
               dc = output_dir self @ [base_name @ ''_02''])"
  proof (intro allI impI)
    fix envb db filesb
    assume h: "\<not> path_exists files (output_dir self @ [base_name]) \<and>
            \<not> path_exists files (output_dir self @ [base_name @ ''_01'']) \<and>
            create_unique_dir envb self base_name files1 = (Inr db, filesb)"
    then have a2: "create_unique_dir envb self base_name files1 = (Inr db, filesb)"
      and f0: "\<not> path_exists files (output_dir self @ [base_name])"
      and f1: "\<not> path_exists files (output_dir self @ [base_name @ ''_01''])"
      by simp_all
    from three_allocations[OF assms a2 f0 f1]
    show "d = output_dir self @ [base_name] \<and>
            db = output_dir self @ [base_name @ ''_01''] \<and>
            (\<forall>envc dc filesc.
               \<not> path_exists files (output_dir self @ [base_name @ ''_02'']) \<and>
               create_unique_dir envc self base_name filesb = (Inr dc, filesc) \<longrightarrow>
               dc = output_dir self @ [base_name @ ''_02''])"
      by (intro conjI) assumption+
  qed
  have runs: "\<forall>doc1 sa fa.
            ProcessDocument_execute env1 ocr1 tex1 (FileStorage_port env1 self1) pdf1 (s1, fs1)
              = (Inr doc1, sa, fa) \<longrightarrow>
            \<not> path_exists fs1 (output_directory doc1) \<and>
            path_exists fa (output_directory doc1) \<and>
            (\<forall>doc2 sb fb.
               ProcessDocument_execute env2 ocr2 tex2 (FileStorage_port env2 self2) pdf2 (s2, fa)
                 = (Inr doc2, sb, fb) \<longrightarrow>
               output_directory doc2 \<noteq> output_directory doc1 \<and>
               (self2 = self1 \<and> path_stem pdf2 = path_stem pdf1 \<and>
                \<not> path_exists fs1 (output_dir self1 @ [path_stem pdf1]) \<and>
                \<not> path_exists fs1 (output_dir self1 @ [path_stem pdf1 @ ''_01'']) \<longrightarrow>
                name doc1 = path_stem pdf1 \<and> name doc2 = path_stem pdf1 @ ''_01'' \<and>
                (\<forall>doc3 sc fc.
                   path_stem pdf3 = path_stem pdf1 \<and>
                   \<not> path_exists fs1 (output_dir self1 @ [path_stem pdf1 @ ''_02'']) \<and>
                   ProcessDocument_execute env3 ocr3 tex3 (FileStorage_port env3 self1) pdf3
                     (s3, fb) = (Inr doc3, sc, fc) \<longrightarrow>
                   name doc3 = path_stem pdf1 @ ''_02'')))"
  proof (intro allI impI conjI)
    fix doc1 sa fa
    assume r1: "ProcessDocument_execute env1 ocr1 tex1 (FileStorage_port env1 self1) pdf1 (s1, fs1)
              = (Inr doc1, sa, fa)"
    show "\<not> path_exists fs1 (output_directory doc1)"
      by (rule run_directory_exists(2)[OF r1])
    show "path_exists fa (output_directory doc1)"
      by (rule run_directory_exists(1)[OF r1])
  next
    fix doc1 sa fa doc2 sb fb
    assume r1: "ProcessDocument_execute env1 ocr1 tex1 (FileStorage_port env1 self1) pdf1 (s1, fs1)
              = (Inr doc1, sa, fa)"
      and r2: "ProcessDocument_execute env2 ocr2 tex2 (FileStorage_port env2 self2) pdf2 (s2, fa)
                 = (Inr doc2, sb, fb)"
    show "output_directory doc2 \<noteq> output_directory doc1"
      by (rule successive_runs_differ[OF r1 r2])
  next
    fix doc1 sa fa doc2 sb fb
    assume r1: "ProcessDocument_execute env1 ocr1 tex1 (FileStorage_port env1 self1) pdf1 (s1, fs1)
              = (Inr doc1, sa, fa)"
      and r2: "ProcessDocument_execute env2 ocr2 tex2 (FileStorage_port env2 self2) pdf2 (s2, fa)
                 = (Inr doc2, sb, fb)"
      and g: "self2 = self1 \<and> path_stem pdf2 = path_stem pdf1 \<and>
                \<not> path_exists fs1 (output_dir self1 @ [path_stem pdf1]) \<and>
                \<not> path_exists fs1 (output_dir self1 @ [path_stem pdf1 @ ''_01''])"
    from r2 g have r2': "ProcessDocument_execute env2 ocr2 tex2 (FileStorage_port env2 self1) pdf2
                     (s2, fa) = (Inr doc2, sb, fb)"
      by simp
    from g successive_runs_names[OF r1 r2']
    show "name doc1 = path_stem pdf1" and "name doc2 = path_stem pdf1 @ ''_01''"
      by simp_all
  next
    fix doc1 sa fa doc2 sb fb doc3 sc fc
    assume r1: "ProcessDocument_execute env1 ocr1 tex1 (FileStorage_port env1 self1) pdf1 (s1, fs1)
              = (Inr doc1, sa, fa)"
      and r2: "ProcessDocument_execute env2 ocr2 tex2 (FileStorage_port env2 self2) pdf2 (s2, fa)
                 = (Inr doc2, sb, fb)"
      and g: "self2 = self1 \<and> path_stem pdf2 = path_stem pdf1 \<and>
                \<not> path_exists fs1 (output_dir self1 @ [path_stem pdf1]) \<and>
                \<not> path_exists fs1 (output_dir self1 @ [path_stem pdf1 @ ''_01''])"
      and h: "path_stem pdf3 = path_stem pdf1 \<and>
                   \<not> path_exists fs1 (output_dir self1 @ [path_stem pdf1 @ ''_02'']) \<and>
                   ProcessDocument_execute env3 ocr3 tex3 (FileStorage_port env3 self1) pdf3
                     (s3, fb) = (Inr doc3, sc, fc)"
    from r2 g have r2': "ProcessDocument_execute env2 ocr2 tex2 (FileStorage_port env2 self1) pdf2
                     (s2, fa) = (Inr doc2, sb, fb)"
      by simp
    from h have r3: "ProcessDocument_execute env3 ocr3 tex3 (FileStorage_port env3 self1) pdf3
                     (s3, fb) = (Inr doc3, sc, fc)"
      by simp
    from g h third_run_name[OF r1 r2' r3]
    show "name doc3 = path_stem pdf1 @ ''_02''"
      by simp
  qed
  have names: "unique_name base_name 1 = base_name @ ''_01''"
      "unique_name base_name 2 = base_name @ ''_02''"
    by (simp_all add: unique_name_def format_02d_Suc_0 format_02d_2)
  have small: "\<forall>k<10. unique_name base_name k = base_name @ [CHR ''_'', CHR ''0'', digit_char k]"
    by (simp add: unique_name_def format_02d_small)
  have lens: "\<forall>k. length (format_02d k) \<ge> 2"
    by (simp add: length_format_02d)
  from shape fresh(1) after mono later seq runs names small lens show ?thesis
    by (intro conjI) assumption+
qed

text \<open>
  Three allocations of the same base name, one after the other, in an empty file
  system: the name itself, then the suffixes \<^verbatim>\<open>_01\<close> and \<^verbatim>\<open>_02\<close>. And three runs
  of the pipeline on \<^verbatim>\<open>pdfs/informe.pdf\<close>, each on the file system the one before it
  left: the documents are named \<^verbatim>\<open>informe\<close>, \<^verbatim>\<open>informe_01\<close> and \<^verbatim>\<open>informe_02\<close>.
\<close>

theorem create_unique_dir_first_unused_witness:
  "create_unique_dir no_io_errors resultado ''informe'' []
     = (Inr [''resultado'', ''informe''],
        [([''resultado'', ''informe''], Dir), ([''resultado''], Dir)]) \<and>
   create_unique_dir no_io_errors resultado ''informe''
       [([''resultado'', ''informe''], Dir), ([''resultado''], Dir)]
     = (Inr [''resultado'', ''informe_01''],
        [([''resultado'', ''informe_01''], Dir), ([''resultado'', ''informe''], Dir),
         ([''resultado''], Dir)]) \<and>
   create_unique_dir no_io_errors resultado ''informe''
       [([''resultado'', ''informe_01''], Dir), ([''resultado'', ''informe''], Dir),
        ([''resultado''], Dir)]
     = (Inr [''resultado'', ''informe_02''],
        [([''resultado'', ''informe_02''], Dir), ([''resultado'', ''informe_01''], Dir),
         ([''resultado'', ''informe''], Dir), ([''resultado''], Dir)]) \<and>
   path_exists [([''resultado'', ''informe_01''], Dir), ([''resultado'', ''informe''], Dir),
        ([''resultado''], Dir)] [''resultado'', ''informe_01''] \<and>
   factory_pipeline no_io_errors one_page_libs resultado informe_pdf
      (TesseractAdapter (adapter_init ''spa'' 300), fresh_files)
     = (Inr (run_document ''informe''), TesseractAdapter (adapter_init ''spa'' 300),
        run_files ''informe'' fresh_files) \<and>
   factory_pipeline no_io_errors one_page_libs resultado informe_pdf
      (TesseractAdapter (adapter_init ''spa'' 300), run_files ''informe'' fresh_files)
     = (Inr (run_document ''informe_01''), TesseractAdapter (adapter_init ''spa'' 300),
        run_files ''informe_01'' (run_files ''informe'' fresh_files)) \<and>
   factory_pipeline no_io_errors one_page_libs resultado informe_pdf
      (TesseractAdapter (adapter_init ''spa'' 300),
       run_files ''informe_01'' (run_files ''informe'' fresh_files))
     = (Inr (run_document ''informe_02''), TesseractAdapter (adapter_init ''spa'' 300),
        run_files ''informe_02'' (run_files ''informe_01'' (run_files ''informe'' fresh_files))) \<and>
   name (run_document ''informe'') = ''informe'' \<and>
   name (run_document ''informe_01'') = ''informe_01'' \<and>
   name (run_document ''informe_02'') = ''informe_02'' \<and>
   output_directory (run_document ''informe_01'') \<noteq> output_directory (run_document ''informe'') \<and>
   [''resultado'', ''informe_02''] = output_dir resultado @ [''informe'' @ ''_02'']"
proof -
  let ?f1 = "[([''resultado'', ''informe''], Dir), ([''resultado''], Dir)]"
  let ?f2 = "([''resultado'', ''informe_01''], Dir) # ?f1"
  let ?a = "TesseractAdapter (adapter_init ''spa'' 300)"
  have l1: "unique_dir_loop [] [''resultado''] ''informe'' [''resultado'', ''informe''] 1
              = [''resultado'', ''informe'']"
    by (subst unique_dir_loop.simps) (simp add: path_exists_def)
  have r1: "create_unique_dir no_io_errors resultado ''informe'' []
              = (Inr [''resultado'', ''informe''], ?f1)"
    unfolding create_unique_dir_def resultado_def
    by (simp add: l1[unfolded One_nat_def] Let_def no_io_errors_def path_exists_def
        mkdir_parents_def io_then_def io_return_def anc2)
  have l2: "unique_dir_loop ?f1 [''resultado''] ''informe'' [''resultado'', ''informe''] 1
              = [''resultado'', ''informe_01'']"
    apply (subst unique_dir_loop.simps)
    apply (simp add: path_exists_def)
    apply (subst unique_dir_loop.simps)
    apply (simp add: path_exists_def unique_name_def format_02d_Suc_0)
    done
  have r2: "create_unique_dir no_io_errors resultado ''informe'' ?f1
              = (Inr [''resultado'', ''informe_01''], ?f2)"
    unfolding create_unique_dir_def resultado_def
    by (simp add: l2[unfolded One_nat_def] Let_def no_io_errors_def path_exists_def
        mkdir_parents_def io_then_def io_return_def anc2)
  have l3: "unique_dir_loop ?f2 [''resultado''] ''informe'' [''resultado'', ''informe''] 1
              = [''resultado'', ''informe_02'']"
    apply (subst unique_dir_loop.simps)
    apply (simp add: path_exists_def)
    apply (subst unique_dir_loop.simps)
    apply (simp add: path_exists_def unique_name_def format_02d_Suc_0)
    apply (subst unique_dir_loop.simps)
    apply (simp add: path_exists_def unique_name_def format_02d_Suc_Suc_0)
    done
  have r3: "create_unique_dir no_io_errors resultado ''informe'' ?f2
              = (Inr [''resultado'', ''informe_02''], ([''resultado'', ''informe_02''], Dir) # ?f2)"
    unfolding create_unique_dir_def resultado_def
    by (simp add: l3[unfolded One_nat_def] Let_def no_io_errors_def path_exists_def
        mkdir_parents_def io_then_def io_return_def anc2)
  have e: "path_exists ?f2 [''resultado'', ''informe_01'']"
    using create_unique_dir_first_unused[OF r2, THEN conjunct2, THEN conjunct2, THEN conjunct1]
    by simp
  have empty_root: "\<not> path_exists [] p" for p
    by (simp add: path_exists_def)
  note second = create_unique_dir_first_unused[OF r1,
      THEN conjunct2, THEN conjunct2, THEN conjunct2, THEN conjunct2, THEN conjunct2,
      THEN conjunct1, rule_format, OF conjI[OF empty_root conjI[OF empty_root r2]]]
  note third_alloc = second[THEN conjunct2, THEN conjunct2, rule_format,
      OF conjI[OF empty_root r3]]
  have free: "\<not> path_exists fresh_files (output_dir resultado @ [path_stem informe_pdf])"
    "\<not> path_exists fresh_files (output_dir resultado @ [path_stem informe_pdf @ ''_01''])"
    "\<not> path_exists fresh_files (output_dir resultado @ [path_stem informe_pdf @ ''_02''])"
    by (simp_all add: path_exists_def fresh_files_def resultado_def path_stem_informe)
  note run1 = create_unique_dir_first_unused[OF r1,
      where ?env1.0 = no_io_errors and ?ocr1.0 = "factory_ocr_port one_page_libs"
        and ?tex1.0 = create_table_extractor and ?self1.0 = resultado and ?pdf1.0 = informe_pdf
        and ?s1.0 = ?a and ?fs1.0 = fresh_files
        and ?env2.0 = no_io_errors and ?ocr2.0 = "factory_ocr_port one_page_libs"
        and ?tex2.0 = create_table_extractor and ?self2.0 = resultado and ?pdf2.0 = informe_pdf
        and ?s2.0 = ?a
        and ?env3.0 = no_io_errors and ?ocr3.0 = "factory_ocr_port one_page_libs"
        and ?tex3.0 = create_table_extractor and ?pdf3.0 = informe_pdf and ?s3.0 = ?a,
      THEN conjunct2, THEN conjunct2, THEN conjunct2, THEN conjunct2, THEN conjunct2,
      THEN conjunct2, THEN conjunct1, rule_format, OF two_runs(1)[unfolded factory_pipeline_def]]
  note run2 = run1[THEN conjunct2, THEN conjunct2, rule_format,
      OF two_runs(2)[unfolded factory_pipeline_def]]
  from run2 have differ:
    "output_directory (run_document ''informe_01'') \<noteq> output_directory (run_document ''informe'')"
    by (rule conjunct1)
  from run2 free have named:
    "name (run_document ''informe'') = ''informe'' \<and>
     name (run_document ''informe_01'') = ''informe_01''"
    by (simp add: path_stem_informe)
  from run2 free third_run[unfolded factory_pipeline_def]
  have third: "name (run_document ''informe_02'') = ''informe_02''"
    by (simp add: path_stem_informe)
  from r1 r2 r3 e two_runs third_run differ named third third_alloc show ?thesis
    by (intro conjI) (assumption | simp)+
qed

text \<open>
  The claim as stated fails in two ways. When the output root holds a regular file
  named like the stem, no directory of that name exists, and yet the suffix \<^verbatim>\<open>_01\<close>
  is given. And two allocations into the same output root receive the same directory
  when the second does not see the directory of the first: here the first is made in
  an empty file system and the second in one that holds the output root alone, as
  after the removal of the first directory.
\<close>

theorem create_unique_dir_first_unused_counterexample:
  "map_of stem_is_file (output_dir resultado @ [''informe'']) = Some (File (Bytes ''notas'')) \<and>
   File (Bytes ''notas'') \<noteq> Dir \<and>
   create_unique_dir no_io_errors resultado ''informe'' stem_is_file
     = (Inr [''resultado'', ''informe_01''],
        ([''resultado'', ''informe_01''], Dir) # stem_is_file) \<and>
   [''resultado'', ''informe_01''] \<noteq> output_dir resultado @ [''informe''] \<and>
   create_unique_dir no_io_errors resultado ''informe'' []
     = (Inr [''resultado'', ''informe''],
        [([''resultado'', ''informe''], Dir), ([''resultado''], Dir)]) \<and>
   create_unique_dir no_io_errors resultado ''informe'' [([''resultado''], Dir)]
     = (Inr [''resultado'', ''informe''],
        [([''resultado'', ''informe''], Dir), ([''resultado''], Dir)])"
proof -
  have l: "unique_dir_loop stem_is_file [''resultado''] ''informe'' [''resultado'', ''informe''] (Suc 0)
             = [''resultado'', ''informe_01'']"
    apply (subst unique_dir_loop.simps)
    apply (simp add: path_exists_def stem_is_file_def)
    apply (subst unique_dir_loop.simps)
    apply (simp add: path_exists_def unique_name_def format_02d_Suc_0)
    done
  have c: "create_unique_dir no_io_errors resultado ''informe'' stem_is_file
     = (Inr [''resultado'', ''informe_01''],
        ([''resultado'', ''informe_01''], Dir) # stem_is_file)"
    unfolding create_unique_dir_def resultado_def stem_is_file_def
    by (simp add: l[unfolded stem_is_file_def] Let_def no_io_errors_def path_exists_def
          mkdir_parents_def io_then_def io_return_def anc2)
  have m: "map_of stem_is_file (output_dir resultado @ [''informe'']) = Some (File (Bytes ''notas''))"
    by (simp add: stem_is_file_def resultado_def)
  have l1: "unique_dir_loop [] [''resultado''] ''informe'' [''resultado'', ''informe''] (Suc 0)
              = [''resultado'', ''informe'']"
    by (subst unique_dir_loop.simps) (simp add: path_exists_def)
  have l2: "unique_dir_loop [([''resultado''], Dir)] [''resultado''] ''informe''
              [''resultado'', ''informe''] (Suc 0) = [''resultado'', ''informe'']"
    by (subst unique_dir_loop.simps) (simp add: path_exists_def)
  have r1: "create_unique_dir no_io_errors resultado ''informe'' []
              = (Inr [''resultado'', ''informe''],
                 [([''resultado'', ''informe''], Dir), ([''resultado''], Dir)])"
    unfolding create_unique_dir_def resultado_def
    by (simp add: l1 Let_def no_io_errors_def path_exists_def
        mkdir_parents_def io_then_def io_return_def anc2)
  have r2: "create_unique_dir no_io_errors resultado ''informe'' [([''resultado''], Dir)]
              = (Inr [''resultado'', ''informe''],
                 [([''resultado'', ''informe''], Dir), ([''resultado''], Dir)])"
    unfolding create_unique_dir_def resultado_def
    by (simp add: l2 Let_def no_io_errors_def path_exists_def
        mkdir_parents_def io_then_def io_return_def anc2)
  from c m have "map_of stem_is_file (output_dir resultado @ [''informe'']) = Some (File (Bytes ''notas'')) \<and>
   File (Bytes ''notas'') \<noteq> Dir \<and>
   create_unique_dir no_io_errors resultado ''informe'' stem_is_file
     = (Inr [''resultado'', ''informe_01''],
        ([''resultado'', ''informe_01''], Dir) # stem_is_file) \<and>
   [''resultado'', ''informe_01''] \<noteq> output_dir resultado @ [''informe'']"
    by (simp add: resultado_def)
  with r1 r2 show ?thesis by blast
qed

subsection \<open>C4: skew estimation and rotation\<close>

text \<open>
  Claim C4. \<^verbatim>\<open>_correct_skew\<close> always returns an image and never raises. When edge
  detection or line detection raises, or finds nothing, the image is returned as it
  was. Otherwise the angles it keeps are those of the first ten lines at most, each
  converted to its deviation from the horizontal and kept when its magnitude is below
  45 degrees; with no angle kept the image is returned as it was; with the median of
  the kept angles of magnitude at most 0.5 likewise; and with a median of greater
  magnitude the result is the rotation of the image by the median about its centre,
  at its own size, with cubic interpolation and border replication, or the image as it
  was when reading the shape or the rotation raises. The estimate is a median and not
  a mean: of every nonempty list, at least half of the entries are at most the value
  that \<^verbatim>\<open>np.median\<close> gives and at least half are at least that value, and twice that
  value is the sum of the two middle entries of the sorted list, which are one and the
  same entry when the length is odd.
\<close>

theorem correct_skew_median_rotation:
  "(\<forall>e. Canny cv img 50 150 3 = Inl e \<longrightarrow> correct_skew cv img = img) \<and>
   (\<forall>edges. Canny cv img 50 150 3 = Inr edges \<longrightarrow>
      (\<forall>e. HoughLines cv edges 1 (pi / 180) 100 = Inl e \<longrightarrow> correct_skew cv img = img) \<and>
      (HoughLines cv edges 1 (pi / 180) 100 = Inr None \<longrightarrow> correct_skew cv img = img) \<and>
      (\<forall>ls. HoughLines cv edges 1 (pi / 180) 100 = Inr (Some ls) \<longrightarrow>
         length (spec_kept_angles ls) \<le> 10 \<and>
         spec_kept_angles ls = spec_kept_angles (take 10 ls) \<and>
         (spec_kept_angles ls = [] \<longrightarrow> correct_skew cv img = img) \<and>
         (spec_kept_angles ls \<noteq> [] \<and> \<bar>np_median (spec_kept_angles ls)\<bar> \<le> 0.5 \<longrightarrow>
            correct_skew cv img = img) \<and>
         (spec_kept_angles ls \<noteq> [] \<and> \<bar>np_median (spec_kept_angles ls)\<bar> > 0.5 \<longrightarrow>
            (\<forall>h w. shape cv img = [h, w] \<longrightarrow>
               correct_skew cv img =
                 (case warpAffine cv img
                         (RotationMatrix2D (w div 2, h div 2) (np_median (spec_kept_angles ls)) 1)
                         (w, h) INTER_CUBIC BORDER_REPLICATE of
                    Inl e \<Rightarrow> img
                  | Inr rotated \<Rightarrow> rotated)) \<and>
            ((\<forall>h w. shape cv img \<noteq> [h, w]) \<longrightarrow> correct_skew cv img = img)))) \<and>
   (xs \<noteq> [] \<longrightarrow>
      spec_is_median (np_median xs) xs \<and>
      2 * np_median xs = sort xs ! ((length xs - 1) div 2) + sort xs ! (length xs div 2))"
proof (intro conjI allI impI)
  fix e assume "Canny cv img 50 150 3 = Inl e"
  then show "correct_skew cv img = img" by (rule correct_skew_Canny_fails)
next
  fix edges e
  assume "Canny cv img 50 150 3 = Inr edges" "HoughLines cv edges 1 (pi / 180) 100 = Inl e"
  then show "correct_skew cv img = img" by (rule correct_skew_Hough_fails)
next
  fix edges
  assume "Canny cv img 50 150 3 = Inr edges" "HoughLines cv edges 1 (pi / 180) 100 = Inr None"
  then show "correct_skew cv img = img" by (rule correct_skew_no_lines)
next
  fix edges ls
  show "length (spec_kept_angles ls) \<le> 10" by (rule length_spec_kept_angles)
  show "spec_kept_angles ls = spec_kept_angles (take 10 ls)"
    by (simp add: spec_kept_angles_def)
next
  fix edges ls
  assume c: "Canny cv img 50 150 3 = Inr edges"
    and l: "HoughLines cv edges 1 (pi / 180) 100 = Inr (Some ls)"
    and k: "spec_kept_angles ls = []"
  show "correct_skew cv img = img"
    by (simp add: correct_skew_def correct_skew_try_lines[OF c l] k)
next
  fix edges ls
  assume c: "Canny cv img 50 150 3 = Inr edges"
    and l: "HoughLines cv edges 1 (pi / 180) 100 = Inr (Some ls)"
    and k: "spec_kept_angles ls \<noteq> [] \<and> \<bar>np_median (spec_kept_angles ls)\<bar> \<le> 0.5"
  then show "correct_skew cv img = img"
    by (simp add: correct_skew_def correct_skew_try_lines[OF c l])
next
  fix edges ls h w
  assume c: "Canny cv img 50 150 3 = Inr edges"
    and l: "HoughLines cv edges 1 (pi / 180) 100 = Inr (Some ls)"
    and k: "spec_kept_angles ls \<noteq> [] \<and> \<bar>np_median (spec_kept_angles ls)\<bar> > 0.5"
    and s: "shape cv img = [h, w]"
  then show "correct_skew cv img =
                 (case warpAffine cv img
                         (RotationMatrix2D (w div 2, h div 2) (np_median (spec_kept_angles ls)) 1)
                         (w, h) INTER_CUBIC BORDER_REPLICATE of
                    Inl e \<Rightarrow> img
                  | Inr rotated \<Rightarrow> rotated)"
    by (simp add: correct_skew_def correct_skew_try_lines[OF c l])
next
  fix edges ls
  assume c: "Canny cv img 50 150 3 = Inr edges"
    and l: "HoughLines cv edges 1 (pi / 180) 100 = Inr (Some ls)"
    and k: "spec_kept_angles ls \<noteq> [] \<and> \<bar>np_median (spec_kept_angles ls)\<bar> > 0.5"
    and s: "\<forall>h w. shape cv img \<noteq> [h, w]"
  from s have "\<exists>e. unpack_shape (shape cv img) = Inl e"
    by (cases "shape cv img" rule: unpack_shape.cases) auto
  with k show "correct_skew cv img = img"
    by (auto simp: correct_skew_def correct_skew_try_lines[OF c l])
next
  assume "xs \<noteq> []"
  then show "spec_is_median (np_median xs) xs"
    unfolding spec_is_median_def
    by (intro conjI np_median_half_below np_median_half_above)
next
  assume "xs \<noteq> []"
  then show "2 * np_median xs = sort xs ! ((length xs - 1) div 2) + sort xs ! (length xs div 2)"
    by (rule np_median_midpoint)
qed

text \<open>
  A page with lines at 30, 2 and 1 degrees off the horizontal and a vertical line is
  rotated by two degrees about its centre: two is the median of the three kept angles,
  while their mean is 11 and the first of them is 30, neither of which is a median. A
  ruled page with twelve lines is rotated by two degrees as well: that is the median of
  the first ten angles, the mean of the two middle ones, 1 and 3, and none of the
  angles itself; the median of all twelve would be 1. A page whose one detected line is
  vertical is left alone.
\<close>

theorem correct_skew_median_rotation_witness:
  "correct_skew example_cv ''tilted'' = ''tilted-rotated'' \<and>
   spec_kept_angles tilted_lines = [30, 2, 1] \<and>
   np_median [30, 2, 1] = 2 \<and>
   spec_is_median 2 [30, 2, 1] \<and>
   spec_mean [30, 2, 1] = 11 \<and> \<not> spec_is_median 11 [30, 2, 1] \<and>
   \<not> spec_is_median 30 [30, 2, 1] \<and>
   correct_skew ruled_cv ''ruled'' = ''ruled-rotated'' \<and>
   spec_kept_angles ruled_lines = [4, 4, 0, 0, 0, 1, 1, 3, 3, 3] \<and>
   np_median [4, 4, 0, 0, 0, 1, 1, 3, 3, 3] = 2 \<and>
   np_median [4, 4, 0, 0, 0, 1, 1, 3, 3, 3, -10, -10] = 1 \<and>
   correct_skew example_cv ''upright'' = ''upright'' \<and>
   spec_kept_angles vertical_lines = []"
proof -
  let ?three = "[30, 2, 1] :: real list"
  let ?ten = "[4, 4, 0, 0, 0, 1, 1, 3, 3, 3] :: real list"
  have k1: "spec_kept_angles tilted_lines = ?three"
    by (simp add: spec_kept_angles_def List.map_filter_simps spec_deviation_def tilted_lines_def)
  have k2: "spec_kept_angles vertical_lines = []"
    by (simp add: spec_kept_angles_def List.map_filter_simps spec_deviation_def vertical_lines_def)
  have k3: "spec_kept_angles ruled_lines = ?ten"
    by (simp add: spec_kept_angles_def List.map_filter_simps spec_deviation_def ruled_lines_def)
  have s3: "sort ?three = [1, 2, 30]"
    by simp
  have s10: "sort ?ten = [0, 0, 0, 1, 1, 3, 3, 3, 4, 4]"
    by simp
  have c1: "Canny example_cv ''tilted'' 50 150 3 = Inr ''tilted-edges''"
    and c2: "Canny example_cv ''upright'' 50 150 3 = Inr ''upright-edges''"
    and c3: "Canny ruled_cv ''ruled'' 50 150 3 = Inr ''ruled-edges''"
    by (simp_all add: example_cv_def ruled_cv_def)
  have h1: "HoughLines example_cv ''tilted-edges'' 1 (pi / 180) 100 = Inr (Some tilted_lines)"
    and h2: "HoughLines example_cv ''upright-edges'' 1 (pi / 180) 100 = Inr (Some vertical_lines)"
    and h3: "HoughLines ruled_cv ''ruled-edges'' 1 (pi / 180) 100 = Inr (Some ruled_lines)"
    by (simp_all add: example_cv_def ruled_cv_def)
  have s: "shape example_cv ''tilted'' = [100, 200]" "shape ruled_cv ''ruled'' = [100, 200]"
    by (simp_all add: example_cv_def ruled_cv_def)
  have w: "warpAffine example_cv ''tilted'' (RotationMatrix2D (100, 50) 2 1)
             (200, 100) INTER_CUBIC BORDER_REPLICATE = Inr ''tilted-rotated''"
    "warpAffine ruled_cv ''ruled'' (RotationMatrix2D (100, 50) 2 1)
             (200, 100) INTER_CUBIC BORDER_REPLICATE = Inr ''ruled-rotated''"
    by (simp_all add: example_cv_def ruled_cv_def)
  note tilted = correct_skew_median_rotation[of example_cv "''tilted''" ?three]
  note ruled = correct_skew_median_rotation[of ruled_cv "''ruled''" ?ten]
  note upright = correct_skew_median_rotation[of example_cv "''upright''" ?three]
  from tilted have "2 * np_median ?three = sort ?three ! 1 + sort ?three ! 1"
    by simp
  then have m3: "np_median ?three = 2"
    by (simp only: s3) simp
  from ruled have "2 * np_median ?ten = sort ?ten ! 4 + sort ?ten ! 5"
    by simp
  then have m10: "np_median ?ten = 2"
    by (simp only: s10) simp
  have m12: "np_median [4, 4, 0, 0, 0, 1, 1, 3, 3, 3, -10, -10] = 1"
    by (simp add: np_median_def)
  from tilted have med: "spec_is_median 2 ?three"
    by (simp add: m3)
  have mean: "spec_mean ?three = 11" "\<not> spec_is_median 11 ?three" "\<not> spec_is_median 30 ?three"
    by (simp_all add: spec_mean_def spec_is_median_def)
  from tilted c1 h1 s(1)
  have r1: "correct_skew example_cv ''tilted'' = ''tilted-rotated''"
    by (simp add: k1 m3 w)
  from ruled c3 h3 s(2)
  have r3: "correct_skew ruled_cv ''ruled'' = ''ruled-rotated''"
    by (simp add: k3 m10 w)
  from upright c2 h2
  have r2: "correct_skew example_cv ''upright'' = ''upright''"
    by (simp add: k2)
  from r1 r2 r3 k1 k2 k3 m3 m10 m12 med mean show ?thesis
    by (intro conjI) assumption+
qed

subsection \<open>C5: the order of the preprocessing stages\<close>

text \<open>
  Claim C5, as the code has it. The preprocessing of \<^verbatim>\<open>ocr_adapters.py\<close> runs, for
  every image and every setting of its three flags, the stages of the fixed list
  grayscale, denoise, contrast enhancement, deskew, adaptive Gaussian binarization,
  closing, opening, leaving out exactly the flagged stages that are switched off; the
  grayscale stage converts an image of three dimensions and passes any other on. The
  preprocessing of the adapter that the factory creates has no flags: it runs colour
  conversion, adaptive Gaussian binarization and a median blur of size 3.
\<close>

theorem preprocess_image_stage_order:
  "ocr_adapters_OpenCV_preprocess_image cv self img =
     run_stages cv (filter (stage_enabled self) spec_stage_order) img \<and>
   TesseractOpenCVAdapter_preprocess_image cv img =
     run_stages cv [ConvertRGB, Binarize, MedianBlur] img"
  by (intro conjI) (rule run_stages_flags, rule run_stages_factory_adapter)

text \<open>A colour page with every flag on, the vertical line giving no rotation.\<close>

theorem preprocess_image_stage_order_witness:
  "ocr_adapters_OpenCV_preprocess_image colour_cv all_flags_on ''page''
     = Inr ''page-gray-bilateral-clahe-binary-close-open''"
  using preprocess_image_stage_order[of colour_cv all_flags_on "''page''"]
  by (simp add: colour_cv_all_on)

text \<open>
  The claim as stated fails on the adapter that the factory creates: on a colour page
  it ends with a median blur, where the stated order ends with a closing and an
  opening, whether the flags are all on or all off.
\<close>

theorem preprocess_image_stage_order_counterexample:
  "TesseractOpenCVAdapter_preprocess_image colour_cv ''page'' = Inr ''page-gray-binary-median'' \<and>
   run_stages colour_cv (filter (stage_enabled all_flags_on) spec_stage_order) ''page''
     = Inr ''page-gray-bilateral-clahe-binary-close-open'' \<and>
   run_stages colour_cv (filter (stage_enabled all_flags_off) spec_stage_order) ''page''
     = Inr ''page-gray-binary-close-open'' \<and>
   TesseractOpenCVAdapter_preprocess_image colour_cv ''page''
     \<noteq> run_stages colour_cv (filter (stage_enabled all_flags_on) spec_stage_order) ''page'' \<and>
   TesseractOpenCVAdapter_preprocess_image colour_cv ''page''
     \<noteq> run_stages colour_cv (filter (stage_enabled all_flags_off) spec_stage_order) ''page''"
  by (simp add: colour_cv_factory_adapter colour_cv_all_on colour_cv_all_off)

subsection \<open>C6: recognition is all or nothing\<close>

text \<open>
  Claim C6, as the code has it. For each of the two adapters that the factory creates:
  when rasterization or the step of some page raises, \<^verbatim>\<open>extract_text\<close> raises one
  \<^verbatim>\<open>ProcessingError\<close> whose message is the adapter's fixed prefix followed by the
  text of an exception that was raised there, and no text is returned; it returns a
  text exactly when every page was read, and the text is then the page texts joined by
  a blank line, in page order; the adapter object is left as it was. The message does
  not quote the path: the handler of \<^verbatim>\<open>ProcessDocument.execute\<close> does, for every
  exception it wraps. The two adapters of \<^verbatim>\<open>ocr_adapters.py\<close> have no handler: under
  the same condition an exception raised there propagates as it is, and no text is
  returned.
\<close>

theorem extract_text_all_or_nothing:
  fixes libs :: "'img ocr_libs" and self :: tesseract_adapter
    and self0 :: adapter_base and self1 :: ocr_adapters_OpenCV
  shows
  "((\<exists>e. raised_in (convert_from_path libs pdf_path (dpi self)) (direct_step libs (lang self)) e) \<longrightarrow>
      (\<exists>e. raised_in (convert_from_path libs pdf_path (dpi self)) (direct_step libs (lang self)) e \<and>
           TesseractAdapter_extract_text libs self pdf_path =
             (Inl (Exn ProcessingError (basic_prefix @ str_exn e)), self))) \<and>
   (\<forall>text. TesseractAdapter_extract_text libs self pdf_path = (Inr text, self) \<longleftrightarrow>
      (\<exists>texts. every_page_read (convert_from_path libs pdf_path (dpi self))
                  (direct_step libs (lang self)) texts \<and> text = join newline2 texts)) \<and>
   snd (TesseractAdapter_extract_text libs self pdf_path) = self \<and>
   ((\<exists>e. raised_in (convert_from_path libs pdf_path (dpi self)) (factory_opencv_step libs (lang self)) e) \<longrightarrow>
      (\<exists>e. raised_in (convert_from_path libs pdf_path (dpi self)) (factory_opencv_step libs (lang self)) e \<and>
           TesseractOpenCVAdapter_extract_text libs self pdf_path =
             (Inl (Exn ProcessingError (opencv_prefix @ str_exn e)), self))) \<and>
   (\<forall>text. TesseractOpenCVAdapter_extract_text libs self pdf_path = (Inr text, self) \<longleftrightarrow>
      (\<exists>texts. every_page_read (convert_from_path libs pdf_path (dpi self))
                  (factory_opencv_step libs (lang self)) texts \<and> text = join newline2 texts)) \<and>
   snd (TesseractOpenCVAdapter_extract_text libs self pdf_path) = self \<and>
   ((\<exists>e. raised_in (convert_from_path libs pdf_path (dpi self0)) (direct_step libs (lang self0)) e) \<longrightarrow>
      (\<exists>e. raised_in (convert_from_path libs pdf_path (dpi self0)) (direct_step libs (lang self0)) e \<and>
           ocr_adapters_Tesseract_extract_text libs self0 pdf_path = Inl e)) \<and>
   ((\<exists>e. raised_in (convert_from_path libs pdf_path (dpi self1)) (ocr_adapters_opencv_step libs self1) e) \<longrightarrow>
      (\<exists>e. raised_in (convert_from_path libs pdf_path (dpi self1)) (ocr_adapters_opencv_step libs self1) e \<and>
           ocr_adapters_OpenCV_extract_text libs self1 pdf_path = Inl e)) \<and>
   (\<forall>e. fst (ProcessDocument_execute env ocr table_extractor storage pdf_path st) = Inl e \<longrightarrow>
      exn_class e = ProcessingError \<and> contains (str_exn e) (str_path pdf_path))"
proof -
  have direct: "(\<lambda>i. and_then (Inr i) (\<lambda>img. image_to_string libs img l)) = direct_step libs l" for l
    by (rule ext) (simp add: direct_step_def)
  have fo: "(\<lambda>i. and_then (TesseractOpenCVAdapter_preprocess_image (cv2 libs) i)
                 (\<lambda>img. image_to_string libs img l)) = factory_opencv_step libs l" for l
    by (rule ext) (simp add: factory_opencv_step_def)
  have lo: "(\<lambda>i. and_then (ocr_adapters_OpenCV_preprocess_image (cv2 libs) self1 i)
                 (\<lambda>img. image_to_string libs img (lang self1))) = ocr_adapters_opencv_step libs self1"
    by (rule ext) (simp add: ocr_adapters_opencv_step_def)
  note basic = extract_body_outcome[of "convert_from_path libs pdf_path (dpi self)" Inr
      "\<lambda>img. image_to_string libs img (lang self)", unfolded direct]
  note opencv = extract_body_outcome[of "convert_from_path libs pdf_path (dpi self)"
      "TesseractOpenCVAdapter_preprocess_image (cv2 libs)"
      "\<lambda>img. image_to_string libs img (lang self)", unfolded fo]
  note old_basic = extract_body_outcome[of "convert_from_path libs pdf_path (dpi self0)" Inr
      "\<lambda>img. image_to_string libs img (lang self0)", unfolded direct]
  note old_opencv = extract_body_outcome[of "convert_from_path libs pdf_path (dpi self1)"
      "ocr_adapters_OpenCV_preprocess_image (cv2 libs) self1"
      "\<lambda>img. image_to_string libs img (lang self1)", unfolded lo]
  have a1: "(\<exists>e. raised_in (convert_from_path libs pdf_path (dpi self)) (direct_step libs (lang self)) e) \<longrightarrow>
      (\<exists>e. raised_in (convert_from_path libs pdf_path (dpi self)) (direct_step libs (lang self)) e \<and>
           TesseractAdapter_extract_text libs self pdf_path =
             (Inl (Exn ProcessingError (basic_prefix @ str_exn e)), self))"
    using basic(1,2)
    by (auto simp: TesseractAdapter_extract_text_def reraise_ProcessingError_def split: sum.splits)
  have a2: "\<forall>text. TesseractAdapter_extract_text libs self pdf_path = (Inr text, self) \<longleftrightarrow>
      (\<exists>texts. every_page_read (convert_from_path libs pdf_path (dpi self))
                  (direct_step libs (lang self)) texts \<and> text = join newline2 texts)"
    using basic(3)
    by (simp add: TesseractAdapter_extract_text_def reraise_Inr_iff)
  have a3: "snd (TesseractAdapter_extract_text libs self pdf_path) = self"
    by (simp add: TesseractAdapter_extract_text_def)
  have b1: "(\<exists>e. raised_in (convert_from_path libs pdf_path (dpi self)) (factory_opencv_step libs (lang self)) e) \<longrightarrow>
      (\<exists>e. raised_in (convert_from_path libs pdf_path (dpi self)) (factory_opencv_step libs (lang self)) e \<and>
           TesseractOpenCVAdapter_extract_text libs self pdf_path =
             (Inl (Exn ProcessingError (opencv_prefix @ str_exn e)), self))"
    using opencv(1,2)
    by (auto simp: TesseractOpenCVAdapter_extract_text_def reraise_ProcessingError_def split: sum.splits)
  have b2: "\<forall>text. TesseractOpenCVAdapter_extract_text libs self pdf_path = (Inr text, self) \<longleftrightarrow>
      (\<exists>texts. every_page_read (convert_from_path libs pdf_path (dpi self))
                  (factory_opencv_step libs (lang self)) texts \<and> text = join newline2 texts)"
    using opencv(3)
    by (simp add: TesseractOpenCVAdapter_extract_text_def reraise_Inr_iff)
  have b3: "snd (TesseractOpenCVAdapter_extract_text libs self pdf_path) = self"
    by (simp add: TesseractOpenCVAdapter_extract_text_def)
  have c: "(\<exists>e. raised_in (convert_from_path libs pdf_path (dpi self0)) (direct_step libs (lang self0)) e) \<longrightarrow>
      (\<exists>e. raised_in (convert_from_path libs pdf_path (dpi self0)) (direct_step libs (lang self0)) e \<and>
           ocr_adapters_Tesseract_extract_text libs self0 pdf_path = Inl e)"
    using old_basic(1,2)
    by (auto simp: ocr_adapters_Tesseract_extract_text_def)
  have d: "(\<exists>e. raised_in (convert_from_path libs pdf_path (dpi self1)) (ocr_adapters_opencv_step libs self1) e) \<longrightarrow>
      (\<exists>e. raised_in (convert_from_path libs pdf_path (dpi self1)) (ocr_adapters_opencv_step libs self1) e \<and>
           ocr_adapters_OpenCV_extract_text libs self1 pdf_path = Inl e)"
    using old_opencv(1,2)
    by (auto simp: ocr_adapters_OpenCV_extract_text_def)
  have e: "\<forall>e. fst (ProcessDocument_execute env ocr table_extractor storage pdf_path st) = Inl e \<longrightarrow>
      exn_class e = ProcessingError \<and> contains (str_exn e) (str_path pdf_path)"
    using ProcessDocument_execute_Inl[of env ocr table_extractor storage pdf_path st]
      contains_append[of "''Error procesando ''" "str_path pdf_path"]
    by fastforce
  from a1 a2 a3 b1 b2 b3 c d e show ?thesis
    by (intro conjI) assumption+
qed

text \<open>
  Two pages, the engine failing on the second: the first page's text is not returned,
  and the error quotes the engine's message after the prefix.
\<close>

theorem extract_text_all_or_nothing_witness:
  "TesseractAdapter_extract_text second_page_fails (adapter_init ''spa'' 300) x17_pdf =
     (Inl (Exn ProcessingError (basic_prefix @ ''Failed loading language spa'')),
      adapter_init ''spa'' 300)"
proof -
  have r: "\<exists>e. raised_in (convert_from_path second_page_fails x17_pdf (dpi (adapter_init ''spa'' 300)))
          (direct_step second_page_fails (lang (adapter_init ''spa'' 300))) e"
    unfolding second_page_fails_raised by simp
  note t = extract_text_all_or_nothing[where libs = second_page_fails and pdf_path = x17_pdf
      and self = "adapter_init ''spa'' 300", THEN conjunct1, THEN mp, OF r]
  then show ?thesis
    unfolding second_page_fails_raised by auto
qed

text \<open>
  The claim as stated fails there: the message of the factory's adapter does not
  contain the path, and the adapter of \<^verbatim>\<open>ocr_adapters.py\<close> raises the engine's
  exception, not a \<^verbatim>\<open>ProcessingError\<close>.
\<close>

theorem extract_text_all_or_nothing_counterexample:
  "fst (TesseractAdapter_extract_text second_page_fails (adapter_init ''spa'' 300) x17_pdf) =
     Inl (Exn ProcessingError (basic_prefix @ ''Failed loading language spa'')) \<and>
   str_path x17_pdf = ''docs/x17.pdf'' \<and>
   \<not> contains (basic_prefix @ ''Failed loading language spa'') (str_path x17_pdf) \<and>
   ocr_adapters_Tesseract_extract_text second_page_fails \<lparr> lang = ''spa'', dpi = 300 \<rparr> x17_pdf =
     Inl (Exn (OtherException ''TesseractError'') ''Failed loading language spa'') \<and>
   OtherException ''TesseractError'' \<noteq> ProcessingError"
proof -
  have p: "str_path x17_pdf = ''docs/x17.pdf''"
    by (simp add: str_path_def x17_pdf_def)
  have n: "\<not> contains (basic_prefix @ ''Failed loading language spa'') ''docs/x17.pdf''"
    by (simp add: basic_prefix_def)
  have f: "fst (TesseractAdapter_extract_text second_page_fails (adapter_init ''spa'' 300) x17_pdf) =
     Inl (Exn ProcessingError (basic_prefix @ ''Failed loading language spa''))"
    by (simp add: TesseractAdapter_extract_text_def reraise_ProcessingError_def
        second_page_fails_calls adapter_init_def)
  have l: "ocr_adapters_Tesseract_extract_text second_page_fails \<lparr> lang = ''spa'', dpi = 300 \<rparr> x17_pdf =
     Inl (Exn (OtherException ''TesseractError'') ''Failed loading language spa'')"
    by (simp add: ocr_adapters_Tesseract_extract_text_def second_page_fails_calls)
  from p n f l show ?thesis by simp
qed

subsection \<open>C8: the document is named after the allocated directory\<close>

text \<open>
  Claim C8. For every successful run of \<^verbatim>\<open>ProcessDocument.execute\<close>, and of
  \<^verbatim>\<open>DocumentProcessor.process\<close>, on file storage: the output directory of the
  returned document is the directory that \<^verbatim>\<open>_create_unique_dir\<close> allocated for the
  stem of the PDF's path, the document's name is the name of that directory, and the
  name equals the stem exactly when nothing of the stem's name existed in the output
  root, so that a name different from the stem tells the caller that the directory
  was renamed.
\<close>

theorem document_name_is_allocated_directory:
  "(\<forall>document s1 files1.
      ProcessDocument_execute env ocr table_extractor (FileStorage_port env self) pdf_path
        (s, files) = (Inr document, s1, files1) \<longrightarrow>
      (\<exists>f0. create_unique_dir env self (path_stem pdf_path) files
               = (Inr (output_directory document), f0)) \<and>
      name document = path_name (output_directory document) \<and>
      (name document = path_stem pdf_path \<longleftrightarrow>
         \<not> path_exists files (output_dir self @ [path_stem pdf_path]))) \<and>
   (\<forall>document s1 files1.
      DocumentProcessor_process ocr table_extractor (FileStorage_save env self) pdf_path
        (s, files) = (Inr document, s1, files1) \<longrightarrow>
      (\<exists>f0. create_unique_dir env self (path_stem pdf_path) files
               = (Inr (output_directory document), f0)) \<and>
      name document = path_name (output_directory document) \<and>
      (name document = path_stem pdf_path \<longleftrightarrow>
         \<not> path_exists files (output_dir self @ [path_stem pdf_path])))"
proof (intro conjI allI impI)
  fix document s1 files1
  assume "ProcessDocument_execute env ocr table_extractor (FileStorage_port env self) pdf_path
        (s, files) = (Inr document, s1, files1)"
  from ProcessDocument_execute_Inr[OF this] obtain d f0 where
    c: "create_unique_dir env self (path_stem pdf_path) files = (Inr d, f0)"
    and n: "name document = path_name d" and o: "output_directory document = d"
    by auto
  from c o show "\<exists>f0. create_unique_dir env self (path_stem pdf_path) files
               = (Inr (output_directory document), f0)" by auto
  from n o show "name document = path_name (output_directory document)" by simp
  from allocated_name[OF c] n
  show "name document = path_stem pdf_path \<longleftrightarrow>
         \<not> path_exists files (output_dir self @ [path_stem pdf_path])" by simp
next
  fix document s1 files1
  assume "DocumentProcessor_process ocr table_extractor (FileStorage_save env self) pdf_path
        (s, files) = (Inr document, s1, files1)"
  from DocumentProcessor_process_Inr[OF this] obtain d f0 where
    c: "create_unique_dir env self (path_stem pdf_path) files = (Inr d, f0)"
    and n: "name document = path_name d" and o: "output_directory document = d"
    by auto
  from c o show "\<exists>f0. create_unique_dir env self (path_stem pdf_path) files
               = (Inr (output_directory document), f0)" by auto
  from n o show "name document = path_name (output_directory document)" by simp
  from allocated_name[OF c] n
  show "name document = path_stem pdf_path \<longleftrightarrow>
         \<not> path_exists files (output_dir self @ [path_stem pdf_path])" by simp
qed

text \<open>
  A run on \<^verbatim>\<open>pdfs/informe.pdf\<close> when \<^verbatim>\<open>resultado/informe\<close> exists: the document
  is named \<^verbatim>\<open>informe_01\<close>, which differs from the stem.
\<close>

theorem document_name_is_allocated_directory_witness:
  "ProcessDocument_execute no_io_errors (factory_ocr_port one_page_libs) create_table_extractor
      (FileStorage_port no_io_errors resultado) informe_pdf
      (TesseractAdapter (adapter_init ''spa'' 300), taken_files)
     = (Inr example_document, TesseractAdapter (adapter_init ''spa'' 300), example_files) \<and>
   name example_document = ''informe_01'' \<and>
   path_stem informe_pdf = ''informe'' \<and>
   path_exists taken_files (output_dir resultado @ [path_stem informe_pdf]) \<and>
   name example_document = path_name (output_directory example_document)"
proof -
  note run = example_run[unfolded factory_pipeline_def]
  note t = document_name_is_allocated_directory[where env = no_io_errors
      and ocr = "factory_ocr_port one_page_libs" and table_extractor = create_table_extractor
      and self = resultado and pdf_path = informe_pdf
      and s = "TesseractAdapter (adapter_init ''spa'' 300)" and files = taken_files,
      THEN conjunct1, rule_format, OF run]
  have n: "name example_document = ''informe_01''"
    by (simp add: example_document_def)
  from t n path_stem_informe have "path_exists taken_files (output_dir resultado @ [path_stem informe_pdf])"
    by auto
  with run n path_stem_informe t show ?thesis by simp
qed

subsection \<open>C10: no tables, and no tables file\<close>

text \<open>
  Claim C10. \<^verbatim>\<open>SimpleTableAdapter.extract_tables\<close> returns the empty list for every
  path, and it is the extractor that the factory creates. Hence every document that the
  factory's pipeline returns has no tables, the tables file of its output directory is
  not among its generated files, and the run leaves that path as it was. In general,
  \<^verbatim>\<open>save_document\<close> lists the tables file among the files it wrote exactly when the
  document's tables are non-empty.
\<close>

theorem simple_tables_never_written:
  "SimpleTableAdapter_extract_tables pdf_path = Inr [] \<and>
   create_table_extractor = SimpleTableAdapter_extract_tables \<and>
   (\<forall>document a1 files1.
      factory_pipeline env libs storage pdf_path (a, files) = (Inr document, a1, files1) \<longrightarrow>
      tables document = [] \<and>
      tables_file (output_directory document) \<notin> set (generated_files document) \<and>
      map_of files1 (tables_file (output_directory document))
        = map_of files (tables_file (output_directory document))) \<and>
   (\<forall>doc gen files1.
      save_document env storage doc files = (Inr gen, files1) \<longrightarrow>
      (tables_file (path_parent (hd gen)) \<in> set gen \<longleftrightarrow> ent_tables doc \<noteq> []))"
proof (intro conjI allI impI)
  show "SimpleTableAdapter_extract_tables pdf_path = Inr []"
    by (simp add: SimpleTableAdapter_extract_tables_def)
  show "create_table_extractor = SimpleTableAdapter_extract_tables"
    by (simp add: create_table_extractor_def)
next
  fix document a1 files1
  assume "factory_pipeline env libs storage pdf_path (a, files) = (Inr document, a1, files1)"
  then have run: "ProcessDocument_execute env (factory_ocr_port libs) create_table_extractor
      (FileStorage_port env storage) pdf_path (a, files) = (Inr document, a1, files1)"
    by (simp add: factory_pipeline_def)
  from ProcessDocument_execute_Inr[OF run] obtain etext tbls d f0 copied where
    tb: "create_table_extractor pdf_path = Inr tbls"
    and c: "create_unique_dir env storage (path_stem pdf_path) files = (Inr d, f0)"
    and m: "\<forall>q. q \<notin> set (generated_files document) \<longrightarrow> map_of files1 q = map_of f0 q"
    and t: "tables document = tbls" and o: "output_directory document = d"
    and g: "generated_files document =
              files_of (entity_Document_init env (path_stem pdf_path) etext tbls (Some pdf_path))
                d copied"
    by auto
  from tb have e: "tbls = []"
    by (simp add: create_table_extractor_def SimpleTableAdapter_extract_tables_def)
  with t show "tables document = []" by simp
  from e g o show n: "tables_file (output_directory document) \<notin> set (generated_files document)"
    by (simp add: tables_file_in_files_of ent_init_fields)
  from m n have "map_of files1 (tables_file (output_directory document))
                   = map_of f0 (tables_file (output_directory document))" by simp
  also have "\<dots> = map_of files (tables_file (output_directory document))"
    unfolding o tables_file_def by (rule create_unique_dir_map_of[OF c])
  finally show "map_of files1 (tables_file (output_directory document))
        = map_of files (tables_file (output_directory document))" .
next
  fix doc gen files1
  assume "save_document env storage doc files = (Inr gen, files1)"
  from save_document_Inr[OF this] obtain d copied where "gen = files_of doc d copied"
    by blast
  then show "tables_file (path_parent (hd gen)) \<in> set gen \<longleftrightarrow> ent_tables doc \<noteq> []"
    by (simp add: files_of_parent tables_file_in_files_of)
qed

text \<open>The example run: no tables, and three files, none of them the tables file.\<close>

theorem simple_tables_never_written_witness:
  "factory_pipeline no_io_errors one_page_libs resultado informe_pdf
      (TesseractAdapter (adapter_init ''spa'' 300), taken_files)
     = (Inr example_document, TesseractAdapter (adapter_init ''spa'' 300), example_files) \<and>
   tables example_document = [] \<and>
   tables_file (output_directory example_document) \<notin> set (generated_files example_document) \<and>
   tables_file (output_directory example_document)
     = [''resultado'', ''informe_01'', ''informe_01_tablas.json'']"
proof -
  note t = simple_tables_never_written[where env = no_io_errors and libs = one_page_libs
      and storage = resultado and pdf_path = informe_pdf
      and a = "TesseractAdapter (adapter_init ''spa'' 300)" and files = taken_files,
      THEN conjunct2, THEN conjunct2, THEN conjunct1, rule_format, OF example_run]
  have "tables_file (output_directory example_document)
     = [''resultado'', ''informe_01'', ''informe_01_tablas.json'']"
    by (simp add: tables_file_def example_document_def path_name_def)
  with t example_run show ?thesis by simp
qed

subsection \<open>C9: the confidence is always zero\<close>

text \<open>
  Claim C9. Both adapters that the factory creates start with \<^verbatim>\<open>last_confidence\<close>
  0.0 and no public method changes it: after every sequence of calls of
  \<^verbatim>\<open>extract_text\<close>, \<^verbatim>\<open>get_confidence\<close>, \<^verbatim>\<open>get_engine_info\<close> and
  \<^verbatim>\<open>get_supported_languages\<close>, \<^verbatim>\<open>get_confidence\<close> returns 0.0 and leaves the
  adapter as it is, and every document that the factory's pipeline returns with such an
  adapter has confidence 0.0.
\<close>

theorem confidence_always_zero:
  assumes "create_ocr_adapter config = Inr a0"
  shows "last_confidence (adapter_init l d) = 0 \<and>
         adapter_confidence (foldl (adapter_after libs) a0 calls) = 0 \<and>
         adapter_get_confidence (foldl (adapter_after libs) a0 calls)
           = (Inr 0, foldl (adapter_after libs) a0 calls) \<and>
         (\<forall>document st1.
            factory_pipeline env libs storage pdf_path (foldl (adapter_after libs) a0 calls, files)
              = (Inr document, st1) \<longrightarrow> confidence document = 0)"
proof -
  let ?a = "foldl (adapter_after libs) a0 calls"
  have z: "adapter_confidence ?a = 0"
    by (simp add: adapter_confidence_calls adapter_confidence_created[OF assms])
  have "\<forall>document st1. factory_pipeline env libs storage pdf_path (?a, files)
              = (Inr document, st1) \<longrightarrow> confidence document = 0"
  proof (intro allI impI)
    fix document st1
    assume "factory_pipeline env libs storage pdf_path (?a, files) = (Inr document, st1)"
    then have run: "ProcessDocument_execute env (factory_ocr_port libs) create_table_extractor
        (FileStorage_port env storage) pdf_path (?a, files) = (Inr document, fst st1, snd st1)"
      by (simp add: factory_pipeline_def)
    from ProcessDocument_execute_Inr[OF run] obtain etext conf where
      x: "ExtractDocumentText_execute (factory_ocr_port libs) pdf_path ?a
            = (Inr (etext, conf), fst st1)"
      and c: "confidence document = conf"
      by auto
    from factory_port_confidence[OF x] c z show "confidence document = 0" by simp
  qed
  with z show ?thesis
    by (simp add: adapter_get_confidence_eq adapter_init_def)
qed

text \<open>The basic adapter after an extraction and a query of the engine.\<close>

theorem confidence_always_zero_witness:
  "create_ocr_adapter basic_config = Inr (TesseractAdapter (adapter_init ''spa'' 300)) \<and>
   adapter_get_confidence
      (foldl (adapter_after one_page_libs) (TesseractAdapter (adapter_init ''spa'' 300))
         [Call_extract_text informe_pdf, Call_get_engine_info])
     = (Inr 0, foldl (adapter_after one_page_libs) (TesseractAdapter (adapter_init ''spa'' 300))
         [Call_extract_text informe_pdf, Call_get_engine_info]) \<and>
   confidence example_document = 0"
proof -
  have c: "create_ocr_adapter basic_config = Inr (TesseractAdapter (adapter_init ''spa'' 300))"
    by (simp add: create_ocr_adapter_def basic_config_def ENGINE_TYPE_BASIC_def)
  note t = confidence_always_zero[OF c, where libs = one_page_libs]
  have "confidence example_document = 0"
    by (simp add: example_document_def)
  with c t[of _ _ "[Call_extract_text informe_pdf, Call_get_engine_info]"] show ?thesis
    by simp
qed

subsection \<open>C3: a path that is no readable PDF\<close>




end
